theory Spec2Isabelle
  imports Complex_Main "HOL-Library.Sublist"
begin

text \<open>
  A model of the NFSe emitter for Bling: the token lifecycle, the contact resolution, the
  generation of RPS from sales orders, the submission to the municipality and the
  synchronisation of the queue, as written in \<^verbatim>\<open>bling.service.ts\<close> and
  \<^verbatim>\<open>rps.service.ts\<close>, with the order filter of \<^verbatim>\<open>PedidosVenda.tsx\<close>.
  The first part translates the code; the second part states and proves its properties.
  The delays between calls and the console output are not part of the model.
\<close>

section \<open>JavaScript values used by the service\<close>

text \<open>
  Strings are lists of 8-bit characters. The accented letters of the Portuguese
  messages are Latin-1 code units and are written with their code (\<open>CHR 0xE1\<close> is
  a-acute). A character outside Latin-1 is never a decimal digit, so nothing the
  digit filters below compute depends on the 8-bit restriction.
\<close>

definition eh_digito :: "char \<Rightarrow> bool" where
  "eh_digito c = (c \<in> set ''0123456789'')"

text \<open>\<^verbatim>\<open>s.replace(/\D/g, '')\<close>: every character that is not a decimal digit is dropped.\<close>

definition so_digitos :: "string \<Rightarrow> string" where
  "so_digitos s = filter eh_digito s"

text \<open>Truthiness of an optional string: \<^verbatim>\<open>undefined\<close>, \<^verbatim>\<open>null\<close> and \<^verbatim>\<open>''\<close> are falsy.\<close>

definition verdadeiro :: "string option \<Rightarrow> bool" where
  "verdadeiro v = (case v of None \<Rightarrow> False | Some s \<Rightarrow> s \<noteq> [])"

definition digito :: "nat \<Rightarrow> char" where
  "digito d = ''0123456789'' ! d"

text \<open>\<^verbatim>\<open>String(n)\<close> for an integral number: its decimal numeral.\<close>

fun digitos_de :: "nat \<Rightarrow> string" where
  "digitos_de n = (if n < 10 then [digito n] else digitos_de (n div 10) @ [digito (n mod 10)])"

declare digitos_de.simps [simp del]

definition numero_String :: "int \<Rightarrow> string" where
  "numero_String i = (if i < 0 then CHR ''-'' # digitos_de (nat (- i)) else digitos_de (nat i))"

text \<open>\<^verbatim>\<open>s.padStart(n, c)\<close> with a one-character filler, and \<^verbatim>\<open>s.slice(0, n)\<close>.\<close>

definition padStart :: "nat \<Rightarrow> char \<Rightarrow> string \<Rightarrow> string" where
  "padStart n c s = replicate (n - length s) c @ s"

definition slice0 :: "nat \<Rightarrow> string \<Rightarrow> string" where
  "slice0 n s = take n s"

text \<open>\<^verbatim>\<open>s.trim()\<close>: the white space of Latin-1 is removed at both ends.\<close>

definition espaco :: "char \<Rightarrow> bool" where
  "espaco c = (c \<in> set [CHR 0x09, CHR 0x0A, CHR 0x0B, CHR 0x0C, CHR 0x0D, CHR 0x20, CHR 0xA0])"

definition trim :: "string \<Rightarrow> string" where
  "trim s = rev (dropWhile espaco (rev (dropWhile espaco s)))"

text \<open>
  A thrown value: the \<^verbatim>\<open>name\<close> and \<^verbatim>\<open>message\<close> of the error object. Every
  \<^verbatim>\<open>throw\<close> of the source is an \<open>Inl\<close> of the model.
\<close>

datatype excecao = Excecao (exc_name: string) (exc_message: string)

definition BadRequestException :: "string \<Rightarrow> excecao" where
  "BadRequestException m = Excecao ''BadRequestException'' m"

definition TypeError :: "string \<Rightarrow> excecao" where
  "TypeError m = Excecao ''TypeError'' m"

definition SyntaxError :: "string \<Rightarrow> excecao" where
  "SyntaxError m = Excecao ''SyntaxError'' m"

definition Error :: "string \<Rightarrow> excecao" where
  "Error m = Excecao ''Error'' m"

text \<open>
  The outcome of one \<^verbatim>\<open>fetch\<close>: the promise rejects (the abort of the timeout
  controller rejects with an error named \<^verbatim>\<open>AbortError\<close>), or a response arrives
  with its status, its text and, when the text is JSON of the expected shape, the parsed
  body (\<open>None\<close>: \<^verbatim>\<open>response.json()\<close> throws).
\<close>

datatype 'a resposta = Resposta (http_status: nat) (http_texto: string) (http_json: "'a option")

datatype 'a fetch = Rejeitou excecao | Chegou "'a resposta"

definition ok :: "'a resposta \<Rightarrow> bool" where
  "ok r = (200 \<le> http_status r \<and> http_status r \<le> 299)"

section \<open>Token lifecycle (bling.service.ts, lines 326-401 and 500-577)\<close>

record blingTokens =
  access_token :: string
  expires_in :: int
  token_type :: string
  scope :: string
  refresh_token :: string
  expires_at :: "int option"

text \<open>The tokens file: absent, unreadable as JSON, or holding a token object.\<close>

datatype arquivo = Ilegivel | Conteudo blingTokens

text \<open>The lines the token methods write through \<^verbatim>\<open>this.logger\<close>.\<close>

datatype registro =
    TokenProximoDoVencimento
  | TokenRenovado
  | TimeoutAoRenovar
  | ErroAoRenovar string
  | TokensCarregados
  | TokensExpirados
  | ErroAoCarregar
  | TokensSalvos
  | ArquivoRemovido
  | TokensRemovidos

text \<open>
  The mutable state of the service that the token methods read and write: the in-memory
  tokens, the tokens file and the log. File operations are taken to succeed (the
  \<^verbatim>\<open>catch\<close> blocks of \<^verbatim>\<open>saveTokens\<close> and \<^verbatim>\<open>deleteTokensFile\<close> only
  log).
\<close>

record blingService =
  tokens :: "blingTokens option"
  tokens_file :: "arquivo option"
  logger :: "registro list"

text \<open>
  What the outside world answers during one call: the token endpoint, by refresh token,
  and the reading of \<^verbatim>\<open>Date.now()\<close> when the answer is processed.
\<close>

record mundo_token =
  token_url :: "string \<Rightarrow> blingTokens fetch"
  agora_resposta :: int

definition registrar :: "registro \<Rightarrow> blingService \<Rightarrow> blingService" where
  "registrar m s = s\<lparr>logger := logger s @ [m]\<rparr>"

definition saveTokens :: "blingTokens \<Rightarrow> blingService \<Rightarrow> blingService" where
  "saveTokens t s = registrar TokensSalvos (s\<lparr>tokens_file := Some (Conteudo t)\<rparr>)"

definition deleteTokensFile :: "blingService \<Rightarrow> blingService" where
  "deleteTokensFile s =
     (if tokens_file s \<noteq> None then registrar ArquivoRemovido (s\<lparr>tokens_file := None\<rparr>) else s)"

definition clearTokens :: "blingService \<Rightarrow> blingService" where
  "clearTokens s = deleteTokensFile (registrar TokensRemovidos (s\<lparr>tokens := None\<rparr>))"

text \<open>\<^verbatim>\<open>tokens.expires_at && now < tokens.expires_at\<close>: a missing or zero timestamp is falsy.\<close>

definition nao_expirado :: "int \<Rightarrow> blingTokens \<Rightarrow> bool" where
  "nao_expirado now t = (case expires_at t of None \<Rightarrow> False | Some e \<Rightarrow> e \<noteq> 0 \<and> now < e)"

definition loadTokens :: "int \<Rightarrow> blingService \<Rightarrow> blingService" where
  "loadTokens now s =
     (case tokens_file s of
        None \<Rightarrow> s
      | Some Ilegivel \<Rightarrow> registrar ErroAoCarregar s
      | Some (Conteudo t) \<Rightarrow>
          if nao_expirado now t then registrar TokensCarregados (s\<lparr>tokens := Some t\<rparr>)
          else deleteTokensFile (registrar TokensExpirados s))"

text \<open>
  The constructor: the field initialiser \<^verbatim>\<open>tokens = null\<close>, then \<^verbatim>\<open>loadTokens()\<close>
  (\<^verbatim>\<open>loadCredentials()\<close> touches the client configuration only).
\<close>

definition construtor :: "int \<Rightarrow> arquivo option \<Rightarrow> blingService" where
  "construtor now f = loadTokens now \<lparr>tokens = None, tokens_file = f, logger = []\<rparr>"

definition msg_sem_refresh_token :: string where
  "msg_sem_refresh_token = ''Nenhum refresh token dispon'' @ [CHR 0xED] @ ''vel''"

definition msg_sem_token :: string where
  "msg_sem_token = ''Nenhum token dispon'' @ [CHR 0xED] @ ''vel. Realize a autentica''
     @ [CHR 0xE7, CHR 0xE3] @ ''o primeiro.''"

definition msg_timeout_renovacao :: string where
  "msg_timeout_renovacao = ''Timeout na renova'' @ [CHR 0xE7, CHR 0xE3] @ ''o do token: A API do Bling est''
     @ [CHR 0xE1] @ '' lenta. Tente novamente.''"

definition expiresAt_ou_0 :: "blingTokens \<Rightarrow> int" where
  "expiresAt_ou_0 t = (case expires_at t of None \<Rightarrow> 0 | Some e \<Rightarrow> e)"

definition refreshAccessToken :: "mundo_token \<Rightarrow> blingService \<Rightarrow> (excecao + blingTokens) \<times> blingService" where
  "refreshAccessToken w s =
     (case tokens s of
        None \<Rightarrow> (Inl (BadRequestException msg_sem_refresh_token), s)
      | Some t \<Rightarrow>
          if refresh_token t = [] then (Inl (BadRequestException msg_sem_refresh_token), s)
          else
            (case token_url w (refresh_token t) of
               Rejeitou e \<Rightarrow>
                 if exc_name e = ''AbortError''
                 then (Inl (BadRequestException msg_timeout_renovacao), registrar TimeoutAoRenovar s)
                 else (Inl e, registrar (ErroAoRenovar (exc_message e)) s)
             | Chegou r \<Rightarrow>
                 if \<not> ok r then
                   (Inl (BadRequestException ''Falha ao renovar token de acesso''),
                    registrar (ErroAoRenovar ''Falha ao renovar token de acesso'')
                      (registrar (ErroAoRenovar (digitos_de (http_status r) @ '' - '' @ http_texto r)) s))
                 else
                   (case http_json r of
                      None \<Rightarrow>
                        (Inl (SyntaxError ''Unexpected token''),
                         registrar (ErroAoRenovar ''Unexpected token'') s)
                    | Some newTokens \<Rightarrow>
                        let nt = newTokens\<lparr>expires_at :=
                                   Some (agora_resposta w + expires_in newTokens * 1000)\<rparr>
                        in (Inr nt, saveTokens nt (registrar TokenRenovado (s\<lparr>tokens := Some nt\<rparr>))))))"

definition ensureValidToken :: "mundo_token \<Rightarrow> int \<Rightarrow> blingService \<Rightarrow> (excecao + string) \<times> blingService" where
  "ensureValidToken w now s =
     (case tokens s of
        None \<Rightarrow> (Inl (BadRequestException msg_sem_token), s)
      | Some t \<Rightarrow>
          if now \<ge> expiresAt_ou_0 t - 5 * 60 * 1000 then
            (case refreshAccessToken w (registrar TokenProximoDoVencimento s) of
               (Inl e, s') \<Rightarrow> (Inl e, s')
             | (Inr _, s') \<Rightarrow>
                 (case tokens s' of
                    None \<Rightarrow> (Inl (TypeError ''Cannot read properties of null''), s')
                  | Some t' \<Rightarrow> (Inr (access_token t'), s')))
          else (Inr (access_token t), s))"

text \<open>
  A call triggered a refresh when what it returns and the state it leaves are those of
  \<^verbatim>\<open>refreshAccessToken()\<close>, run after the line that announces it is logged: the
  exception of the refresh, or the access token of the tokens the refresh obtained.
\<close>

definition disparou_renovacao :: "mundo_token \<Rightarrow> int \<Rightarrow> blingService \<Rightarrow> bool" where
  "disparou_renovacao w now s =
     (ensureValidToken w now s =
        (case refreshAccessToken w (registrar TokenProximoDoVencimento s) of
           (Inl e, s') \<Rightarrow> (Inl e, s')
         | (Inr newTokens, s') \<Rightarrow> (Inr (access_token newTokens), s')))"

subsection \<open>Sample token states\<close>

definition ex_tokens :: "int \<Rightarrow> blingTokens" where
  "ex_tokens e = \<lparr>access_token = ''A'', expires_in = 3600, token_type = ''Bearer'',
                  scope = ''x'', refresh_token = ''R'', expires_at = Some e\<rparr>"

definition ex_blingService :: "int \<Rightarrow> blingService" where
  "ex_blingService e = \<lparr>tokens = Some (ex_tokens e), tokens_file = None, logger = []\<rparr>"

definition ex_mundo_token :: mundo_token where
  "ex_mundo_token = \<lparr>token_url = (\<lambda>r. Rejeitou (Excecao ''AbortError'' ''aborted'')),
                      agora_resposta = 1000001\<rparr>"

definition ex_tokens_novos :: blingTokens where
  "ex_tokens_novos = \<lparr>access_token = ''B'', expires_in = 3600, token_type = ''Bearer'',
                       scope = ''x'', refresh_token = ''R2'', expires_at = None\<rparr>"

definition ex_mundo_token_renova :: mundo_token where
  "ex_mundo_token_renova =
     \<lparr>token_url = (\<lambda>r. Chegou (Resposta 200 ''{}'' (Some ex_tokens_novos))),
      agora_resposta = 1000001\<rparr>"

section \<open>Resolving the contact of a duplicata (bling.service.ts, lines 826-1126)\<close>

record responsavel =
  resp_cpf :: "string option"
  resp_nome :: "string option"
  resp_email :: "string option"
  resp_celular :: "string option"
  resp_cep :: "string option"
  resp_endereco :: "string option"
  resp_bairro :: "string option"

record duplicata =
  dup_numero :: int
  dup_nomeAluno :: "string option"
  dup_responsavel :: "responsavel option"
  dup_rps :: "string option"

text \<open>An entry of \<^verbatim>\<open>result.data\<close> of the contact search.\<close>

record contato_achado =
  achado_id :: int
  achado_nome :: string
  achado_numeroDocumento :: "string option"

text \<open>The profile \<^verbatim>\<open>GET /contatos/{id}\<close> delivers in \<^verbatim>\<open>data\<close>.\<close>

record contato_bling =
  cont_id :: int
  cont_nome :: string
  cont_numeroDocumento :: "string option"
  cont_cpfCnpj :: "string option"
  cont_email :: "string option"

text \<open>
  The body of \<^verbatim>\<open>POST /contatos\<close>: the members computed from the duplicata (the
  others are constants).
\<close>

record dadosContato =
  dc_nome :: string
  dc_numeroDocumento :: string
  dc_celular :: string
  dc_email :: string
  dc_endereco :: string
  dc_cep :: string
  dc_bairro :: string

record contato_criado =
  cc_id :: int
  cc_nome :: string
  cc_numeroDocumento :: string
  cc_email :: string
  cc_celular :: string

text \<open>
  What the outside world answers to the contact calls: the token endpoint and the clock
  read by \<^verbatim>\<open>ensureValidToken\<close>, the search by \<^verbatim>\<open>pesquisa\<close>, the profile by id
  and the creation. A parsed body is its \<^verbatim>\<open>data\<close> member (\<open>None\<close> when the body has
  none); for the creation it is \<^verbatim>\<open>data.id\<close>.
\<close>

record mundo_contatos =
  mc_token :: mundo_token
  mc_agora :: int
  buscar_contatos :: "string \<Rightarrow> contato_achado list option fetch"
  detalhes_contato :: "int \<Rightarrow> contato_bling option fetch"
  criar_contato :: "dadosContato \<Rightarrow> int option fetch"

definition ou_texto :: "string option \<Rightarrow> string \<Rightarrow> string" where
  "ou_texto v d = (if verdadeiro v then the v else d)"

text \<open>The \<^verbatim>\<open>try\<close> block of \<^verbatim>\<open>buscarContatoPorCPF\<close>.\<close>

definition tentarBuscarContatoPorCPF ::
  "mundo_contatos \<Rightarrow> string \<Rightarrow> blingService \<Rightarrow> (excecao + contato_achado option) \<times> blingService" where
  "tentarBuscarContatoPorCPF w cpf s =
     (case ensureValidToken (mc_token w) (mc_agora w) s of
        (Inl e, s') \<Rightarrow> (Inl e, s')
      | (Inr _, s') \<Rightarrow>
          (case buscar_contatos w cpf of
             Rejeitou e \<Rightarrow> (Inl e, s')
           | Chegou response \<Rightarrow>
               if \<not> ok response then (Inr None, s')
               else
                 (case http_json response of
                    None \<Rightarrow> (Inl (SyntaxError ''Unexpected token''), s')
                  | Some None \<Rightarrow> (Inr None, s')
                  | Some (Some dados) \<Rightarrow>
                      if length dados > 0
                      then (Inr (find (\<lambda>c. verdadeiro (achado_numeroDocumento c)
                                          \<and> so_digitos (the (achado_numeroDocumento c)) = cpf) dados), s')
                      else (Inr None, s'))))"

text \<open>
  \<^verbatim>\<open>buscarContatoPorCPF\<close>: the \<^verbatim>\<open>catch\<close> answers \<^verbatim>\<open>null\<close> to the timeout
  (\<^verbatim>\<open>AbortError\<close>) and to every other exception.
\<close>

definition buscarContatoPorCPF ::
  "mundo_contatos \<Rightarrow> string \<Rightarrow> blingService \<Rightarrow> (excecao + contato_achado option) \<times> blingService" where
  "buscarContatoPorCPF w cpf s =
     (case tentarBuscarContatoPorCPF w cpf s of
        (Inr r, s') \<Rightarrow> (Inr r, s')
      | (Inl error, s') \<Rightarrow>
          if exc_name error = ''AbortError'' then (Inr None, s') else (Inr None, s'))"

definition tentarObterDetalhesContato ::
  "mundo_contatos \<Rightarrow> int \<Rightarrow> blingService \<Rightarrow> (excecao + contato_bling option) \<times> blingService" where
  "tentarObterDetalhesContato w i s =
     (case ensureValidToken (mc_token w) (mc_agora w) s of
        (Inl e, s') \<Rightarrow> (Inl e, s')
      | (Inr _, s') \<Rightarrow>
          (case detalhes_contato w i of
             Rejeitou e \<Rightarrow> (Inl e, s')
           | Chegou response \<Rightarrow>
               if \<not> ok response then (Inr None, s')
               else
                 (case http_json response of
                    None \<Rightarrow> (Inl (SyntaxError ''Unexpected token''), s')
                  | Some dados \<Rightarrow> (Inr dados, s'))))"

definition obterDetalhesContato ::
  "mundo_contatos \<Rightarrow> int \<Rightarrow> blingService \<Rightarrow> (excecao + contato_bling option) \<times> blingService" where
  "obterDetalhesContato w i s =
     (case tentarObterDetalhesContato w i s of
        (Inr r, s') \<Rightarrow> (Inr r, s')
      | (Inl error, s') \<Rightarrow>
          if exc_name error = ''AbortError'' then (Inr None, s') else (Inr None, s'))"

definition campo :: "responsavel option \<Rightarrow> (responsavel \<Rightarrow> string option) \<Rightarrow> string option" where
  "campo r f = (case r of None \<Rightarrow> None | Some x \<Rightarrow> f x)"

text \<open>\<^verbatim>\<open>x?.replace(/\D/g, '')\<close>: the digits of a present string.\<close>

definition digitos_opcionais :: "string option \<Rightarrow> string option" where
  "digitos_opcionais v = map_option so_digitos v"

definition montarDadosContato :: "duplicata \<Rightarrow> dadosContato" where
  "montarDadosContato d =
     (let r = dup_responsavel d;
          cpfLimpo = ou_texto (digitos_opcionais (campo r resp_cpf)) [];
          cepLimpo = ou_texto (digitos_opcionais (campo r resp_cep)) [];
          telefoneLimpo = ou_texto (digitos_opcionais (campo r resp_celular)) []
      in \<lparr>dc_nome = ou_texto (campo r resp_nome)
                      (''Respons'' @ [CHR 0xE1] @ ''vel por ''
                         @ (case dup_nomeAluno d of None \<Rightarrow> ''undefined'' | Some n \<Rightarrow> n)),
          dc_numeroDocumento = cpfLimpo,
          dc_celular = telefoneLimpo,
          dc_email = ou_texto (campo r resp_email) [],
          dc_endereco = ou_texto (campo r resp_endereco) [],
          dc_cep = cepLimpo,
          dc_bairro = ou_texto (campo r resp_bairro) []\<rparr>)"

definition tentarCriarContato ::
  "mundo_contatos \<Rightarrow> duplicata \<Rightarrow> blingService \<Rightarrow> (excecao + contato_criado) \<times> blingService" where
  "tentarCriarContato w d s =
     (case ensureValidToken (mc_token w) (mc_agora w) s of
        (Inl e, s') \<Rightarrow> (Inl e, s')
      | (Inr _, s') \<Rightarrow>
          let dados = montarDadosContato d in
          (case criar_contato w dados of
             Rejeitou e \<Rightarrow> (Inl e, s')
           | Chegou response \<Rightarrow>
               if \<not> ok response
               then (Inl (Error (''Erro ao criar contato: '' @ digitos_de (http_status response)
                                   @ '' - '' @ http_texto response)), s')
               else
                 (case http_json response of
                    None \<Rightarrow> (Inl (SyntaxError ''Unexpected token''), s')
                  | Some None \<Rightarrow>
                      (Inl (TypeError ''Cannot read properties of undefined (reading id)''), s')
                  | Some (Some novoId) \<Rightarrow>
                      (Inr \<lparr>cc_id = novoId, cc_nome = dc_nome dados,
                            cc_numeroDocumento = dc_numeroDocumento dados,
                            cc_email = dc_email dados, cc_celular = dc_celular dados\<rparr>, s'))))"

definition msg_timeout_criar :: string where
  "msg_timeout_criar = ''Timeout: A API do Bling demorou mais de 30 segundos para criar o contato.''"

definition criarContato ::
  "mundo_contatos \<Rightarrow> duplicata \<Rightarrow> blingService \<Rightarrow> (excecao + contato_criado) \<times> blingService" where
  "criarContato w d s =
     (case tentarCriarContato w d s of
        (Inr r, s') \<Rightarrow> (Inr r, s')
      | (Inl error, s') \<Rightarrow>
          if exc_name error = ''AbortError'' then (Inl (Error msg_timeout_criar), s')
          else (Inl (Error (''Erro ao criar contato: '' @ exc_message error)), s'))"

definition msg_cpf_nao_informado :: "duplicata \<Rightarrow> string" where
  "msg_cpf_nao_informado d =
     ''CPF n'' @ [CHR 0xE3] @ ''o informado na duplicata #'' @ numero_String (dup_numero d)
       @ (if verdadeiro (dup_nomeAluno d) then '' ('' @ the (dup_nomeAluno d) @ '')'' else [])
       @ ''. Verifique se o campo CPF do respons'' @ [CHR 0xE1]
       @ ''vel est'' @ [CHR 0xE1] @ '' preenchido corretamente.''"

definition msg_sem_dados_completos :: "int \<Rightarrow> string" where
  "msg_sem_dados_completos contatoId =
     ''N'' @ [CHR 0xE3] @ ''o foi poss'' @ [CHR 0xED] @ ''vel obter os dados completos do contato ID: ''
       @ numero_String contatoId @ '' no Bling''"

text \<open>
  The last part of the \<^verbatim>\<open>try\<close> block of \<^verbatim>\<open>verificarOuCriarContato\<close>: with the
  id of the contact in hand, its full profile is read; no profile is an exception.
\<close>

definition buscarDadosCompletos ::
  "mundo_contatos \<Rightarrow> int \<Rightarrow> blingService \<Rightarrow> (excecao + contato_bling) \<times> blingService" where
  "buscarDadosCompletos w contatoId s =
     (case obterDetalhesContato w contatoId s of
        (Inl e, s') \<Rightarrow> (Inl e, s')
      | (Inr None, s') \<Rightarrow> (Inl (Error (msg_sem_dados_completos contatoId)), s')
      | (Inr (Some dadosCompletos), s') \<Rightarrow> (Inr dadosCompletos, s'))"

definition tentarVerificarOuCriarContato ::
  "mundo_contatos \<Rightarrow> duplicata \<Rightarrow> blingService \<Rightarrow> (excecao + contato_bling) \<times> blingService" where
  "tentarVerificarOuCriarContato w d s =
     (let cpf = digitos_opcionais (campo (dup_responsavel d) resp_cpf)
      in if \<not> verdadeiro cpf then (Inl (Error (msg_cpf_nao_informado d)), s)
         else
           (case buscarContatoPorCPF w (the cpf) s of
              (Inl e, s1) \<Rightarrow> (Inl e, s1)
            | (Inr (Some contatoExistente), s1) \<Rightarrow>
                buscarDadosCompletos w (achado_id contatoExistente) s1
            | (Inr None, s1) \<Rightarrow>
                (case criarContato w d s1 of
                   (Inl e, s2) \<Rightarrow> (Inl e, s2)
                 | (Inr novoContato, s2) \<Rightarrow> buscarDadosCompletos w (cc_id novoContato) s2)))"

definition verificarOuCriarContato ::
  "mundo_contatos \<Rightarrow> duplicata \<Rightarrow> blingService \<Rightarrow> (excecao + contato_bling) \<times> blingService" where
  "verificarOuCriarContato w d s =
     (case tentarVerificarOuCriarContato w d s of
        (Inr r, s') \<Rightarrow> (Inr r, s')
      | (Inl error, s') \<Rightarrow>
          (Inl (Error (''Erro ao verificar/criar contato: '' @ exc_message error)), s'))"

text \<open>
  What \<^verbatim>\<open>verificarOuCriarContato\<close> does once the search has answered \<^verbatim>\<open>null\<close>:
  the contact is created, its profile is read, and an exception of either step is rethrown
  with the prefix of the outer \<^verbatim>\<open>catch\<close>.
\<close>

definition aposBuscaSemContato ::
  "mundo_contatos \<Rightarrow> duplicata \<Rightarrow> blingService \<Rightarrow> (excecao + contato_bling) \<times> blingService" where
  "aposBuscaSemContato w d s1 =
     (case criarContato w d s1 of
        (Inl e, s2) \<Rightarrow> (Inl (Error (''Erro ao verificar/criar contato: '' @ exc_message e)), s2)
      | (Inr novoContato, s2) \<Rightarrow>
          (case buscarDadosCompletos w (cc_id novoContato) s2 of
             (Inl e, s3) \<Rightarrow> (Inl (Error (''Erro ao verificar/criar contato: '' @ exc_message e)), s3)
           | (Inr c, s3) \<Rightarrow> (Inr c, s3)))"

text \<open>The search call failed: the promise rejected (timeout or network), or the status is not 2xx.\<close>

definition busca_falhou :: "mundo_contatos \<Rightarrow> string \<Rightarrow> bool" where
  "busca_falhou w cpf =
     (case buscar_contatos w cpf of
        Rejeitou e \<Rightarrow> True
      | Chegou r \<Rightarrow> \<not> ok r)"

subsection \<open>A sample duplicata and a Bling whose contact search times out\<close>

definition ex_responsavel :: responsavel where
  "ex_responsavel = \<lparr>resp_cpf = Some ''123.456.789-09'', resp_nome = Some ''Maria'',
     resp_email = None, resp_celular = None, resp_cep = None, resp_endereco = None,
     resp_bairro = None\<rparr>"

definition ex_duplicata :: duplicata where
  "ex_duplicata = \<lparr>dup_numero = 42, dup_nomeAluno = Some ''Ana'',
     dup_responsavel = Some ex_responsavel, dup_rps = None\<rparr>"

definition ex_contato :: contato_bling where
  "ex_contato = \<lparr>cont_id = 77, cont_nome = ''Maria'', cont_numeroDocumento = Some ''12345678909'',
     cont_cpfCnpj = None, cont_email = None\<rparr>"

definition ex_mundo_contatos :: mundo_contatos where
  "ex_mundo_contatos =
     \<lparr>mc_token = ex_mundo_token, mc_agora = 520000,
      buscar_contatos = (\<lambda>cpf. Rejeitou (Excecao ''AbortError'' ''aborted'')),
      detalhes_contato = (\<lambda>i. Chegou (Resposta 200 ''{}'' (Some (Some ex_contato)))),
      criar_contato = (\<lambda>dados. Chegou (Resposta 201 ''{}'' (Some (Some 77))))\<rparr>"

section \<open>The RPS queue (pedido-venda-rps.entity.ts, rps.service.ts)\<close>

text \<open>
  The status column holds one of the four values the entity lists:
  \<^verbatim>\<open>pendente\<close>, \<^verbatim>\<open>processando\<close>, \<^verbatim>\<open>emitido\<close>, \<^verbatim>\<open>erro\<close>.
\<close>

datatype rps_status = Pendente | Processando | Emitido | Erro

text \<open>
  A row of \<^verbatim>\<open>pedidos_venda_rps\<close>. The three \<^verbatim>\<open>bigint\<close> columns are integers
  (the service passes them as decimal strings); nullable columns are options. The column
  \<^verbatim>\<open>updatedAt\<close>, which no method reads, is left out.
\<close>

record pedidoVendaRPS =
  rps_id :: nat
  pedidoVendaId :: int
  numeroPedido :: int
  numeroRPS :: "string option"
  serie :: "string option"
  nfseId :: "int option"
  numeroNFSe :: "string option"
  status :: rps_status
  mensagemErro :: "string option"
  valorTotal :: real
  nomeCliente :: string
  dataEmissao :: "int option"
  createdAt :: int

text \<open>
  The table, with the next value of the generated primary key. Reads and updates are taken
  to succeed; the one database failure in the model is the rejection of an insert by the
  unique constraint.
\<close>

record banco =
  linhas :: "pedidoVendaRPS list"
  proximo_id :: nat

record createRpsDto =
  dto_pedidoVendaId :: int
  dto_numeroPedido :: int
  dto_numeroRPS :: "string option"
  dto_serie :: "string option"
  dto_nfseId :: "int option"
  dto_status :: rps_status
  dto_valorTotal :: real
  dto_nomeCliente :: string
  dto_dataEmissao :: "int option"

definition QueryFailedError :: excecao where
  "QueryFailedError = Excecao ''QueryFailedError''
     ''duplicate key value violates unique constraint''"

text \<open>
  \<^verbatim>\<open>criar\<close>: \<^verbatim>\<open>rpsRepository.save\<close> inserts the row. The column
  \<^verbatim>\<open>pedidoVendaId\<close> is declared \<^verbatim>\<open>unique: true\<close>, so the insert of a second
  row for the same order is rejected by the database and \<^verbatim>\<open>criar\<close> rethrows. The
  second argument is the database clock, which fills \<^verbatim>\<open>createdAt\<close>.
\<close>

definition criar :: "int \<Rightarrow> createRpsDto \<Rightarrow> banco \<Rightarrow> excecao + (pedidoVendaRPS \<times> banco)" where
  "criar agora d b =
     (if dto_pedidoVendaId d \<in> set (map pedidoVendaId (linhas b)) then Inl QueryFailedError
      else
        let r = \<lparr>rps_id = proximo_id b,
                 pedidoVendaId = dto_pedidoVendaId d,
                 numeroPedido = dto_numeroPedido d,
                 numeroRPS = dto_numeroRPS d,
                 serie = dto_serie d,
                 nfseId = dto_nfseId d,
                 numeroNFSe = None,
                 status = dto_status d,
                 mensagemErro = None,
                 valorTotal = dto_valorTotal d,
                 nomeCliente = dto_nomeCliente d,
                 dataEmissao = dto_dataEmissao d,
                 createdAt = agora\<rparr>
        in Inr (r, b\<lparr>linhas := linhas b @ [r], proximo_id := Suc (proximo_id b)\<rparr>))"

definition buscarPorPedidoId :: "int \<Rightarrow> banco \<Rightarrow> pedidoVendaRPS option" where
  "buscarPorPedidoId pedidoId b = find (\<lambda>r. pedidoVendaId r = pedidoId) (linhas b)"

definition buscarPorId :: "nat \<Rightarrow> banco \<Rightarrow> pedidoVendaRPS option" where
  "buscarPorId i b = find (\<lambda>r. rps_id r = i) (linhas b)"

text \<open>
  \<^verbatim>\<open>atualizar(id, data)\<close>: the columns named in the partial object are overwritten in
  the row with that id. The partial object is the function that overwrites those columns,
  written at each call as a record update.
\<close>

definition atualizar :: "nat \<Rightarrow> (pedidoVendaRPS \<Rightarrow> pedidoVendaRPS) \<Rightarrow> banco \<Rightarrow> banco" where
  "atualizar i dados b = b\<lparr>linhas := map (\<lambda>r. if rps_id r = i then dados r else r) (linhas b)\<rparr>"

text \<open>
  \<^verbatim>\<open>listarFila\<close>: filter by status when one is given, newest first, then the page.
  Rows with equal \<^verbatim>\<open>createdAt\<close> come in an order the database does not fix; the
  model takes one.
\<close>

definition listarFila :: "nat \<Rightarrow> nat \<Rightarrow> rps_status option \<Rightarrow> banco \<Rightarrow> pedidoVendaRPS list" where
  "listarFila pagina limite st b =
     take limite (drop ((pagina - 1) * limite)
       (rev (sort_key createdAt
          (case st of None \<Rightarrow> linhas b | Some s \<Rightarrow> filter (\<lambda>r. status r = s) (linhas b)))))"

section \<open>Generating RPS for sales orders (bling.service.ts, lines 1513-1766)\<close>

record contato_pedido =
  cp_id :: int
  cp_numeroDocumento :: "string option"

text \<open>A line item; \<open>item_produto\<close> is \<^verbatim>\<open>item.produto.id\<close>, \<open>None\<close> when the item has no \<^verbatim>\<open>produto\<close>.\<close>

record item =
  item_produto :: "int option"
  item_descricao :: "string option"
  item_valor :: "real option"
  item_valorUnidade :: "real option"

text \<open>The identifier of a situation as the order list delivers it: a number or a string.\<close>

datatype js_id = IdNumero int | IdTexto string

record pedido =
  numero :: int
  contato :: "contato_pedido option"
  situacao :: "js_id option"
  itens :: "item list option"
  vendedor :: "int option"

record produto =
  tipo :: string
  prod_descricao :: "string option"

record servico =
  serv_descricao :: "string option"
  serv_valor :: real

text \<open>
  The body of \<^verbatim>\<open>POST /nfse\<close>. The optional contact fields that are copied as they are
  (\<^verbatim>\<open>ie\<close>, \<^verbatim>\<open>im\<close>, \<^verbatim>\<open>telefone\<close>, \<^verbatim>\<open>endereco\<close>) are left out.
\<close>

record payload =
  pay_numeroRPS :: string
  pay_serie :: string
  pay_data :: string
  pay_baseCalculo :: real
  pay_contato_id :: int
  pay_contato_nome :: string
  pay_contato_numeroDocumento :: string
  pay_contato_email :: string
  pay_servicos :: "(string \<times> string option \<times> real) list"
  pay_parcela_valor :: real
  pay_parcela_observacoes :: string
  pay_formaPagamento :: int
  pay_vendedor :: "int option"

record nfse_criada =
  criada_id :: int
  criada_numeroRPS :: "string option"
  criada_serie :: "string option"

record nfse_dados =
  nfse_situacao :: "int option"
  nfse_numero :: "string option"

text \<open>
  What Bling answers. Each field is the outcome of one call of
  \<^verbatim>\<open>makeAuthenticatedRequest\<close>: the exception it throws (no token, failed refresh,
  non-2xx status) or the \<^verbatim>\<open>data\<close> member of the parsed body (\<open>None\<close> when the body
  has none). \<open>contatos\<close> is the result of \<^verbatim>\<open>obterDetalhesContato\<close>, which returns
  \<^verbatim>\<open>null\<close> instead of throwing. \<open>sorteio i k\<close> is the value of
  \<^verbatim>\<open>Math.floor(Math.random() * Math.pow(10, k))\<close> computed while the order with id
  \<open>i\<close> is processed: the floor of a product of two non-negative numbers, so a natural
  number. The floating-point product itself is not modelled, and nothing else is taken for
  granted about the value. \<open>agora\<close> and \<open>hoje\<close> are the clock and the ISO date of
  today.
\<close>

record bling =
  pedidos_vendas :: "int \<Rightarrow> excecao + pedido option"
  produtos :: "int \<Rightarrow> excecao + produto option"
  contatos :: "int \<Rightarrow> contato_bling option"
  nfse_post :: "payload \<Rightarrow> excecao + nfse_criada option"
  nfse_enviar :: "int \<Rightarrow> excecao + nfse_dados option"
  nfse_get :: "int \<Rightarrow> excecao + nfse_dados option"
  sorteio :: "int \<Rightarrow> nat \<Rightarrow> nat"
  agora :: int
  hoje :: string

definition isConsumidorFinal :: "pedido \<Rightarrow> bool" where
  "isConsumidorFinal p =
     (case contato p of
        None \<Rightarrow> True
      | Some c \<Rightarrow>
          if \<not> verdadeiro (cp_numeroDocumento c) then True
          else
            let doc = so_digitos (the (cp_numeroDocumento c))
            in if doc = [] \<or> length doc < 11 then True else False)"

text \<open>\<^verbatim>\<open>a || b\<close> on optional numbers: absent and \<^verbatim>\<open>0\<close> are falsy.\<close>

definition numero_verdadeiro :: "real option \<Rightarrow> bool" where
  "numero_verdadeiro v = (case v of None \<Rightarrow> False | Some x \<Rightarrow> x \<noteq> 0)"

definition valor_do_item :: "item \<Rightarrow> real" where
  "valor_do_item it =
     (if numero_verdadeiro (item_valor it) then the (item_valor it)
      else if numero_verdadeiro (item_valorUnidade it) then the (item_valorUnidade it)
      else 0)"

text \<open>
  Lines 1540-1546 of \<^verbatim>\<open>construirPayloadNFSe\<close>. The second argument gives, for the
  number of remaining positions, the value of
  \<^verbatim>\<open>Math.floor(Math.random() * Math.pow(10, digitosRestantes))\<close>.
\<close>

definition gerarNumeroRPS :: "int \<Rightarrow> (nat \<Rightarrow> nat) \<Rightarrow> string" where
  "gerarNumeroRPS numero_pedido floorRandom =
     (let numeroPedido = numero_String numero_pedido;
          digitosRestantes = 8 - int (length numeroPedido);
          aleatorio =
            (if digitosRestantes > 0
             then padStart (nat digitosRestantes) (CHR ''0'')
                    (numero_String (int (floorRandom (nat digitosRestantes))))
             else [])
      in slice0 8 (numeroPedido @ aleatorio))"

definition somar_valores :: "servico list \<Rightarrow> real" where
  "somar_valores servicos = foldl (\<lambda>sum s. sum + serv_valor s) 0 servicos"

definition construirPayloadNFSe ::
  "pedido \<Rightarrow> contato_bling option \<Rightarrow> servico list \<Rightarrow> int \<Rightarrow> (nat \<Rightarrow> nat) \<Rightarrow> string
     \<Rightarrow> excecao + payload" where
  "construirPayloadNFSe p c servicos formaPagamentoId floorRandom dataHoje =
     (let valorTotal = somar_valores servicos;
          numeroRPS = gerarNumeroRPS (numero p) floorRandom
      in case c of
           None \<Rightarrow> Inl (TypeError ''Cannot read properties of null (reading id)'')
         | Some ct \<Rightarrow>
             Inr \<lparr>pay_numeroRPS = numeroRPS,
                  pay_serie = ''1'',
                  pay_data = dataHoje,
                  pay_baseCalculo = valorTotal,
                  pay_contato_id = cont_id ct,
                  pay_contato_nome = cont_nome ct,
                  pay_contato_numeroDocumento =
                    (if verdadeiro (cont_numeroDocumento ct) then the (cont_numeroDocumento ct)
                     else ou_texto (cont_cpfCnpj ct) []),
                  pay_contato_email = ou_texto (cont_email ct) ''naotem@email.com'',
                  pay_servicos = map (\<lambda>s. (''5.08'', serv_descricao s, serv_valor s)) servicos,
                  pay_parcela_valor = valorTotal,
                  pay_parcela_observacoes = ''Pedido '' @ numero_String (numero p),
                  pay_formaPagamento = formaPagamentoId,
                  pay_vendedor = vendedor p\<rparr>)"

text \<open>
  Step 5 of the loop body: one product fetch per item. A failed fetch, or a body without
  \<^verbatim>\<open>data\<close>, is caught and the item skipped. An item without \<^verbatim>\<open>produto\<close> throws
  inside the \<^verbatim>\<open>try\<close> and again inside its \<^verbatim>\<open>catch\<close> (the warning reads
  \<^verbatim>\<open>item.produto.id\<close>), so that exception leaves the loop.
\<close>

fun filtrarServicos :: "bling \<Rightarrow> item list \<Rightarrow> excecao + servico list" where
  "filtrarServicos w [] = Inr []"
| "filtrarServicos w (it # resto) =
     (case item_produto it of
        None \<Rightarrow> Inl (TypeError ''Cannot read properties of undefined (reading id)'')
      | Some produtoId \<Rightarrow>
          (case produtos w produtoId of
             Inl e \<Rightarrow> filtrarServicos w resto
           | Inr None \<Rightarrow> filtrarServicos w resto
           | Inr (Some pr) \<Rightarrow>
               if tipo pr = ''S'' then
                 (case filtrarServicos w resto of
                    Inl e \<Rightarrow> Inl e
                  | Inr ss \<Rightarrow>
                      Inr (\<lparr>serv_descricao =
                              (if verdadeiro (prod_descricao pr) then prod_descricao pr
                               else item_descricao it),
                            serv_valor = valor_do_item it\<rparr> # ss))
               else filtrarServicos w resto))"

record resultado =
  res_pedidoId :: int
  res_numeroPedido :: int
  res_status :: string
  res_mensagem :: string
  res_numeroRPS :: "string option"
  res_nfseId :: "int option"

definition msg_consumidor_final :: string where
  "msg_consumidor_final = ''Pedido '' @ [CHR 0xE9] @ '' consumidor final - RPS n'' @ [CHR 0xE3]
     @ ''o ser'' @ [CHR 0xE1] @ '' gerado''"

definition msg_rps_ja_existe :: string where
  "msg_rps_ja_existe = ''RPS j'' @ [CHR 0xE1] @ '' existe para este pedido''"

definition msg_sem_servicos :: string where
  "msg_sem_servicos = ''Pedido n'' @ [CHR 0xE3] @ ''o cont'' @ [CHR 0xE9] @ ''m servi''
     @ [CHR 0xE7] @ ''os''"

definition msg_sucesso :: string where
  "msg_sucesso = ''RPS gerado com sucesso''"

definition ignorado :: "int \<Rightarrow> int \<Rightarrow> string \<Rightarrow> string option \<Rightarrow> resultado" where
  "ignorado pedidoId n m rps =
     \<lparr>res_pedidoId = pedidoId, res_numeroPedido = n, res_status = ''ignorado'',
      res_mensagem = m, res_numeroRPS = rps, res_nfseId = None\<rparr>"

text \<open>\<^verbatim>\<open>pedido.itens\<close> when it is present, no item otherwise.\<close>

definition itens_do_pedido :: "pedido \<Rightarrow> item list" where
  "itens_do_pedido p = (case itens p of None \<Rightarrow> [] | Some its \<Rightarrow> its)"

text \<open>
  Steps 7 to 10 of the \<^verbatim>\<open>try\<close> block: the payload is built, the NFSe is
  created at Bling and the row is saved as \<^verbatim>\<open>pendente\<close>.
\<close>

definition emitirESalvar ::
  "bling \<Rightarrow> int \<Rightarrow> pedido \<Rightarrow> contato_bling option \<Rightarrow> servico list \<Rightarrow> banco
     \<Rightarrow> excecao + (resultado \<times> banco)" where
  "emitirESalvar w pedidoId p ct servicos b =
     (case construirPayloadNFSe p ct servicos 2222749 (sorteio w pedidoId) (hoje w) of
        Inl e \<Rightarrow> Inl e
      | Inr pl \<Rightarrow>
          (case nfse_post w pl of
             Inl e \<Rightarrow> Inl e
           | Inr None \<Rightarrow> Inl (TypeError ''Cannot read properties of undefined (reading numeroRPS)'')
           | Inr (Some resp) \<Rightarrow>
               (case ct of
                  None \<Rightarrow> Inl (TypeError ''Cannot read properties of null (reading nome)'')
                | Some c \<Rightarrow>
                    (case criar (agora w)
                            \<lparr>dto_pedidoVendaId = pedidoId,
                             dto_numeroPedido = numero p,
                             dto_numeroRPS =
                               Some (ou_texto (criada_numeroRPS resp) (pay_numeroRPS pl)),
                             dto_serie = Some (ou_texto (criada_serie resp) (pay_serie pl)),
                             dto_nfseId = Some (criada_id resp),
                             dto_status = Pendente,
                             dto_valorTotal = somar_valores servicos,
                             dto_nomeCliente = cont_nome c,
                             dto_dataEmissao = Some (agora w)\<rparr> b of
                       Inl e \<Rightarrow> Inl e
                     | Inr (r, b') \<Rightarrow>
                         Inr (\<lparr>res_pedidoId = pedidoId,
                               res_numeroPedido = numero p,
                               res_status = ''sucesso'',
                               res_mensagem = msg_sucesso,
                               res_numeroRPS = criada_numeroRPS resp,
                               res_nfseId = Some (criada_id resp)\<rparr>, b')))))"

text \<open>
  The \<^verbatim>\<open>try\<close> block of the loop body: an exception, or the result pushed and the
  table after it.
\<close>

definition tentarGerar :: "bling \<Rightarrow> int \<Rightarrow> banco \<Rightarrow> excecao + (resultado \<times> banco)" where
  "tentarGerar w pedidoId b =
     (case pedidos_vendas w pedidoId of
        Inl e \<Rightarrow> Inl e
      | Inr None \<Rightarrow> Inl (TypeError ''Cannot read properties of undefined (reading contato)'')
      | Inr (Some p) \<Rightarrow>
          if isConsumidorFinal p
          then Inr (ignorado pedidoId (numero p) msg_consumidor_final None, b)
          else
            (case buscarPorPedidoId pedidoId b of
               Some rpsExistente \<Rightarrow>
                 Inr (ignorado pedidoId (numero p) msg_rps_ja_existe (numeroRPS rpsExistente), b)
             | None \<Rightarrow>
                 (case contato p of
                    None \<Rightarrow> Inl (TypeError ''Cannot read properties of undefined (reading id)'')
                  | Some cp \<Rightarrow>
                      (case filtrarServicos w (itens_do_pedido p) of
                         Inl e \<Rightarrow> Inl e
                       | Inr servicos \<Rightarrow>
                           if length servicos = 0
                           then Inr (ignorado pedidoId (numero p) msg_sem_servicos None, b)
                           else emitirESalvar w pedidoId p (contatos w (cp_id cp)) servicos b))))"

text \<open>
  One turn of the loop: the \<^verbatim>\<open>catch\<close> turns an exception into an \<^verbatim>\<open>erro\<close>
  result with \<^verbatim>\<open>error.message || 'Erro ao gerar RPS'\<close>. Nothing is written to the
  table before the last statement that can throw, so the table is the one before.
\<close>

definition gerarUm :: "bling \<Rightarrow> int \<Rightarrow> banco \<Rightarrow> resultado \<times> banco" where
  "gerarUm w pedidoId b =
     (case tentarGerar w pedidoId b of
        Inr rb \<Rightarrow> rb
      | Inl e \<Rightarrow>
          (\<lparr>res_pedidoId = pedidoId, res_numeroPedido = pedidoId, res_status = ''erro'',
            res_mensagem = (if exc_message e \<noteq> [] then exc_message e else ''Erro ao gerar RPS''),
            res_numeroRPS = None, res_nfseId = None\<rparr>, b))"

fun gerarLoop :: "bling \<Rightarrow> int list \<Rightarrow> resultado list \<Rightarrow> nat \<Rightarrow> banco
                   \<Rightarrow> resultado list \<times> nat \<times> banco" where
  "gerarLoop w [] resultados processados b = (resultados, processados, b)"
| "gerarLoop w (pedidoId # resto) resultados processados b =
     (case gerarUm w pedidoId b of
        (r, b') \<Rightarrow>
          gerarLoop w resto (resultados @ [r])
            (if res_status r = ''sucesso'' then processados + 1 else processados) b')"

record retorno_geracao =
  ger_success :: bool
  ger_processados :: nat
  ger_total :: nat
  ger_resultados :: "resultado list"

definition gerarRPSParaPedidos :: "bling \<Rightarrow> int list \<Rightarrow> banco \<Rightarrow> retorno_geracao \<times> banco" where
  "gerarRPSParaPedidos w pedidoIds b =
     (case gerarLoop w pedidoIds [] 0 b of
        (resultados, processados, b') \<Rightarrow>
          (\<lparr>ger_success = True, ger_processados = processados,
            ger_total = length pedidoIds, ger_resultados = resultados\<rparr>, b'))"

text \<open>The unique constraint as a property of the table: no two rows for one order.\<close>

definition unico :: "banco \<Rightarrow> bool" where
  "unico b = distinct (map pedidoVendaId (linhas b))"

text \<open>The same Bling, except that every order it delivers carries the situation \<open>sit\<close>.\<close>

definition com_situacao :: "js_id option \<Rightarrow> bling \<Rightarrow> bling" where
  "com_situacao sit w =
     w\<lparr>pedidos_vendas :=
         (\<lambda>i. case pedidos_vendas w i of
                Inl e \<Rightarrow> Inl e
              | Inr None \<Rightarrow> Inr None
              | Inr (Some p) \<Rightarrow> Inr (Some (p\<lparr>situacao := sit\<rparr>)))\<rparr>"

subsection \<open>A sample order, cancelled at Bling (situation 2), and a Bling that serves it\<close>

definition ex_pedido :: pedido where
  "ex_pedido = \<lparr>numero = 42,
     contato = Some \<lparr>cp_id = 77, cp_numeroDocumento = Some ''123.456.789-09''\<rparr>,
     situacao = Some (IdNumero 2),
     itens = Some [\<lparr>item_produto = Some 5, item_descricao = Some ''Mensalidade'',
                    item_valor = Some 150, item_valorUnidade = None\<rparr>],
     vendedor = None\<rparr>"

definition ex_bling :: bling where
  "ex_bling =
     \<lparr>pedidos_vendas = (\<lambda>i. if i = 1234 then Inr (Some ex_pedido)
                             else Inl (BadRequestException ''Erro na API Bling: 404 - '')),
      produtos = (\<lambda>i. if i = 5 then Inr (Some \<lparr>tipo = ''S'', prod_descricao = Some ''Aula''\<rparr>)
                       else Inr (Some \<lparr>tipo = ''P'', prod_descricao = None\<rparr>)),
      contatos = (\<lambda>i. Some ex_contato),
      nfse_post = (\<lambda>pl. Inr (Some \<lparr>criada_id = 9, criada_numeroRPS = None, criada_serie = None\<rparr>)),
      nfse_enviar = (\<lambda>i. Inl (BadRequestException ''Timeout'')),
      nfse_get = (\<lambda>i. Inr (Some \<lparr>nfse_situacao = Some 0, nfse_numero = None\<rparr>)),
      sorteio = (\<lambda>i k. 10 ^ k div 8),
      agora = 1700000000000,
      hoje = ''2023-11-14''\<rparr>"

definition banco_vazio :: banco where
  "banco_vazio = \<lparr>linhas = [], proximo_id = 1\<rparr>"

definition ex_pedido_sem_documento :: pedido where
  "ex_pedido_sem_documento =
     ex_pedido\<lparr>contato := Some \<lparr>cp_id = 77, cp_numeroDocumento = Some ''123.456''\<rparr>\<rparr>"

definition ex_bling_consumidor_final :: bling where
  "ex_bling_consumidor_final =
     ex_bling\<lparr>pedidos_vendas := (\<lambda>i. Inr (Some ex_pedido_sem_documento))\<rparr>"

definition ex_bling_produtos_falham :: bling where
  "ex_bling_produtos_falham =
     ex_bling\<lparr>produtos := (\<lambda>i. Inl (BadRequestException ''Erro na API Bling: 500 - ''))\<rparr>"

definition ex_pedido_item_sem_produto :: pedido where
  "ex_pedido_item_sem_produto =
     ex_pedido\<lparr>itens := Some [\<lparr>item_produto = None, item_descricao = Some ''Taxa'',
                                 item_valor = Some 10, item_valorUnidade = None\<rparr>]\<rparr>"

definition ex_bling_item_sem_produto :: bling where
  "ex_bling_item_sem_produto =
     ex_bling\<lparr>pedidos_vendas := (\<lambda>i. Inr (Some ex_pedido_item_sem_produto))\<rparr>"

section \<open>Submitting to the municipality (bling.service.ts, lines 1771-1870)\<close>

record resultado_envio =
  env_rpsId :: nat
  env_status :: string
  env_numeroNFSe :: "string option"
  env_mensagem :: string

definition msg_rps_nao_encontrado :: string where
  "msg_rps_nao_encontrado = ''RPS n'' @ [CHR 0xE3] @ ''o encontrado''"

definition msg_nfse_id_nao_encontrado :: string where
  "msg_nfse_id_nao_encontrado = ''NFSe ID n'' @ [CHR 0xE3] @ ''o encontrado''"

definition msg_ja_emitida :: string where
  "msg_ja_emitida = ''NFSe j'' @ [CHR 0xE1] @ '' estava emitida no Bling''"

text \<open>\<^verbatim>\<open>x?.data?.numero\<close> and \<^verbatim>\<open>x?.data?.situacao\<close> of a parsed body.\<close>

definition numero_de :: "nfse_dados option \<Rightarrow> string option" where
  "numero_de d = (case d of None \<Rightarrow> None | Some x \<Rightarrow> nfse_numero x)"

definition situacao_de :: "nfse_dados option \<Rightarrow> int option" where
  "situacao_de d = (case d of None \<Rightarrow> None | Some x \<Rightarrow> nfse_situacao x)"

text \<open>\<^verbatim>\<open>v || null\<close> on an optional string.\<close>

definition ou_null :: "string option \<Rightarrow> string option" where
  "ou_null v = (if verdadeiro v then v else None)"

text \<open>
  The \<^verbatim>\<open>catch\<close> block of the loop body, entered with the exception of the submit
  call: the invoice is read back; if it is issued the row becomes \<^verbatim>\<open>emitido\<close> and the
  result is \<^verbatim>\<open>sucesso\<close>; if the read throws or shows no issue, the row becomes
  \<^verbatim>\<open>erro\<close> with the message of the first exception.
\<close>

definition recuperarEnvio ::
  "bling \<Rightarrow> nat \<Rightarrow> int \<Rightarrow> excecao \<Rightarrow> banco \<Rightarrow> resultado_envio \<times> bool \<times> banco" where
  "recuperarEnvio w rpsId nid error b =
     (let marcar_erro =
            (\<lparr>env_rpsId = rpsId, env_status = ''erro'', env_numeroNFSe = None,
              env_mensagem = exc_message error\<rparr>,
             False,
             atualizar rpsId (\<lambda>r. r\<lparr>status := Erro, mensagemErro := Some (exc_message error)\<rparr>) b)
      in case nfse_get w nid of
           Inl e \<Rightarrow> marcar_erro
         | Inr nfseData \<Rightarrow>
             if situacao_de nfseData = Some 2 \<or> verdadeiro (numero_de nfseData)
             then (\<lparr>env_rpsId = rpsId, env_status = ''sucesso'',
                    env_numeroNFSe = numero_de nfseData, env_mensagem = msg_ja_emitida\<rparr>,
                   True,
                   atualizar rpsId
                     (\<lambda>r. r\<lparr>status := Emitido, numeroNFSe := ou_null (numero_de nfseData)\<rparr>) b)
             else marcar_erro)"

text \<open>
  One turn of the loop: the result pushed, whether \<^verbatim>\<open>enviados\<close> was incremented,
  and the table after it.
\<close>

definition enviarUm :: "bling \<Rightarrow> nat \<Rightarrow> banco \<Rightarrow> resultado_envio \<times> bool \<times> banco" where
  "enviarUm w rpsId b =
     (case buscarPorId rpsId b of
        None \<Rightarrow>
          (\<lparr>env_rpsId = rpsId, env_status = ''erro'', env_numeroNFSe = None,
            env_mensagem = msg_rps_nao_encontrado\<rparr>, False, b)
      | Some rps \<Rightarrow>
          (case nfseId rps of
             None \<Rightarrow>
               (\<lparr>env_rpsId = rpsId, env_status = ''erro'', env_numeroNFSe = None,
                 env_mensagem = msg_nfse_id_nao_encontrado\<rparr>, False, b)
           | Some nid \<Rightarrow>
               let b1 = atualizar rpsId (\<lambda>r. r\<lparr>status := Processando\<rparr>) b in
               (case nfse_enviar w nid of
                  Inl error \<Rightarrow> recuperarEnvio w rpsId nid error b1
                | Inr response \<Rightarrow>
                    if verdadeiro (numero_de response)
                    then (\<lparr>env_rpsId = rpsId, env_status = ''sucesso'',
                           env_numeroNFSe = numero_de response,
                           env_mensagem = ''NFSe emitida com sucesso''\<rparr>,
                          True,
                          atualizar rpsId
                            (\<lambda>r. r\<lparr>status := Emitido, numeroNFSe := numero_de response\<rparr>) b1)
                    else (\<lparr>env_rpsId = rpsId, env_status = ''processando'',
                           env_numeroNFSe = None,
                           env_mensagem = ''Enviado para prefeitura, aguardando retorno''\<rparr>,
                          False, b1))))"

fun enviarLoop :: "bling \<Rightarrow> nat list \<Rightarrow> resultado_envio list \<Rightarrow> nat \<Rightarrow> banco
                    \<Rightarrow> resultado_envio list \<times> nat \<times> banco" where
  "enviarLoop w [] resultados enviados b = (resultados, enviados, b)"
| "enviarLoop w (rpsId # resto) resultados enviados b =
     (case enviarUm w rpsId b of
        (r, inc, b') \<Rightarrow>
          enviarLoop w resto (resultados @ [r]) (if inc then enviados + 1 else enviados) b')"

record retorno_envio =
  ret_success :: bool
  ret_enviados :: nat
  ret_total :: nat
  ret_resultados :: "resultado_envio list"

definition enviarNFSeParaPrefeitura :: "bling \<Rightarrow> nat list \<Rightarrow> banco \<Rightarrow> retorno_envio \<times> banco" where
  "enviarNFSeParaPrefeitura w rpsIds b =
     (case enviarLoop w rpsIds [] 0 b of
        (resultados, enviados, b') \<Rightarrow>
          (\<lparr>ret_success = True, ret_enviados = enviados,
            ret_total = length rpsIds, ret_resultados = resultados\<rparr>, b'))"

section \<open>Synchronising the status (bling.service.ts, lines 1875-1974)\<close>

text \<open>The lookup table from the situation of the invoice at Bling to the local status.\<close>

definition novoStatus :: "rps_status \<Rightarrow> int option \<Rightarrow> rps_status" where
  "novoStatus atual sit =
     (if sit = Some 1 \<or> sit = Some 2 then Emitido
      else if sit = Some 3 then Erro
      else if sit = Some 0 then Pendente
      else atual)"

definition msg_nao_encontrada :: string where
  "msg_nao_encontrada = ''NFSe n'' @ [CHR 0xE3] @ ''o encontrada no Bling - status resetado''"

text \<open>
  One turn of the loop over the rows read at the start: \<open>rps\<close> is the row as it was read,
  the triple is the table with the counters \<^verbatim>\<open>atualizados\<close> and \<^verbatim>\<open>corrigidos\<close>.
\<close>

definition sincronizarUm :: "bling \<Rightarrow> pedidoVendaRPS \<Rightarrow> banco \<times> nat \<times> nat \<Rightarrow> banco \<times> nat \<times> nat" where
  "sincronizarUm w rps acc =
     (case acc of (b, atualizados, corrigidos) \<Rightarrow>
        (case nfseId rps of
           None \<Rightarrow> acc
         | Some nid \<Rightarrow>
             (case nfse_get w nid of
                Inl error \<Rightarrow>
                  if status rps = Emitido \<and> \<not> verdadeiro (numeroNFSe rps)
                  then (atualizar (rps_id rps)
                          (\<lambda>r. r\<lparr>status := Pendente, mensagemErro := Some msg_nao_encontrada\<rparr>) b,
                        atualizados, corrigidos + 1)
                  else acc
              | Inr None \<Rightarrow> acc
              | Inr (Some nfse) \<Rightarrow>
                  let novo = novoStatus (status rps) (nfse_situacao nfse);
                      precisaAtualizar =
                        (novo \<noteq> status rps
                         \<or> (verdadeiro (nfse_numero nfse) \<and> nfse_numero nfse \<noteq> numeroNFSe rps))
                  in if precisaAtualizar
                     then (atualizar (rps_id rps)
                             (\<lambda>r. r\<lparr>status := novo,
                                     numeroNFSe := (if verdadeiro (nfse_numero nfse)
                                                    then nfse_numero nfse else numeroNFSe rps)\<rparr>) b,
                           if status rps = Emitido \<and> \<not> verdadeiro (numeroNFSe rps)
                              \<and> verdadeiro (nfse_numero nfse)
                           then atualizados else atualizados + 1,
                           if status rps = Emitido \<and> \<not> verdadeiro (numeroNFSe rps)
                              \<and> verdadeiro (nfse_numero nfse)
                           then corrigidos + 1 else corrigidos)
                     else acc)))"

definition rpsParaVerificar :: "banco \<Rightarrow> pedidoVendaRPS list" where
  "rpsParaVerificar b =
     (let rpsPendentes = listarFila 1 1000 (Some Pendente) b;
          rpsProcessando = listarFila 1 1000 (Some Processando) b;
          rpsEmitidos = listarFila 1 1000 (Some Emitido) b;
          emitidosSemNumero = filter (\<lambda>rps. \<not> verdadeiro (numeroNFSe rps)) rpsEmitidos
      in rpsPendentes @ rpsProcessando @ emitidosSemNumero)"

record retorno_sync =
  sync_success :: bool
  sync_verificados :: nat
  sync_atualizados :: nat
  sync_corrigidos :: nat

definition sincronizarStatusNFSe :: "bling \<Rightarrow> banco \<Rightarrow> retorno_sync \<times> banco" where
  "sincronizarStatusNFSe w b =
     (case foldl (\<lambda>acc rps. sincronizarUm w rps acc) (b, 0, 0) (rpsParaVerificar b) of
        (b', atualizados, corrigidos) \<Rightarrow>
          (\<lparr>sync_success = True, sync_verificados = length (rpsParaVerificar b),
            sync_atualizados = atualizados, sync_corrigidos = corrigidos\<rparr>, b'))"

text \<open>
  What one turn of the loop writes into the row with the id of \<open>rps\<close>, as a function
  of the row as it was read: the columns of the partial object passed to
  \<^verbatim>\<open>atualizar\<close>, or nothing.
\<close>

definition escrita_sync :: "bling \<Rightarrow> pedidoVendaRPS \<Rightarrow> pedidoVendaRPS \<Rightarrow> pedidoVendaRPS" where
  "escrita_sync w rps =
     (case nfseId rps of
        None \<Rightarrow> (\<lambda>r. r)
      | Some nid \<Rightarrow>
          (case nfse_get w nid of
             Inl error \<Rightarrow>
               if status rps = Emitido \<and> \<not> verdadeiro (numeroNFSe rps)
               then (\<lambda>r. r\<lparr>status := Pendente, mensagemErro := Some msg_nao_encontrada\<rparr>)
               else (\<lambda>r. r)
           | Inr None \<Rightarrow> (\<lambda>r. r)
           | Inr (Some nfse) \<Rightarrow>
               if novoStatus (status rps) (nfse_situacao nfse) \<noteq> status rps
                  \<or> (verdadeiro (nfse_numero nfse) \<and> nfse_numero nfse \<noteq> numeroNFSe rps)
               then (\<lambda>r. r\<lparr>status := novoStatus (status rps) (nfse_situacao nfse),
                             numeroNFSe := (if verdadeiro (nfse_numero nfse)
                                            then nfse_numero nfse else numeroNFSe rps)\<rparr>)
               else (\<lambda>r. r)))"

text \<open>
  The order of the states: \<^verbatim>\<open>pendente\<close>, then \<^verbatim>\<open>processando\<close>, then
  \<^verbatim>\<open>emitido\<close>; \<^verbatim>\<open>erro\<close> is beside them. \<open>anterior s' s\<close>: \<open>s'\<close> is
  earlier than \<open>s\<close>.
\<close>

fun ordem :: "rps_status \<Rightarrow> nat option" where
  "ordem Pendente = Some 0"
| "ordem Processando = Some 1"
| "ordem Emitido = Some 2"
| "ordem Erro = None"

definition anterior :: "rps_status \<Rightarrow> rps_status \<Rightarrow> bool" where
  "anterior s' s = (case (ordem s', ordem s) of (Some m, Some n) \<Rightarrow> m < n | _ \<Rightarrow> False)"

text \<open>The generated primary key as a property of the table: ids are distinct and below the next id.\<close>

definition chave_primaria :: "banco \<Rightarrow> bool" where
  "chave_primaria b =
     (distinct (map rps_id (linhas b)) \<and> (\<forall>r \<in> set (linhas b). rps_id r < proximo_id b))"

subsection \<open>Sample tables and answers of Bling for an NFSe\<close>

definition ex_linha :: pedidoVendaRPS where
  "ex_linha = \<lparr>rps_id = 1, pedidoVendaId = 1234, numeroPedido = 42,
                numeroRPS = Some ''42125000'', serie = Some ''1'',
                nfseId = Some 9, numeroNFSe = None, status = Pendente,
                mensagemErro = None, valorTotal = 150, nomeCliente = ''Maria'',
                dataEmissao = Some 1700000000000, createdAt = 1700000000000\<rparr>"

definition ex_banco :: "rps_status \<Rightarrow> banco" where
  "ex_banco s = \<lparr>linhas = [ex_linha\<lparr>status := s\<rparr>], proximo_id = 2\<rparr>"

definition ex_bling_nfse_ausente :: bling where
  "ex_bling_nfse_ausente =
     ex_bling\<lparr>nfse_get := (\<lambda>i. Inl (BadRequestException ''Erro na API Bling: 404 - ''))\<rparr>"

definition ex_bling_emitida :: bling where
  "ex_bling_emitida =
     ex_bling\<lparr>nfse_get := (\<lambda>i. Inr (Some \<lparr>nfse_situacao = Some 2, nfse_numero = Some ''000123''\<rparr>))\<rparr>"

section \<open>The order list of the frontend (PedidosVenda.tsx, lines 75-78)\<close>

text \<open>\<^verbatim>\<open>situacaoId === 2 || String(situacaoId) === '2'\<close>; a missing situation is \<^verbatim>\<open>undefined\<close>.\<close>

definition situacao_cancelada :: "js_id option \<Rightarrow> bool" where
  "situacao_cancelada sid =
     (case sid of
        None \<Rightarrow> False
      | Some (IdNumero n) \<Rightarrow> n = 2 \<or> numero_String n = ''2''
      | Some (IdTexto t) \<Rightarrow> t = ''2'')"

definition filtrarCancelados :: "pedido list \<Rightarrow> pedido list" where
  "filtrarCancelados pedidos = filter (\<lambda>p. \<not> situacao_cancelada (situacao p)) pedidos"

section \<open>The RPS number of a duplicata (bling.service.ts, lines 1142-1154)\<close>

text \<open>
  The part of \<^verbatim>\<open>criarDadosNFSe\<close> that chooses \<^verbatim>\<open>numeroRPS\<close>; the first argument is
  the reading of \<^verbatim>\<open>Date.now()\<close>.
\<close>

definition criarDadosNFSe_numeroRPS :: "int \<Rightarrow> duplicata \<Rightarrow> string" where
  "criarDadosNFSe_numeroRPS timestampGerado d =
     (let rpsExistente = trim (case dup_rps d of None \<Rightarrow> [] | Some r \<Rightarrow> r)
      in if length rpsExistente > 0 then rpsExistente
         else numero_String timestampGerado @ numero_String (dup_numero d))"

section \<open>Token lifecycle: properties\<close>

lemma refreshAccessToken_logger:
  "\<exists>ms. logger (snd (refreshAccessToken w s)) = logger s @ ms"
  by (auto simp: refreshAccessToken_def registrar_def saveTokens_def Let_def
           split: option.splits fetch.splits)

lemma refreshAccessToken_tokens:
  "refreshAccessToken w s = (Inr nt, s') \<Longrightarrow> tokens s' = Some nt"
  by (auto simp: refreshAccessToken_def registrar_def saveTokens_def Let_def
           split: option.splits fetch.splits if_splits)

lemma ensureValidToken_renova:
  assumes "tokens s = Some t" and "now \<ge> expiresAt_ou_0 t - 300000"
  shows "disparou_renovacao w now s"
proof (cases "refreshAccessToken w (registrar TokenProximoDoVencimento s)")
  case (Pair res s')
  show ?thesis
  proof (cases res)
    case (Inl e)
    then show ?thesis
      using assms Pair by (simp add: disparou_renovacao_def ensureValidToken_def)
  next
    case (Inr nt)
    then have "tokens s' = Some nt"
      using Pair refreshAccessToken_tokens by simp
    then show ?thesis
      using assms Pair Inr by (simp add: disparou_renovacao_def ensureValidToken_def)
  qed
qed

lemma ensureValidToken_cached:
  assumes "tokens s = Some t" and "now < expiresAt_ou_0 t - 300000"
  shows "ensureValidToken w now s = (Inr (access_token t), s)"
  using assms by (simp add: ensureValidToken_def)

lemma cached_nao_renova:
  assumes "tokens s = Some t" and "now < expiresAt_ou_0 t - 300000"
  shows "\<not> disparou_renovacao w now s"
proof
  assume d: "disparou_renovacao w now s"
  let ?r = "refreshAccessToken w (registrar TokenProximoDoVencimento s)"
  obtain ms where ms: "logger (snd ?r) = logger (registrar TokenProximoDoVencimento s) @ ms"
    using refreshAccessToken_logger by blast
  have "snd (case ?r of (Inl e, s') \<Rightarrow> (Inl e, s')
                      | (Inr newTokens, s') \<Rightarrow> (Inr (access_token newTokens), s')) = snd ?r"
    by (cases ?r) (auto split: sum.splits)
  then have "snd (ensureValidToken w now s) = snd ?r"
    by (simp only: d [unfolded disparou_renovacao_def])
  then have "s = snd ?r"
    by (simp only: ensureValidToken_cached [OF assms, of w] snd_conv)
  then have "logger s = logger s @ TokenProximoDoVencimento # ms"
    using ms by (simp add: registrar_def)
  then show False by simp
qed

lemma ensureValidToken_renovado:
  assumes "tokens s = Some t" and "now \<ge> expiresAt_ou_0 t - 300000"
    and "refresh_token t \<noteq> []" and "token_url w (refresh_token t) = Chegou r"
    and "ok r" and "http_json r = Some nt"
  shows "ensureValidToken w now s
           = (Inr (access_token nt),
              s\<lparr>tokens := Some (nt\<lparr>expires_at := Some (agora_resposta w + expires_in nt * 1000)\<rparr>),
                tokens_file := Some (Conteudo
                   (nt\<lparr>expires_at := Some (agora_resposta w + expires_in nt * 1000)\<rparr>)),
                logger := logger s @ [TokenProximoDoVencimento, TokenRenovado, TokensSalvos]\<rparr>)"
  using assms
  by (simp add: ensureValidToken_def refreshAccessToken_def registrar_def saveTokens_def Let_def)

lemma ensureValidToken_sem_refresh_token:
  assumes "tokens s = Some t" and "now \<ge> expiresAt_ou_0 t - 300000" and "refresh_token t = []"
  shows "ensureValidToken w now s
           = (Inl (BadRequestException msg_sem_refresh_token),
              s\<lparr>logger := logger s @ [TokenProximoDoVencimento]\<rparr>)"
  using assms
  by (simp add: ensureValidToken_def refreshAccessToken_def registrar_def)

lemma ensureValidToken_renovacao_falha:
  assumes "tokens s = Some t" and "now \<ge> expiresAt_ou_0 t - 300000"
    and "refresh_token t \<noteq> []"
    and "(\<exists>e. token_url w (refresh_token t) = Rejeitou e)
         \<or> (\<exists>r. token_url w (refresh_token t) = Chegou r \<and> (\<not> ok r \<or> http_json r = None))"
  shows "(\<exists>e. fst (ensureValidToken w now s) = Inl e)
       \<and> tokens (snd (ensureValidToken w now s)) = Some t
       \<and> tokens_file (snd (ensureValidToken w now s)) = tokens_file s"
  using assms
  by (auto simp: ensureValidToken_def refreshAccessToken_def registrar_def)

text \<open>
  C5. With tokens held, \<open>ensureValidToken\<close> triggers a refresh exactly when
  \<open>now \<ge> expiresAt - 5 minutes\<close> (a missing \<open>expires_at\<close> counts as 0); with
  \<open>expiresAt = now + 120 s\<close> it refreshes, and with \<open>expiresAt = now + 10 min\<close>, as
  whenever \<open>now\<close> is below the threshold, it returns the cached access token and leaves
  the state as it was. The refresh is the real one: when the token endpoint answers the
  refresh-token grant with new tokens, the call returns the new access token, and the new
  tokens, with \<open>expires_at\<close> computed from \<open>expires_in\<close>, replace the held ones in
  memory and in the tokens file; without a refresh token the call fails with the
  "no refresh token" error; when the endpoint rejects, answers a non-2xx status or an
  unreadable body, the call fails and the held tokens and the file stay as they were.
\<close>

theorem C5_ensureValidToken_refresh_iff:
  assumes "tokens s = Some t"
  shows "(disparou_renovacao w now s \<longleftrightarrow> now \<ge> expiresAt_ou_0 t - 5 * 60 * 1000)
       \<and> (expires_at t = Some (now + 120 * 1000) \<longrightarrow> disparou_renovacao w now s)
       \<and> (expires_at t = Some (now + 10 * 60 * 1000)
            \<longrightarrow> ensureValidToken w now s = (Inr (access_token t), s))
       \<and> (now < expiresAt_ou_0 t - 5 * 60 * 1000
            \<longrightarrow> ensureValidToken w now s = (Inr (access_token t), s))
       \<and> (now \<ge> expiresAt_ou_0 t - 5 * 60 * 1000 \<and> refresh_token t \<noteq> []
            \<and> token_url w (refresh_token t) = Chegou r \<and> ok r \<and> http_json r = Some nt
            \<longrightarrow> ensureValidToken w now s
                = (Inr (access_token nt),
                   s\<lparr>tokens := Some (nt\<lparr>expires_at := Some (agora_resposta w + expires_in nt * 1000)\<rparr>),
                     tokens_file := Some (Conteudo
                        (nt\<lparr>expires_at := Some (agora_resposta w + expires_in nt * 1000)\<rparr>)),
                     logger := logger s @ [TokenProximoDoVencimento, TokenRenovado, TokensSalvos]\<rparr>))
       \<and> (now \<ge> expiresAt_ou_0 t - 5 * 60 * 1000 \<and> refresh_token t = []
            \<longrightarrow> ensureValidToken w now s
                = (Inl (BadRequestException msg_sem_refresh_token),
                   s\<lparr>logger := logger s @ [TokenProximoDoVencimento]\<rparr>))
       \<and> (now \<ge> expiresAt_ou_0 t - 5 * 60 * 1000 \<and> refresh_token t \<noteq> []
            \<and> ((\<exists>e. token_url w (refresh_token t) = Rejeitou e)
               \<or> (\<exists>r. token_url w (refresh_token t) = Chegou r \<and> (\<not> ok r \<or> http_json r = None)))
            \<longrightarrow> (\<exists>e. fst (ensureValidToken w now s) = Inl e)
                \<and> tokens (snd (ensureValidToken w now s)) = Some t
                \<and> tokens_file (snd (ensureValidToken w now s)) = tokens_file s)"
proof -
  have thr: "expiresAt_ou_0 t - 5 * 60 * 1000 = expiresAt_ou_0 t - 300000" by simp
  have e: "disparou_renovacao w now s \<longleftrightarrow> now \<ge> expiresAt_ou_0 t - 5 * 60 * 1000"
  proof (cases "now \<ge> expiresAt_ou_0 t - 300000")
    case True
    then show ?thesis using ensureValidToken_renova [OF assms] by simp
  next
    case False
    then show ?thesis using cached_nao_renova [OF assms, of now w] by simp
  qed
  have c: "expires_at t = Some (now + 120 * 1000) \<longrightarrow> disparou_renovacao w now s"
    using ensureValidToken_renova [OF assms, of now w] by (simp add: expiresAt_ou_0_def)
  have d: "expires_at t = Some (now + 10 * 60 * 1000)
            \<longrightarrow> ensureValidToken w now s = (Inr (access_token t), s)"
    using ensureValidToken_cached [OF assms, of now w] by (simp add: expiresAt_ou_0_def)
  have f: "now < expiresAt_ou_0 t - 5 * 60 * 1000
            \<longrightarrow> ensureValidToken w now s = (Inr (access_token t), s)"
    using ensureValidToken_cached [OF assms, of now w] by simp
  note g = ensureValidToken_renovado [OF assms, of now w r nt, unfolded thr [symmetric]]
  note h = ensureValidToken_sem_refresh_token [OF assms, of now w, unfolded thr [symmetric]]
  note i = ensureValidToken_renovacao_falha [OF assms, of now w, unfolded thr [symmetric]]
  show ?thesis
    using e c d f g h i by blast
qed

lemma ensureValidToken_sem_tokens:
  "tokens s = None \<Longrightarrow> ensureValidToken w now s = (Inl (BadRequestException msg_sem_token), s)"
  by (simp add: ensureValidToken_def)

lemma construtor_carregado:
  "nao_expirado now t \<Longrightarrow>
     tokens (construtor now (Some (Conteudo t))) = Some t
   \<and> tokens_file (construtor now (Some (Conteudo t))) = Some (Conteudo t)"
  by (simp add: construtor_def loadTokens_def registrar_def)

lemma construtor_descartado:
  "\<not> nao_expirado now t \<Longrightarrow>
     tokens (construtor now (Some (Conteudo t))) = None
   \<and> tokens_file (construtor now (Some (Conteudo t))) = None"
  by (simp add: construtor_def loadTokens_def registrar_def deleteTokensFile_def)

lemma construtor_sem_conteudo:
  "tokens (construtor now f) \<noteq> None \<Longrightarrow> \<exists>t. f = Some (Conteudo t)"
  by (cases f) (auto simp: construtor_def loadTokens_def registrar_def split: arquivo.splits)

lemma nao_expirado_iff:
  "0 \<le> now \<Longrightarrow> nao_expirado now t \<longleftrightarrow> (\<exists>e. expires_at t = Some e \<and> now < e)"
  by (auto simp: nao_expirado_def split: option.splits)



text \<open>
  C10. At construction (with a clock at or after the epoch) the persisted tokens are loaded
  into memory only when the tokens file holds a token object whose \<open>expires_at\<close> exists
  and is strictly greater than \<open>now\<close>, and then the file is kept. When the file holds a
  token object that fails this test, the file is deleted (the refresh token with it), the
  in-memory tokens stay null, and every \<open>ensureValidToken\<close> call, whatever the clock and
  the token endpoint, fails with the "no token" error and leaves the state as it is.
\<close>

theorem C10_loadTokens_only_unexpired:
  assumes "0 \<le> now"
  shows "(tokens (construtor now f) \<noteq> None \<longrightarrow>
            (\<exists>t e. f = Some (Conteudo t) \<and> expires_at t = Some e \<and> now < e
                   \<and> tokens (construtor now f) = Some t))
       \<and> (\<forall>t. f = Some (Conteudo t) \<longrightarrow>
            (if \<exists>e. expires_at t = Some e \<and> now < e
             then tokens (construtor now f) = Some t \<and> tokens_file (construtor now f) = f
             else tokens (construtor now f) = None \<and> tokens_file (construtor now f) = None
                \<and> (\<forall>w now'. ensureValidToken w now' (construtor now f)
                        = (Inl (BadRequestException msg_sem_token), construtor now f))))"
proof -
  have second: "
            (if \<exists>e. expires_at t = Some e \<and> now < e
             then tokens (construtor now f) = Some t \<and> tokens_file (construtor now f) = f
             else tokens (construtor now f) = None \<and> tokens_file (construtor now f) = None
                \<and> (\<forall>w now'. ensureValidToken w now' (construtor now f)
                        = (Inl (BadRequestException msg_sem_token), construtor now f)))"
    if f: "f = Some (Conteudo t)" for t
  proof (cases "nao_expirado now t")
    case True
    have "\<exists>e. expires_at t = Some e \<and> now < e"
      using True nao_expirado_iff [OF assms, of t] by simp
    moreover have "tokens (construtor now f) = Some t \<and> tokens_file (construtor now f) = f"
      unfolding f by (rule construtor_carregado [OF True])
    ultimately show ?thesis by (simp only: if_True)
  next
    case False
    have ne: "\<not> (\<exists>e. expires_at t = Some e \<and> now < e)"
      using False nao_expirado_iff [OF assms, of t] by simp
    have d: "tokens (construtor now f) = None \<and> tokens_file (construtor now f) = None"
      unfolding f by (rule construtor_descartado [OF False])
    then have "\<forall>w now'. ensureValidToken w now' (construtor now f)
                        = (Inl (BadRequestException msg_sem_token), construtor now f)"
      using ensureValidToken_sem_tokens by blast
    with d ne show ?thesis by (simp only: if_False simp_thms)
  qed
  have first: "tokens (construtor now f) \<noteq> None \<longrightarrow>
            (\<exists>t e. f = Some (Conteudo t) \<and> expires_at t = Some e \<and> now < e
                   \<and> tokens (construtor now f) = Some t)"
  proof
    assume loaded: "tokens (construtor now f) \<noteq> None"
    then obtain t where f: "f = Some (Conteudo t)"
      using construtor_sem_conteudo [of now f] by blast
    have ne: "nao_expirado now t"
    proof (rule ccontr)
      assume "\<not> nao_expirado now t"
      from construtor_descartado [OF this] loaded f show False by simp
    qed
    then obtain e where e: "expires_at t = Some e" "now < e"
      using nao_expirado_iff [OF assms, of t] by blast
    have "tokens (construtor now f) = Some t"
      unfolding f using construtor_carregado [OF ne] by simp
    with f e show "\<exists>t e. f = Some (Conteudo t) \<and> expires_at t = Some e \<and> now < e
                   \<and> tokens (construtor now f) = Some t"
      by blast
  qed
  show ?thesis using first second by blast
qed



theorem C10_loadTokens_witness:
  "(0::int) \<le> 2000
   \<and> tokens (construtor 2000 (Some (Conteudo (ex_tokens 1000)))) = None
   \<and> tokens_file (construtor 2000 (Some (Conteudo (ex_tokens 1000)))) = None
   \<and> tokens (construtor 2000 (Some (Conteudo (ex_tokens 3000)))) = Some (ex_tokens 3000)"
proof -
  have h: "(0::int) \<le> 2000" by simp
  have e1: "\<not> (\<exists>e. expires_at (ex_tokens 1000) = Some e \<and> (2000::int) < e)"
    by (simp add: ex_tokens_def)
  have e3: "\<exists>e. expires_at (ex_tokens 3000) = Some e \<and> (2000::int) < e"
    by (simp add: ex_tokens_def)
  note x1 = C10_loadTokens_only_unexpired [OF h, of "Some (Conteudo (ex_tokens 1000))",
              THEN conjunct2, THEN spec, of "ex_tokens 1000", THEN mp, OF refl]
  note x3 = C10_loadTokens_only_unexpired [OF h, of "Some (Conteudo (ex_tokens 3000))",
              THEN conjunct2, THEN spec, of "ex_tokens 3000", THEN mp, OF refl]
  from x1 e1
  have a: "tokens (construtor 2000 (Some (Conteudo (ex_tokens 1000)))) = None
      \<and> tokens_file (construtor 2000 (Some (Conteudo (ex_tokens 1000)))) = None"
    by (simp only: if_False simp_thms)
  from x3 e3
  have b: "tokens (construtor 2000 (Some (Conteudo (ex_tokens 3000)))) = Some (ex_tokens 3000)"
    by (simp only: if_True simp_thms)
  show ?thesis using h a b by (simp only: simp_thms)
qed


theorem C5_ensureValidToken_refresh_witness:
  "tokens (ex_blingService 1120000) = Some (ex_tokens 1120000)
   \<and> disparou_renovacao ex_mundo_token 1000000 (ex_blingService 1120000)
   \<and> ensureValidToken ex_mundo_token 520000 (ex_blingService 1120000)
         = (Inr ''A'', ex_blingService 1120000)
   \<and> ensureValidToken ex_mundo_token_renova 1000000 (ex_blingService 1120000)
         = (Inr ''B'',
            \<lparr>tokens = Some (ex_tokens_novos\<lparr>expires_at := Some 4600001\<rparr>),
             tokens_file = Some (Conteudo (ex_tokens_novos\<lparr>expires_at := Some 4600001\<rparr>)),
             logger = [TokenProximoDoVencimento, TokenRenovado, TokensSalvos]\<rparr>)"
proof -
  have h: "tokens (ex_blingService 1120000) = Some (ex_tokens 1120000)"
    by (simp add: ex_blingService_def)
  have e1: "expires_at (ex_tokens 1120000) = Some (1000000 + 120 * 1000)"
    by (simp add: ex_tokens_def)
  have e2: "expires_at (ex_tokens 1120000) = Some (520000 + 10 * 60 * 1000)"
    by (simp add: ex_tokens_def)
  have a: "access_token (ex_tokens 1120000) = ''A''"
    by (simp add: ex_tokens_def)
  note x1 = C5_ensureValidToken_refresh_iff [OF h, of ex_mundo_token 1000000,
              THEN conjunct2, THEN conjunct1, THEN mp, OF e1]
  note x2 = C5_ensureValidToken_refresh_iff [OF h, of ex_mundo_token 520000,
              THEN conjunct2, THEN conjunct2, THEN conjunct1, THEN mp, OF e2]
  have p: "(1000000::int) \<ge> expiresAt_ou_0 (ex_tokens 1120000) - 5 * 60 * 1000
            \<and> refresh_token (ex_tokens 1120000) \<noteq> []
            \<and> token_url ex_mundo_token_renova (refresh_token (ex_tokens 1120000))
                  = Chegou (Resposta 200 ''{}'' (Some ex_tokens_novos))
            \<and> ok (Resposta 200 ''{}'' (Some ex_tokens_novos))
            \<and> http_json (Resposta 200 ''{}'' (Some ex_tokens_novos)) = Some ex_tokens_novos"
    by (simp add: ex_tokens_def expiresAt_ou_0_def ex_mundo_token_renova_def ok_def)
  note x3 = C5_ensureValidToken_refresh_iff [OF h, of ex_mundo_token_renova 1000000
              "Resposta 200 ''{}'' (Some ex_tokens_novos)" ex_tokens_novos,
              THEN conjunct2, THEN conjunct2, THEN conjunct2, THEN conjunct2, THEN conjunct1,
              THEN mp, OF p]
  have v: "access_token ex_tokens_novos = ''B''"
          "agora_resposta ex_mundo_token_renova + expires_in ex_tokens_novos * 1000 = 4600001"
    by (simp_all add: ex_tokens_novos_def ex_mundo_token_renova_def)
  have st: "ex_blingService 1120000
              \<lparr>tokens := Some (ex_tokens_novos\<lparr>expires_at := Some 4600001\<rparr>),
               tokens_file := Some (Conteudo (ex_tokens_novos\<lparr>expires_at := Some 4600001\<rparr>)),
               logger := logger (ex_blingService 1120000)
                          @ [TokenProximoDoVencimento, TokenRenovado, TokensSalvos]\<rparr>
            = \<lparr>tokens = Some (ex_tokens_novos\<lparr>expires_at := Some 4600001\<rparr>),
               tokens_file = Some (Conteudo (ex_tokens_novos\<lparr>expires_at := Some 4600001\<rparr>)),
               logger = [TokenProximoDoVencimento, TokenRenovado, TokensSalvos]\<rparr>"
    by (simp add: ex_blingService_def)
  have x3': "ensureValidToken ex_mundo_token_renova 1000000 (ex_blingService 1120000)
         = (Inr ''B'',
            \<lparr>tokens = Some (ex_tokens_novos\<lparr>expires_at := Some 4600001\<rparr>),
             tokens_file = Some (Conteudo (ex_tokens_novos\<lparr>expires_at := Some 4600001\<rparr>)),
             logger = [TokenProximoDoVencimento, TokenRenovado, TokensSalvos]\<rparr>)"
    using x3 unfolding v st .
  show ?thesis using h x1 x2 x3' by (simp only: a simp_thms)
qed

section \<open>Contact search: properties\<close>


lemma buscarContatoPorCPF_Inr:
  "\<exists>r. fst (buscarContatoPorCPF w cpf s) = Inr r"
  by (simp add: buscarContatoPorCPF_def split: prod.splits sum.splits)

lemma buscarContatoPorCPF_token_falha:
  "fst (ensureValidToken (mc_token w) (mc_agora w) s) = Inl e
     \<Longrightarrow> fst (buscarContatoPorCPF w cpf s) = Inr None"
  by (auto simp: buscarContatoPorCPF_def tentarBuscarContatoPorCPF_def
           split: prod.splits sum.splits)

lemma buscarContatoPorCPF_rejeitou:
  "buscar_contatos w cpf = Rejeitou e \<Longrightarrow> fst (buscarContatoPorCPF w cpf s) = Inr None"
  by (auto simp: buscarContatoPorCPF_def tentarBuscarContatoPorCPF_def
           split: prod.splits sum.splits)

lemma buscarContatoPorCPF_nao_ok:
  "buscar_contatos w cpf = Chegou r \<Longrightarrow> \<not> ok r \<Longrightarrow> fst (buscarContatoPorCPF w cpf s) = Inr None"
  by (auto simp: buscarContatoPorCPF_def tentarBuscarContatoPorCPF_def
           split: prod.splits sum.splits)

lemma buscarContatoPorCPF_json_invalido:
  "buscar_contatos w cpf = Chegou r \<Longrightarrow> http_json r = None
     \<Longrightarrow> fst (buscarContatoPorCPF w cpf s) = Inr None"
  by (auto simp: buscarContatoPorCPF_def tentarBuscarContatoPorCPF_def
           split: prod.splits sum.splits)

lemma verificarOuCriarContato_cria:
  assumes "verdadeiro (digitos_opcionais (campo (dup_responsavel d) resp_cpf))"
    and "fst (buscarContatoPorCPF w (the (digitos_opcionais (campo (dup_responsavel d) resp_cpf))) s) = Inr None"
  shows "verificarOuCriarContato w d s
           = aposBuscaSemContato w d
               (snd (buscarContatoPorCPF w (the (digitos_opcionais (campo (dup_responsavel d) resp_cpf))) s))"
  using assms
  by (cases "buscarContatoPorCPF w (the (digitos_opcionais (campo (dup_responsavel d) resp_cpf))) s")
     (auto simp: verificarOuCriarContato_def tentarVerificarOuCriarContato_def
                 aposBuscaSemContato_def Let_def
           split: prod.splits sum.splits option.splits)


lemma criarContato_ok:
  assumes "ensureValidToken (mc_token w) (mc_agora w) s = (Inr a, s)"
    and "criar_contato w (montarDadosContato d) = Chegou r" and "ok r"
    and "http_json r = Some (Some novoId)"
  shows "\<exists>c. criarContato w d s = (Inr c, s) \<and> cc_id c = novoId"
  using assms by (simp add: criarContato_def tentarCriarContato_def Let_def)

lemma buscarDadosCompletos_ok:
  assumes "ensureValidToken (mc_token w) (mc_agora w) s = (Inr a, s)"
    and "detalhes_contato w i = Chegou r" and "ok r" and "http_json r = Some (Some c)"
  shows "buscarDadosCompletos w i s = (Inr c, s)"
  using assms
  by (simp add: buscarDadosCompletos_def obterDetalhesContato_def tentarObterDetalhesContato_def)

lemma buscarContatoPorCPF_estado:
  assumes "ensureValidToken (mc_token w) (mc_agora w) s = (Inr a, s)"
  shows "snd (buscarContatoPorCPF w cpf s) = s"
  using assms
  by (auto simp: buscarContatoPorCPF_def tentarBuscarContatoPorCPF_def
           split: prod.splits sum.splits fetch.splits option.splits)

lemma aposBuscaSemContato_ok:
  assumes "ensureValidToken (mc_token w) (mc_agora w) s = (Inr a, s)"
    and "criar_contato w (montarDadosContato d) = Chegou r" and "ok r"
    and "http_json r = Some (Some novoId)"
    and "detalhes_contato w novoId = Chegou r'" and "ok r'" and "http_json r' = Some (Some c)"
  shows "aposBuscaSemContato w d s = (Inr c, s)"
proof -
  obtain cc where cc: "criarContato w d s = (Inr cc, s)" "cc_id cc = novoId"
    using criarContato_ok [OF assms(1-4)] by blast
  have "buscarDadosCompletos w (cc_id cc) s = (Inr c, s)"
    unfolding cc(2) by (rule buscarDadosCompletos_ok [OF assms(1) assms(5-7)])
  with cc show ?thesis by (simp add: aposBuscaSemContato_def)
qed

lemma busca_falhou_None:
  "busca_falhou w cpf \<Longrightarrow> fst (buscarContatoPorCPF w cpf s) = Inr None"
  by (cases "buscar_contatos w cpf")
     (auto simp: busca_falhou_def buscarContatoPorCPF_rejeitou buscarContatoPorCPF_nao_ok)

text \<open>
  C9. \<open>buscarContatoPorCPF\<close> never raises: whatever the token state, the CPF and the
  answer of Bling, it returns a value. A rejected fetch (the 30-second abort or any other
  network error), a response that is not 2xx and a failed token check all give
  \<^verbatim>\<open>null\<close>, the value of "no exact match". After such a failed search
  \<open>verificarOuCriarContato\<close> goes on to create the contact; when the creation and the
  profile read succeed it returns the profile of the new contact.
\<close>

theorem C9_buscarContatoPorCPF_never_raises:
  "(\<exists>r. fst (buscarContatoPorCPF w cpf s) = Inr r)
   \<and> (busca_falhou w cpf \<longrightarrow> fst (buscarContatoPorCPF w cpf s) = Inr None)
   \<and> ((\<exists>e. fst (ensureValidToken (mc_token w) (mc_agora w) s) = Inl e)
         \<longrightarrow> fst (buscarContatoPorCPF w cpf s) = Inr None)
   \<and> (resp_cpf resp = Some doc \<and> so_digitos doc \<noteq> [] \<and> dup_responsavel d = Some resp
         \<and> busca_falhou w (so_digitos doc)
       \<longrightarrow> verificarOuCriarContato w d s
             = aposBuscaSemContato w d (snd (buscarContatoPorCPF w (so_digitos doc) s)))
   \<and> (resp_cpf resp = Some doc \<and> so_digitos doc \<noteq> [] \<and> dup_responsavel d = Some resp
         \<and> busca_falhou w (so_digitos doc)
         \<and> tokens s = Some t \<and> mc_agora w < expiresAt_ou_0 t - 5 * 60 * 1000
         \<and> criar_contato w (montarDadosContato d) = Chegou rc \<and> ok rc
         \<and> http_json rc = Some (Some novoId)
         \<and> detalhes_contato w novoId = Chegou rd \<and> ok rd \<and> http_json rd = Some (Some c)
       \<longrightarrow> verificarOuCriarContato w d s = (Inr c, s))"
proof -
  have cria: "verificarOuCriarContato w d s
             = aposBuscaSemContato w d (snd (buscarContatoPorCPF w (so_digitos doc) s))"
    if h: "resp_cpf resp = Some doc" "so_digitos doc \<noteq> []" "dup_responsavel d = Some resp"
          "busca_falhou w (so_digitos doc)"
  proof -
    have cpf: "digitos_opcionais (campo (dup_responsavel d) resp_cpf) = Some (so_digitos doc)"
      using h(1,3) by (simp add: digitos_opcionais_def campo_def)
    have v: "verdadeiro (digitos_opcionais (campo (dup_responsavel d) resp_cpf))"
      using h(2) by (simp add: cpf verdadeiro_def)
    show ?thesis
      using verificarOuCriarContato_cria [OF v] busca_falhou_None [OF h(4)] by (simp add: cpf)
  qed
  have fim: "verificarOuCriarContato w d s = (Inr c, s)"
    if h: "resp_cpf resp = Some doc" "so_digitos doc \<noteq> []" "dup_responsavel d = Some resp"
          "busca_falhou w (so_digitos doc)"
      and tk: "tokens s = Some t" "mc_agora w < expiresAt_ou_0 t - 5 * 60 * 1000"
      and cr: "criar_contato w (montarDadosContato d) = Chegou rc" "ok rc"
              "http_json rc = Some (Some novoId)"
      and dt: "detalhes_contato w novoId = Chegou rd" "ok rd" "http_json rd = Some (Some c)"
  proof -
    have e: "ensureValidToken (mc_token w) (mc_agora w) s = (Inr (access_token t), s)"
      using ensureValidToken_cached [OF tk(1)] tk(2) by simp
    have "snd (buscarContatoPorCPF w (so_digitos doc) s) = s"
      by (rule buscarContatoPorCPF_estado [OF e])
    then show ?thesis
      using cria [OF h] aposBuscaSemContato_ok [OF e cr dt] by simp
  qed
  show ?thesis
    using buscarContatoPorCPF_Inr [of w cpf s] busca_falhou_None [of w cpf s]
          buscarContatoPorCPF_token_falha [of w s _ cpf] cria fim
    by blast
qed


theorem C9_buscarContatoPorCPF_witness:
  "busca_falhou ex_mundo_contatos (so_digitos ''123.456.789-09'')
   \<and> fst (buscarContatoPorCPF ex_mundo_contatos (so_digitos ''123.456.789-09'')
            (ex_blingService 1120000)) = Inr None
   \<and> verificarOuCriarContato ex_mundo_contatos ex_duplicata (ex_blingService 1120000)
         = (Inr ex_contato, ex_blingService 1120000)"
proof -
  have f: "busca_falhou ex_mundo_contatos (so_digitos ''123.456.789-09'')"
    by (simp add: busca_falhou_def ex_mundo_contatos_def)
  have h1: "resp_cpf ex_responsavel = Some ''123.456.789-09''"
    by (simp add: ex_responsavel_def)
  have h2: "so_digitos ''123.456.789-09'' \<noteq> []"
    by (simp add: so_digitos_def eh_digito_def)
  have h3: "dup_responsavel ex_duplicata = Some ex_responsavel"
    by (simp add: ex_duplicata_def)
  have h4: "tokens (ex_blingService 1120000) = Some (ex_tokens 1120000)"
    by (simp add: ex_blingService_def)
  have h5: "mc_agora ex_mundo_contatos < expiresAt_ou_0 (ex_tokens 1120000) - 5 * 60 * 1000"
    by (simp add: ex_mundo_contatos_def ex_tokens_def expiresAt_ou_0_def)
  have h6: "criar_contato ex_mundo_contatos (montarDadosContato ex_duplicata)
              = Chegou (Resposta 201 ''{}'' (Some (Some 77)))"
    by (simp add: ex_mundo_contatos_def)
  have h7: "detalhes_contato ex_mundo_contatos 77
              = Chegou (Resposta 200 ''{}'' (Some (Some ex_contato)))"
    by (simp add: ex_mundo_contatos_def)
  have h8: "ok (Resposta 201 ''{}'' (Some (Some (77::int))))"
           "ok (Resposta 200 ''{}'' (Some (Some ex_contato)))"
    by (simp_all add: ok_def)
  have h9: "http_json (Resposta 201 ''{}'' (Some (Some (77::int)))) = Some (Some 77)"
           "http_json (Resposta 200 ''{}'' (Some (Some ex_contato))) = Some (Some ex_contato)"
    by simp_all
  note t = C9_buscarContatoPorCPF_never_raises
             [where w = ex_mundo_contatos and cpf = "so_digitos ''123.456.789-09''"
                and s = "ex_blingService 1120000" and resp = ex_responsavel
                and doc = "''123.456.789-09''" and d = ex_duplicata
                and t = "ex_tokens 1120000"
                and rc = "Resposta 201 ''{}'' (Some (Some 77))" and novoId = 77
                and rd = "Resposta 200 ''{}'' (Some (Some ex_contato))" and c = ex_contato]
  have a: "fst (buscarContatoPorCPF ex_mundo_contatos (so_digitos ''123.456.789-09'')
            (ex_blingService 1120000)) = Inr None"
    using t f by blast
  have b: "verificarOuCriarContato ex_mundo_contatos ex_duplicata (ex_blingService 1120000)
         = (Inr ex_contato, ex_blingService 1120000)"
    using t f h1 h2 h3 h4 h5 h6 h7 h8 h9 by blast
  show ?thesis using f a b by blast
qed

section \<open>Generating RPS: properties\<close>


lemma isConsumidorFinal_iff:
  "isConsumidorFinal p \<longleftrightarrow>
     (case contato p of
        None \<Rightarrow> True
      | Some c \<Rightarrow> (case cp_numeroDocumento c of
                     None \<Rightarrow> True
                   | Some doc \<Rightarrow> length (so_digitos doc) < 11))"
  by (auto simp: isConsumidorFinal_def verdadeiro_def so_digitos_def Let_def split: option.splits)

lemma gerarUm_consumidor_final:
  "pedidos_vendas w i = Inr (Some p) \<Longrightarrow> isConsumidorFinal p
     \<Longrightarrow> gerarUm w i b = (ignorado i (numero p) msg_consumidor_final None, b)"
  by (simp add: gerarUm_def tentarGerar_def)

lemma gerarLoop_resultados:
  "\<exists>rs'. fst (gerarLoop w ids rs n b) = rs @ rs' \<and> length rs' = length ids
          \<and> (\<forall>k<length ids. \<exists>bk. rs' ! k = fst (gerarUm w (ids ! k) bk))"
proof (induction ids arbitrary: rs n b)
  case Nil
  show ?case by simp
next
  case (Cons i ids)
  obtain r b' where g: "gerarUm w i b = (r, b')" by (cases "gerarUm w i b")
  let ?n = "if res_status r = ''sucesso'' then n + 1 else n"
  obtain rs' where rs': "fst (gerarLoop w ids (rs @ [r]) ?n b') = (rs @ [r]) @ rs'"
      "length rs' = length ids"
      "\<forall>k<length ids. \<exists>bk. rs' ! k = fst (gerarUm w (ids ! k) bk)"
    using Cons.IH [of "rs @ [r]" ?n b'] by blast
  have "fst (gerarLoop w (i # ids) rs n b) = rs @ (r # rs')"
    using g rs'(1) by simp
  moreover have "length (r # rs') = length (i # ids)"
    using rs'(2) by simp
  moreover have "\<forall>k<length (i # ids). \<exists>bk. (r # rs') ! k = fst (gerarUm w ((i # ids) ! k) bk)"
  proof (intro allI impI)
    fix k assume k: "k < length (i # ids)"
    show "\<exists>bk. (r # rs') ! k = fst (gerarUm w ((i # ids) ! k) bk)"
    proof (cases k)
      case 0
      then show ?thesis using g by (auto intro: exI [of _ b])
    next
      case (Suc j)
      then show ?thesis using k rs'(3) by simp
    qed
  qed
  ultimately show ?case by blast
qed

lemma gerarRPSParaPedidos_nth:
  assumes "k < length ids"
  shows "\<exists>bk. ger_resultados (fst (gerarRPSParaPedidos w ids b)) ! k = fst (gerarUm w (ids ! k) bk)"
proof -
  obtain rs' where "fst (gerarLoop w ids [] 0 b) = [] @ rs'"
      "\<forall>k<length ids. \<exists>bk. rs' ! k = fst (gerarUm w (ids ! k) bk)"
    using gerarLoop_resultados [of w ids "[]" 0 b] by blast
  moreover have "ger_resultados (fst (gerarRPSParaPedidos w ids b)) = fst (gerarLoop w ids [] 0 b)"
    by (cases "gerarLoop w ids [] 0 b") (simp add: gerarRPSParaPedidos_def)
  ultimately show ?thesis
    using assms by simp
qed

lemma gerarRPSParaPedidos_um:
  "gerarRPSParaPedidos w [i] b
     = (\<lparr>ger_success = True,
         ger_processados = (if res_status (fst (gerarUm w i b)) = ''sucesso'' then 1 else 0),
         ger_total = 1, ger_resultados = [fst (gerarUm w i b)]\<rparr>, snd (gerarUm w i b))"
  by (simp add: gerarRPSParaPedidos_def split: prod.splits)

text \<open>
  C6. \<open>isConsumidorFinal\<close> is true exactly when the order has no contact, the contact
  has no document (absent or empty), or the document has fewer than 11 digits once the
  non-digits are stripped. When the order fetched for an id is such an order, the turn of
  the loop for that id pushes an \<^verbatim>\<open>ignorado\<close> result with the consumer-final
  message and leaves the table as it is, at whatever position of the batch.
\<close>

theorem C6_consumidor_final_ignorado:
  "(isConsumidorFinal p \<longleftrightarrow>
      (case contato p of
         None \<Rightarrow> True
       | Some c \<Rightarrow> (case cp_numeroDocumento c of
                      None \<Rightarrow> True
                    | Some doc \<Rightarrow> length (so_digitos doc) < 11)))
   \<and> (pedidos_vendas w i = Inr (Some p) \<and> isConsumidorFinal p \<longrightarrow>
        gerarUm w i b = (ignorado i (numero p) msg_consumidor_final None, b)
        \<and> res_status (fst (gerarUm w i b)) = ''ignorado'')
   \<and> (k < length ids \<and> pedidos_vendas w (ids ! k) = Inr (Some p) \<and> isConsumidorFinal p \<longrightarrow>
        ger_resultados (fst (gerarRPSParaPedidos w ids b)) ! k
          = ignorado (ids ! k) (numero p) msg_consumidor_final None)"
proof -
  have a: "gerarUm w i b = (ignorado i (numero p) msg_consumidor_final None, b)
        \<and> res_status (fst (gerarUm w i b)) = ''ignorado''"
    if "pedidos_vendas w i = Inr (Some p)" "isConsumidorFinal p"
    using gerarUm_consumidor_final [OF that] by (simp add: ignorado_def)
  have c: "ger_resultados (fst (gerarRPSParaPedidos w ids b)) ! k
          = ignorado (ids ! k) (numero p) msg_consumidor_final None"
    if k: "k < length ids" and p: "pedidos_vendas w (ids ! k) = Inr (Some p)" "isConsumidorFinal p"
  proof -
    obtain bk where "ger_resultados (fst (gerarRPSParaPedidos w ids b)) ! k
        = fst (gerarUm w (ids ! k) bk)"
      using gerarRPSParaPedidos_nth [OF k] by blast
    then show ?thesis
      using gerarUm_consumidor_final [OF p, of bk] by simp
  qed
  show ?thesis
    using isConsumidorFinal_iff [of p] a c by blast
qed

lemma filtrarServicos_vazio:
  assumes "\<forall>it \<in> set its. \<exists>produtoId. item_produto it = Some produtoId
              \<and> (\<forall>pr. produtos w produtoId = Inr (Some pr) \<longrightarrow> tipo pr \<noteq> ''S'')"
  shows "filtrarServicos w its = Inr []"
  using assms
proof (induction its)
  case Nil
  show ?case by simp
next
  case (Cons it its)
  then obtain produtoId where p: "item_produto it = Some produtoId"
     "\<forall>pr. produtos w produtoId = Inr (Some pr) \<longrightarrow> tipo pr \<noteq> ''S''"
    by auto
  have "filtrarServicos w its = Inr []"
    using Cons by simp
  then show ?case
    using p by (simp split: sum.splits option.splits)
qed

lemma gerarUm_sem_servicos:
  assumes "pedidos_vendas w i = Inr (Some p)" "\<not> isConsumidorFinal p"
    and "buscarPorPedidoId i b = None" and "filtrarServicos w (itens_do_pedido p) = Inr []"
  shows "gerarUm w i b = (ignorado i (numero p) msg_sem_servicos None, b)"
proof -
  obtain cp where "contato p = Some cp"
    using assms(2) by (cases "contato p") (simp_all add: isConsumidorFinal_def)
  then show ?thesis
    using assms by (simp add: gerarUm_def tentarGerar_def)
qed

text \<open>
  C7. An order without service lines is not always \<^verbatim>\<open>ignorado\<close>. Take an order that
  is fetched, is not consumer-final, has no row yet and whose only item carries no
  \<^verbatim>\<open>produto\<close> member. No product of type S is retained for it, yet the turn ends with
  \<^verbatim>\<open>erro\<close> and not with \<^verbatim>\<open>ignorado\<close>: reading \<^verbatim>\<open>item.produto.id\<close> throws inside the per-item
  \<^verbatim>\<open>try\<close>, and the per-item \<^verbatim>\<open>catch\<close>, which is there to skip the item, reads
  \<^verbatim>\<open>item.produto.id\<close> again for its warning and throws out of the loop into the
  \<^verbatim>\<open>catch\<close> of the turn. The same order with an item whose product fetch fails is
  skipped by that per-item \<^verbatim>\<open>catch\<close> and classified \<^verbatim>\<open>ignorado\<close> with the
  no-services message. In both runs the table stays as it was.
\<close>

theorem C7_item_sem_produto_erro:
  "pedidos_vendas ex_bling_item_sem_produto 1234 = Inr (Some ex_pedido_item_sem_produto)
   \<and> \<not> isConsumidorFinal ex_pedido_item_sem_produto
   \<and> buscarPorPedidoId 1234 banco_vazio = None
   \<and> map item_produto (itens_do_pedido ex_pedido_item_sem_produto) = [None]
   \<and> gerarUm ex_bling_item_sem_produto 1234 banco_vazio
         = (\<lparr>res_pedidoId = 1234, res_numeroPedido = 1234, res_status = ''erro'',
             res_mensagem = ''Cannot read properties of undefined (reading id)'',
             res_numeroRPS = None, res_nfseId = None\<rparr>, banco_vazio)
   \<and> map res_status
         (ger_resultados (fst (gerarRPSParaPedidos ex_bling_item_sem_produto [1234] banco_vazio)))
         = [''erro'']
   \<and> snd (gerarRPSParaPedidos ex_bling_item_sem_produto [1234] banco_vazio) = banco_vazio
   \<and> pedidos_vendas ex_bling_produtos_falham 1234 = Inr (Some ex_pedido)
   \<and> map item_produto (itens_do_pedido ex_pedido) = [Some 5]
   \<and> gerarUm ex_bling_produtos_falham 1234 banco_vazio
         = (ignorado 1234 42 msg_sem_servicos None, banco_vazio)"
proof -
  have h1: "pedidos_vendas ex_bling_item_sem_produto 1234 = Inr (Some ex_pedido_item_sem_produto)"
    by (simp add: ex_bling_item_sem_produto_def)
  have h2: "\<not> isConsumidorFinal ex_pedido_item_sem_produto"
    by (simp add: isConsumidorFinal_def ex_pedido_item_sem_produto_def ex_pedido_def
                  verdadeiro_def so_digitos_def eh_digito_def)
  have h3: "buscarPorPedidoId 1234 banco_vazio = None"
    by (simp add: buscarPorPedidoId_def banco_vazio_def)
  have its: "itens_do_pedido ex_pedido_item_sem_produto
               = [\<lparr>item_produto = None, item_descricao = Some ''Taxa'',
                   item_valor = Some 10, item_valorUnidade = None\<rparr>]"
    by (simp add: itens_do_pedido_def ex_pedido_item_sem_produto_def)
  have h4: "map item_produto (itens_do_pedido ex_pedido_item_sem_produto) = [None]"
    by (simp add: its)
  have fs: "filtrarServicos ex_bling_item_sem_produto (itens_do_pedido ex_pedido_item_sem_produto)
              = Inl (TypeError ''Cannot read properties of undefined (reading id)'')"
    by (simp add: its)
  have ct: "contato ex_pedido_item_sem_produto
              = Some \<lparr>cp_id = 77, cp_numeroDocumento = Some ''123.456.789-09''\<rparr>"
    by (simp add: ex_pedido_item_sem_produto_def ex_pedido_def)
  have g: "gerarUm ex_bling_item_sem_produto 1234 banco_vazio
         = (\<lparr>res_pedidoId = 1234, res_numeroPedido = 1234, res_status = ''erro'',
             res_mensagem = ''Cannot read properties of undefined (reading id)'',
             res_numeroRPS = None, res_nfseId = None\<rparr>, banco_vazio)"
    by (simp add: gerarUm_def tentarGerar_def h1 h2 h3 ct fs TypeError_def)
  have l: "map res_status
         (ger_resultados (fst (gerarRPSParaPedidos ex_bling_item_sem_produto [1234] banco_vazio)))
         = [''erro'']"
          "snd (gerarRPSParaPedidos ex_bling_item_sem_produto [1234] banco_vazio) = banco_vazio"
    by (simp_all add: gerarRPSParaPedidos_um g)
  have k1: "pedidos_vendas ex_bling_produtos_falham 1234 = Inr (Some ex_pedido)"
    by (simp add: ex_bling_produtos_falham_def ex_bling_def)
  have k2: "\<not> isConsumidorFinal ex_pedido"
    by (simp add: isConsumidorFinal_def ex_pedido_def verdadeiro_def so_digitos_def eh_digito_def)
  have k4: "map item_produto (itens_do_pedido ex_pedido) = [Some 5]"
    by (simp add: itens_do_pedido_def ex_pedido_def)
  have k5: "filtrarServicos ex_bling_produtos_falham (itens_do_pedido ex_pedido) = Inr []"
    by (simp add: itens_do_pedido_def ex_pedido_def ex_bling_produtos_falham_def ex_bling_def)
  have n: "numero ex_pedido = 42"
    by (simp add: ex_pedido_def)
  have k: "gerarUm ex_bling_produtos_falham 1234 banco_vazio
         = (ignorado 1234 42 msg_sem_servicos None, banco_vazio)"
    using gerarUm_sem_servicos [OF k1 k2 h3 k5] by (simp add: n)
  show ?thesis
    using h1 h2 h3 h4 g l k1 k4 k by blast
qed

theorem C6_consumidor_final_witness:
  "pedidos_vendas ex_bling_consumidor_final 7 = Inr (Some ex_pedido_sem_documento)
   \<and> isConsumidorFinal ex_pedido_sem_documento
   \<and> res_status (fst (gerarUm ex_bling_consumidor_final 7 banco_vazio)) = ''ignorado''
   \<and> ger_resultados (fst (gerarRPSParaPedidos ex_bling_consumidor_final [7] banco_vazio)) ! 0
         = ignorado 7 42 msg_consumidor_final None"
proof -
  have h1: "pedidos_vendas ex_bling_consumidor_final 7 = Inr (Some ex_pedido_sem_documento)"
    by (simp add: ex_bling_consumidor_final_def)
  have n: "numero ex_pedido_sem_documento = 42"
    by (simp add: ex_pedido_sem_documento_def ex_pedido_def)
  note t = C6_consumidor_final_ignorado
             [where p = ex_pedido_sem_documento and w = ex_bling_consumidor_final and i = 7
                and b = banco_vazio and k = 0 and ids = "[7]"]
  have h2: "isConsumidorFinal ex_pedido_sem_documento"
    using t by (simp add: ex_pedido_sem_documento_def ex_pedido_def so_digitos_def eh_digito_def)
  have k: "(0::nat) < length [7::int]" "[7::int] ! 0 = 7" by simp_all
  have a: "res_status (fst (gerarUm ex_bling_consumidor_final 7 banco_vazio)) = ''ignorado''"
    using t h1 h2 by blast
  have b: "ger_resultados (fst (gerarRPSParaPedidos ex_bling_consumidor_final [7] banco_vazio)) ! 0
         = ignorado 7 42 msg_consumidor_final None"
    using t h1 h2 k n by simp
  show ?thesis using h1 h2 a b by blast
qed

section \<open>RPS numbers: properties\<close>


lemma digito_eh_digito: "d < 10 \<Longrightarrow> eh_digito (digito d)"
  unfolding eh_digito_def digito_def by (rule nth_mem) simp

lemma digitos_de_digitos: "list_all eh_digito (digitos_de n)"
proof (induction n rule: digitos_de.induct)
  case (1 n)
  show ?case
  proof (cases "n < 10")
    case True
    then show ?thesis by (subst digitos_de.simps) (simp add: digito_eh_digito)
  next
    case False
    then show ?thesis
      using 1 by (subst digitos_de.simps) (simp add: digito_eh_digito)
  qed
qed

lemma digitos_de_length: "0 < d \<Longrightarrow> n < 10 ^ d \<Longrightarrow> length (digitos_de n) \<le> d"
proof (induction d arbitrary: n)
  case 0
  then show ?case by simp
next
  case (Suc d)
  show ?case
  proof (cases "n < 10")
    case True
    then show ?thesis by (subst digitos_de.simps) simp
  next
    case False
    then have d: "0 < d"
      using Suc.prems by (cases d) auto
    have "n div 10 < 10 ^ d"
      using Suc.prems(2) by (simp add: less_mult_imp_div_less mult.commute)
    then have "length (digitos_de (n div 10)) \<le> d"
      using Suc.IH [OF d] by simp
    then show ?thesis
      using False by (subst digitos_de.simps) simp
  qed
qed

lemma digitos_de_nao_vazio: "digitos_de n \<noteq> []"
  by (subst digitos_de.simps) simp

lemma padStart_length: "length s \<le> n \<Longrightarrow> length (padStart n c s) = n"
  by (simp add: padStart_def)

lemma padStart_digitos:
  assumes "list_all eh_digito s"
  shows "list_all eh_digito (padStart n (CHR ''0'') s)"
proof -
  have z: "eh_digito (CHR ''0'')" by (simp add: eh_digito_def)
  have "list_all eh_digito (replicate k (CHR ''0''))" for k
    using z by (induction k) simp_all
  then show ?thesis using assms by (simp add: padStart_def)
qed

lemma gerarNumeroRPS_forma:
  assumes n: "0 \<le> n" "n < 10 ^ 8"
  shows "gerarNumeroRPS n floorRandom
           = take 8 (numero_String n
             @ (if length (numero_String n) < 8
                then padStart (8 - length (numero_String n)) (CHR ''0'')
                       (numero_String (int (floorRandom (8 - length (numero_String n)))))
                else []))"
    and "length (gerarNumeroRPS n floorRandom) = 8"
    and "list_all eh_digito (gerarNumeroRPS n floorRandom)"
    and "prefix (numero_String n) (gerarNumeroRPS n floorRandom)"
    and "floorRandom (8 - length (numero_String n)) < 10 ^ (8 - length (numero_String n))
         \<Longrightarrow> gerarNumeroRPS n floorRandom
           = numero_String n
             @ (if length (numero_String n) < 8
                then padStart (8 - length (numero_String n)) (CHR ''0'')
                       (numero_String (int (floorRandom (8 - length (numero_String n)))))
                else [])"
proof -
  let ?np = "numero_String n"
  let ?k = "8 - length ?np"
  let ?r = "floorRandom ?k"
  let ?al = "if length ?np < 8 then padStart ?k (CHR ''0'') (numero_String (int ?r)) else []"
  have np: "?np = digitos_de (nat n)"
    using n by (simp add: numero_String_def)
  have "nat n < 10 ^ 8" using n by (simp add: nat_less_iff)
  then have len: "length ?np \<le> 8"
    unfolding np by (intro digitos_de_length) simp_all
  have rs: "numero_String (int ?r) = digitos_de ?r"
    by (simp add: numero_String_def)
  have nk: "nat (8 - int (length ?np)) = ?k" by simp
  show forma: "gerarNumeroRPS n floorRandom = take 8 (?np @ ?al)"
    by (simp add: gerarNumeroRPS_def Let_def slice0_def nk)
  have pge: "length (padStart ?k (CHR ''0'') (numero_String (int ?r))) \<ge> ?k"
    by (simp add: padStart_def)
  have ge: "length (?np @ ?al) \<ge> 8"
    using len pge by (cases "length ?np < 8") simp_all
  show "length (gerarNumeroRPS n floorRandom) = 8"
    unfolding forma using ge by simp
  have "list_all eh_digito ?np"
    unfolding np by (rule digitos_de_digitos)
  moreover have "list_all eh_digito (padStart ?k (CHR ''0'') (numero_String (int ?r)))"
    unfolding rs by (rule padStart_digitos [OF digitos_de_digitos])
  ultimately have "list_all eh_digito (?np @ ?al)"
    by simp
  then have "list_all eh_digito (take 8 (?np @ ?al))"
    unfolding list_all_iff using in_set_takeD by fast
  then show "list_all eh_digito (gerarNumeroRPS n floorRandom)"
    unfolding forma .
  have "take 8 (?np @ ?al) = ?np @ take ?k ?al"
    using len by simp
  then show "prefix ?np (gerarNumeroRPS n floorRandom)"
    unfolding forma by simp
  show "gerarNumeroRPS n floorRandom = ?np @ ?al" if r: "?r < 10 ^ ?k"
  proof (cases "length ?np < 8")
    case True
    then have "0 < ?k" by simp
    then have "length (digitos_de ?r) \<le> ?k"
      using r by (intro digitos_de_length)
    then have "length (padStart ?k (CHR ''0'') (numero_String (int ?r))) = ?k"
      unfolding rs by (rule padStart_length)
    then have "length (?np @ ?al) = 8"
      using True by simp
    then show ?thesis
      unfolding forma by simp
  next
    case False
    then have "length ?np = 8" using len by simp
    then show ?thesis
      unfolding forma by simp
  qed
qed

text \<open>
  C8. In \<open>construirPayloadNFSe\<close>, for an order number from 0 to 99999999, the RPS
  number has exactly 8 decimal digits and begins with the order number, whatever
  \<^verbatim>\<open>Math.floor(Math.random() * Math.pow(10, k))\<close> draws for the \<open>k\<close> remaining
  positions; it is the first 8 characters of the order number followed by the draw padded
  with zeros on the left to \<open>k\<close> characters, and when the draw is below \<open>10 ^ k\<close> nothing
  is cut off. No earlier RPS number is consulted there. An earlier number is reused only in
  \<open>criarDadosNFSe\<close>: when the \<^verbatim>\<open>rps\<close> of the duplicata is not blank it is taken
  with its surrounding white space trimmed; otherwise the number is the timestamp followed
  by the number of the duplicata.
\<close>

theorem C8_numeroRPS:
  "(0 \<le> numero p \<and> numero p < 10 ^ 8
          \<and> construirPayloadNFSe p (Some c) servicos formaPagamentoId floorRandom dataHoje = Inr pl
        \<longrightarrow> length (pay_numeroRPS pl) = 8
          \<and> list_all eh_digito (pay_numeroRPS pl)
          \<and> prefix (numero_String (numero p)) (pay_numeroRPS pl)
          \<and> pay_numeroRPS pl
              = take 8 (numero_String (numero p)
                @ (if length (numero_String (numero p)) < 8
                   then padStart (8 - length (numero_String (numero p))) (CHR ''0'')
                          (numero_String
                             (int (floorRandom (8 - length (numero_String (numero p))))))
                   else []))
          \<and> (floorRandom (8 - length (numero_String (numero p)))
                 < 10 ^ (8 - length (numero_String (numero p)))
               \<longrightarrow> pay_numeroRPS pl
                   = numero_String (numero p)
                     @ (if length (numero_String (numero p)) < 8
                        then padStart (8 - length (numero_String (numero p))) (CHR ''0'')
                               (numero_String
                                  (int (floorRandom (8 - length (numero_String (numero p))))))
                        else [])))
       \<and> (\<exists>pl'. construirPayloadNFSe p (Some c) servicos formaPagamentoId floorRandom dataHoje
                   = Inr pl'
                 \<and> pay_numeroRPS pl' = gerarNumeroRPS (numero p) floorRandom)
       \<and> (dup_rps d = Some r \<and> trim r \<noteq> []
            \<longrightarrow> criarDadosNFSe_numeroRPS timestampGerado d = trim r)
       \<and> (dup_rps d = None \<or> (\<exists>r. dup_rps d = Some r \<and> trim r = [])
            \<longrightarrow> criarDadosNFSe_numeroRPS timestampGerado d
                  = numero_String timestampGerado @ numero_String (dup_numero d))"
proof -
  let ?np = "numero_String (numero p)"
  let ?al = "if length ?np < 8
             then padStart (8 - length ?np) (CHR ''0'')
                    (numero_String (int (floorRandom (8 - length ?np))))
             else []"
  have a: "length (pay_numeroRPS pl) = 8
          \<and> list_all eh_digito (pay_numeroRPS pl)
          \<and> prefix ?np (pay_numeroRPS pl)
          \<and> pay_numeroRPS pl = take 8 (?np @ ?al)
          \<and> (floorRandom (8 - length ?np) < 10 ^ (8 - length ?np)
               \<longrightarrow> pay_numeroRPS pl = ?np @ ?al)"
    if n: "0 \<le> numero p" "numero p < 10 ^ 8"
      and pl: "construirPayloadNFSe p (Some c) servicos formaPagamentoId floorRandom dataHoje = Inr pl"
  proof -
    have eq: "pay_numeroRPS pl = gerarNumeroRPS (numero p) floorRandom"
      using pl by (auto simp: construirPayloadNFSe_def Let_def)
    note f = gerarNumeroRPS_forma [OF n, of floorRandom]
    show ?thesis
      unfolding eq using f by blast
  qed
  have e: "\<exists>pl'. construirPayloadNFSe p (Some c) servicos formaPagamentoId floorRandom dataHoje
                   = Inr pl'
                 \<and> pay_numeroRPS pl' = gerarNumeroRPS (numero p) floorRandom"
    by (simp add: construirPayloadNFSe_def Let_def)
  have b: "criarDadosNFSe_numeroRPS timestampGerado d = trim r"
    if "dup_rps d = Some r" "trim r \<noteq> []"
    using that by (simp add: criarDadosNFSe_numeroRPS_def)
  have c: "criarDadosNFSe_numeroRPS timestampGerado d
                  = numero_String timestampGerado @ numero_String (dup_numero d)"
    if "dup_rps d = None \<or> (\<exists>r. dup_rps d = Some r \<and> trim r = [])"
    using that by (auto simp: criarDadosNFSe_numeroRPS_def trim_def)
  show ?thesis using a b c e by blast
qed

theorem C8_numeroRPS_counterexample:
  "dup_rps ex_duplicata = None
   \<and> 0 \<le> dup_numero ex_duplicata \<and> dup_numero ex_duplicata < 10 ^ 8
   \<and> criarDadosNFSe_numeroRPS 1700000000000 ex_duplicata = ''170000000000042''
   \<and> length (criarDadosNFSe_numeroRPS 1700000000000 ex_duplicata) \<noteq> 8
   \<and> \<not> prefix (numero_String (dup_numero ex_duplicata))
           (criarDadosNFSe_numeroRPS 1700000000000 ex_duplicata)"
proof -
  have a: "criarDadosNFSe_numeroRPS 1700000000000 ex_duplicata = ''170000000000042''"
    by (simp add: criarDadosNFSe_numeroRPS_def ex_duplicata_def trim_def numero_String_def
                  digitos_de.simps digito_def)
  have b: "numero_String (dup_numero ex_duplicata) = ''42''"
    by (simp add: ex_duplicata_def numero_String_def digitos_de.simps digito_def)
  have c: "dup_rps ex_duplicata = None" "dup_numero ex_duplicata = 42"
    by (simp_all add: ex_duplicata_def)
  show ?thesis
    unfolding a b using c by simp
qed

theorem C8_numeroRPS_witness:
  "(0::int) \<le> numero ex_pedido \<and> numero ex_pedido < 10 ^ 8
   \<and> map_sum exc_message pay_numeroRPS
        (construirPayloadNFSe ex_pedido (Some ex_contato) [] 2222749 (\<lambda>k. 10 ^ k div 8)
           ''2023-11-14'')
       = Inr ''42125000''
   \<and> criarDadosNFSe_numeroRPS 1700000000000 (ex_duplicata\<lparr>dup_rps := Some '' 7 ''\<rparr>) = ''7''"
proof -
  obtain pl where pl: "construirPayloadNFSe ex_pedido (Some ex_contato) [] 2222749
                         (\<lambda>k. 10 ^ k div 8) ''2023-11-14'' = Inr pl"
    by (simp add: construirPayloadNFSe_def Let_def)
  have n: "numero ex_pedido = 42" by (simp add: ex_pedido_def)
  have h: "(0::int) \<le> numero ex_pedido" "numero ex_pedido < 10 ^ 8"
    by (simp_all add: n)
  have s42: "numero_String 42 = ''42''"
    by (simp add: numero_String_def digitos_de.simps digito_def)
  have sr: "numero_String 125000 = ''125000''"
    by (simp add: numero_String_def digitos_de.simps digito_def)
  note t = C8_numeroRPS [where p = ex_pedido and floorRandom = "\<lambda>k. 10 ^ k div 8"
             and c = ex_contato and servicos = "[]"
             and formaPagamentoId = 2222749 and dataHoje = "''2023-11-14''" and pl = pl
             and d = "ex_duplicata\<lparr>dup_rps := Some '' 7 ''\<rparr>" and r = "'' 7 ''"
             and timestampGerado = 1700000000000]
  have tr: "trim '' 7 '' = ''7''"
    by (simp add: trim_def espaco_def)
  have a: "pay_numeroRPS pl = ''42125000''"
  proof -
    from t h pl have "pay_numeroRPS pl
              = take 8 (numero_String (numero ex_pedido)
                @ (if length (numero_String (numero ex_pedido)) < 8
                   then padStart (8 - length (numero_String (numero ex_pedido))) (CHR ''0'')
                          (numero_String
                             (int (10 ^ (8 - length (numero_String (numero ex_pedido))) div 8)))
                   else []))"
      by blast
    then show ?thesis
      by (simp add: n s42 sr padStart_def)
  qed
  have b: "criarDadosNFSe_numeroRPS 1700000000000 (ex_duplicata\<lparr>dup_rps := Some '' 7 ''\<rparr>) = ''7''"
    using t tr by simp
  show ?thesis using h a b by (simp add: pl)
qed
section \<open>Generating RPS: the situation of the order and the rows written\<close>


lemma tentarGerar_com_situacao: "tentarGerar (com_situacao sit w) i b = tentarGerar w i b"
proof (cases "pedidos_vendas w i")
  case (Inl e)
  then show ?thesis by (simp add: tentarGerar_def com_situacao_def)
next
  case (Inr po)
  show ?thesis
  proof (cases po)
    case None
    then show ?thesis using Inr by (simp add: tentarGerar_def com_situacao_def)
  next
    case (Some p)
    have w: "produtos (com_situacao sit w) = produtos w" "contatos (com_situacao sit w) = contatos w"
        "nfse_post (com_situacao sit w) = nfse_post w" "agora (com_situacao sit w) = agora w"
        "hoje (com_situacao sit w) = hoje w" "sorteio (com_situacao sit w) = sorteio w"
      by (simp_all add: com_situacao_def)
    have f: "filtrarServicos (com_situacao sit w) its = filtrarServicos w its" for its
      by (induction its) (simp_all add: w split: option.splits sum.splits)
    have c: "isConsumidorFinal (p\<lparr>situacao := sit\<rparr>) = isConsumidorFinal p"
      by (simp add: isConsumidorFinal_def)
    have p: "construirPayloadNFSe (p\<lparr>situacao := sit\<rparr>) ct ss fp u dh
               = construirPayloadNFSe p ct ss fp u dh" for ct ss fp u dh
      by (cases ct) (simp_all add: construirPayloadNFSe_def Let_def)
    have e: "emitirESalvar (com_situacao sit w) i (p\<lparr>situacao := sit\<rparr>) ct ss b
               = emitirESalvar w i p ct ss b" for ct ss
      by (simp add: emitirESalvar_def w p split: sum.splits option.splits prod.splits)
    have pv: "pedidos_vendas (com_situacao sit w) i = Inr (Some (p\<lparr>situacao := sit\<rparr>))"
      using Inr Some by (simp add: com_situacao_def)
    show ?thesis
      using Inr Some
      by (simp add: tentarGerar_def pv c f e w itens_do_pedido_def
               split: sum.splits option.splits)
  qed
qed

lemma gerarUm_com_situacao: "gerarUm (com_situacao sit w) i b = gerarUm w i b"
  by (simp add: gerarUm_def tentarGerar_com_situacao)

lemma gerarLoop_com_situacao:
  "gerarLoop (com_situacao sit w) ids rs n b = gerarLoop w ids rs n b"
  by (induction ids arbitrary: rs n b) (simp_all add: gerarUm_com_situacao split: prod.splits)

lemma digito_2: "m < 10 \<Longrightarrow> digito m = CHR ''2'' \<Longrightarrow> m = 2"
proof -
  assume m: "m < 10" and d: "digito m = CHR ''2''"
  from m have "m \<in> set [0..<10]" by simp
  with d show ?thesis by (auto simp: upt_rec digito_def)
qed

lemma situacao_cancelada_iff:
  "situacao_cancelada sid \<longleftrightarrow> sid = Some (IdNumero 2) \<or> sid = Some (IdTexto ''2'')"
proof -
  have "numero_String n = ''2'' \<Longrightarrow> n = 2" for n
  proof -
    assume a: "numero_String n = ''2''"
    have pos: "0 \<le> n"
    proof (rule ccontr)
      assume "\<not> 0 \<le> n"
      then show False using a by (simp add: numero_String_def)
    qed
    have "nat n < 10"
    proof (rule ccontr)
      assume "\<not> nat n < 10"
      then have "length (digitos_de (nat n)) \<ge> 2"
        using digitos_de_nao_vazio [of "nat n div 10"]
        by (subst digitos_de.simps) (simp add: Suc_le_eq)
      then show False using a pos by (simp add: numero_String_def)
    qed
    then have "digito (nat n) = CHR ''2''"
      using a pos by (simp add: numero_String_def digitos_de.simps)
    then have "nat n = 2"
      using \<open>nat n < 10\<close> by (intro digito_2)
    then show "n = 2" using pos by simp
  qed
  then show ?thesis
    by (auto simp: situacao_cancelada_def split: option.splits js_id.splits)
qed


lemma criar_Inr:
  assumes "criar a d b = Inr (row, b')"
  shows "linhas b' = linhas b @ [row]" and "pedidoVendaId row = dto_pedidoVendaId d"
    and "dto_pedidoVendaId d \<notin> set (map pedidoVendaId (linhas b))"
    and "status row = dto_status d" and "rps_id row = proximo_id b"
    and "proximo_id b' = Suc (proximo_id b)"
  using assms by (auto simp: criar_def Let_def split: if_splits)

lemma criar_duplicado:
  "k \<in> set (map pedidoVendaId (linhas b)) \<Longrightarrow> dto_pedidoVendaId d = k
     \<Longrightarrow> criar a d b = Inl QueryFailedError"
  by (simp add: criar_def)

lemma criar_unico:
  assumes "unico b" and "criar a d b = Inr (row, b')"
  shows "unico b'"
  using assms(1) criar_Inr(1-3) [OF assms(2)] by (simp add: unico_def)

lemma emitirESalvar_casos:
  assumes "emitirESalvar w i p ct ss b = Inr (r, b')"
  shows "res_status r = ''sucesso'' \<and> (\<exists>a d row. criar a d b = Inr (row, b')
           \<and> dto_pedidoVendaId d = i \<and> dto_status d = Pendente)"
proof -
  obtain pl where pl: "construirPayloadNFSe p ct ss 2222749 (sorteio w i) (hoje w) = Inr pl"
    using assms
    by (cases "construirPayloadNFSe p ct ss 2222749 (sorteio w i) (hoje w)")
       (simp_all add: emitirESalvar_def)
  obtain resp where resp: "nfse_post w pl = Inr (Some resp)"
    using assms pl
    by (cases "nfse_post w pl") (auto simp: emitirESalvar_def split: option.splits)
  obtain c where c: "ct = Some c"
    using assms pl resp by (cases ct) (simp_all add: emitirESalvar_def)
  let ?d = "\<lparr>dto_pedidoVendaId = i, dto_numeroPedido = numero p,
        dto_numeroRPS = Some (ou_texto (criada_numeroRPS resp) (pay_numeroRPS pl)),
        dto_serie = Some (ou_texto (criada_serie resp) (pay_serie pl)),
        dto_nfseId = Some (criada_id resp), dto_status = Pendente,
        dto_valorTotal = somar_valores ss, dto_nomeCliente = cont_nome c,
        dto_dataEmissao = Some (agora w)\<rparr>"
  obtain row b2 where cr: "criar (agora w) ?d b = Inr (row, b2)"
    using assms pl resp c
    by (cases "criar (agora w) ?d b") (auto simp: emitirESalvar_def)
  have "r = \<lparr>res_pedidoId = i, res_numeroPedido = numero p, res_status = ''sucesso'',
              res_mensagem = msg_sucesso, res_numeroRPS = criada_numeroRPS resp,
              res_nfseId = Some (criada_id resp)\<rparr>" and "b2 = b'"
    using assms pl resp c cr by (simp_all add: emitirESalvar_def)
  then have "res_status r = ''sucesso''" and "criar (agora w) ?d b = Inr (row, b')"
    using cr by simp_all
  moreover have "dto_pedidoVendaId ?d = i" "dto_status ?d = Pendente" by simp_all
  ultimately show ?thesis by blast
qed

lemma tentarGerar_casos:
  assumes "tentarGerar w i b = Inr (r, b')"
  shows "(b' = b \<and> res_status r = ''ignorado'')
       \<or> (res_status r = ''sucesso''
           \<and> (\<exists>a d row. criar a d b = Inr (row, b') \<and> dto_pedidoVendaId d = i
                  \<and> dto_status d = Pendente)
           \<and> (\<exists>p. pedidos_vendas w i = Inr (Some p) \<and> \<not> isConsumidorFinal p))"
proof (cases "pedidos_vendas w i")
  case (Inl e)
  then show ?thesis using assms by (simp add: tentarGerar_def)
next
  case (Inr po)
  show ?thesis
  proof (cases po)
    case None
    then show ?thesis using assms Inr by (simp add: tentarGerar_def)
  next
    case (Some p)
    show ?thesis
    proof (cases "isConsumidorFinal p")
      case True
      then show ?thesis
        using assms Inr Some by (auto simp: tentarGerar_def ignorado_def)
    next
      case False
      show ?thesis
      proof (cases "buscarPorPedidoId i b")
        case (Some rps)
        then show ?thesis
          using assms Inr \<open>po = Some p\<close> False by (auto simp: tentarGerar_def ignorado_def)
      next
        case None
        obtain cp where cp: "contato p = Some cp"
          using False by (cases "contato p") (simp_all add: isConsumidorFinal_def)
        obtain ss where ss: "filtrarServicos w (itens_do_pedido p) = Inr ss"
          using assms Inr \<open>po = Some p\<close> False None cp
          by (cases "filtrarServicos w (itens_do_pedido p)") (simp_all add: tentarGerar_def)
        show ?thesis
        proof (cases "length ss = 0")
          case True
          then show ?thesis
            using assms Inr \<open>po = Some p\<close> False None cp ss
            by (auto simp: tentarGerar_def ignorado_def)
        next
          case nv: False
          then have "emitirESalvar w i p (contatos w (cp_id cp)) ss b = Inr (r, b')"
            using assms Inr \<open>po = Some p\<close> False None cp ss
            by (simp add: tentarGerar_def)
          then show ?thesis
            using emitirESalvar_casos Inr \<open>po = Some p\<close> False by blast
        qed
      qed
    qed
  qed
qed

lemma gerarUm_casos:
  "(snd (gerarUm w i b) = b \<and> res_status (fst (gerarUm w i b)) \<noteq> ''sucesso'')
   \<or> (res_status (fst (gerarUm w i b)) = ''sucesso''
       \<and> (\<exists>a d row. criar a d b = Inr (row, snd (gerarUm w i b)) \<and> dto_pedidoVendaId d = i
              \<and> dto_status d = Pendente)
       \<and> (\<exists>p. pedidos_vendas w i = Inr (Some p) \<and> \<not> isConsumidorFinal p))"
proof (cases "tentarGerar w i b")
  case (Inl e)
  then show ?thesis by (simp add: gerarUm_def)
next
  case (Inr rb)
  obtain r b' where rb: "rb = (r, b')" by (cases rb)
  have g: "gerarUm w i b = (r, b')" using Inr rb by (simp add: gerarUm_def)
  show ?thesis
    using tentarGerar_casos [OF Inr [unfolded rb]] unfolding g by auto
qed

lemma gerarUm_unico: "unico b \<Longrightarrow> unico (snd (gerarUm w i b))"
  using gerarUm_casos [of w i b] criar_unico by metis

lemma gerarLoop_unico: "unico b \<Longrightarrow> unico (snd (snd (gerarLoop w ids rs n b)))"
proof (induction ids arbitrary: rs n b)
  case Nil
  then show ?case by simp
next
  case (Cons i ids)
  obtain r b' where g: "gerarUm w i b = (r, b')" by (cases "gerarUm w i b")
  have "unico b'" using gerarUm_unico [OF Cons.prems, of w i] g by simp
  then show ?case using Cons.IH g by simp
qed

lemma gerarRPSParaPedidos_unico: "unico b \<Longrightarrow> unico (snd (gerarRPSParaPedidos w ids b))"
  using gerarLoop_unico [of b w ids "[]" 0]
  by (cases "gerarLoop w ids [] 0 b") (simp add: gerarRPSParaPedidos_def)

lemma gerarUm_repetido:
  assumes "res_status (fst (gerarUm w i b)) = ''sucesso''"
  shows "\<exists>p row. pedidos_vendas w i = Inr (Some p)
           \<and> buscarPorPedidoId i (snd (gerarUm w i b)) = Some row
           \<and> pedidoVendaId row = i
           \<and> gerarUm w i (snd (gerarUm w i b))
               = (ignorado i (numero p) msg_rps_ja_existe (numeroRPS row), snd (gerarUm w i b))"
proof -
  let ?b' = "snd (gerarUm w i b)"
  obtain a d row p where c: "criar a d b = Inr (row, ?b')" "dto_pedidoVendaId d = i"
      and p: "pedidos_vendas w i = Inr (Some p)" "\<not> isConsumidorFinal p"
    using gerarUm_casos [of w i b] assms by auto
  have "row \<in> set (linhas ?b')" "pedidoVendaId row = i"
    using criar_Inr(1,2) [OF c(1)] c(2) by simp_all
  then have "find (\<lambda>r. pedidoVendaId r = i) (linhas ?b') \<noteq> None"
    by (auto simp: find_None_iff)
  then obtain row' where row': "buscarPorPedidoId i ?b' = Some row'"
    by (auto simp: buscarPorPedidoId_def)
  then have k: "pedidoVendaId row' = i"
    by (auto simp: buscarPorPedidoId_def find_Some_iff)
  have "gerarUm w i ?b' = (ignorado i (numero p) msg_rps_ja_existe (numeroRPS row'), ?b')"
    using p row' by (simp add: gerarUm_def tentarGerar_def)
  then show ?thesis using p(1) row' k by blast
qed

lemma gerarUm_ex_bling:
  "gerarUm ex_bling 1234 banco_vazio
     = (\<lparr>res_pedidoId = 1234, res_numeroPedido = 42, res_status = ''sucesso'',
         res_mensagem = msg_sucesso, res_numeroRPS = None, res_nfseId = Some 9\<rparr>,
        \<lparr>linhas = [\<lparr>rps_id = 1, pedidoVendaId = 1234, numeroPedido = 42,
                    numeroRPS = Some (gerarNumeroRPS 42 (\<lambda>k. 10 ^ k div 8)), serie = Some ''1'',
                    nfseId = Some 9, numeroNFSe = None, status = Pendente,
                    mensagemErro = None, valorTotal = 150, nomeCliente = ''Maria'',
                    dataEmissao = Some 1700000000000, createdAt = 1700000000000\<rparr>],
         proximo_id = 2\<rparr>)"
proof -
  have cf: "\<not> isConsumidorFinal ex_pedido"
    by (simp add: isConsumidorFinal_def ex_pedido_def verdadeiro_def so_digitos_def eh_digito_def)
  have fs: "filtrarServicos ex_bling (itens_do_pedido ex_pedido)
              = Inr [\<lparr>serv_descricao = Some ''Aula'', serv_valor = 150\<rparr>]"
    by (simp add: itens_do_pedido_def ex_pedido_def ex_bling_def verdadeiro_def
                  valor_do_item_def numero_verdadeiro_def)
  have pv: "pedidos_vendas ex_bling 1234 = Inr (Some ex_pedido)"
    by (simp add: ex_bling_def)
  have bp: "buscarPorPedidoId 1234 banco_vazio = None"
    by (simp add: buscarPorPedidoId_def banco_vazio_def)
  have ct: "contato ex_pedido = Some \<lparr>cp_id = 77, cp_numeroDocumento = Some ''123.456.789-09''\<rparr>"
    by (simp add: ex_pedido_def)
  have em: "emitirESalvar ex_bling 1234 ex_pedido (Some ex_contato)
              [\<lparr>serv_descricao = Some ''Aula'', serv_valor = 150\<rparr>] banco_vazio
            = Inr (\<lparr>res_pedidoId = 1234, res_numeroPedido = 42, res_status = ''sucesso'',
         res_mensagem = msg_sucesso, res_numeroRPS = None, res_nfseId = Some 9\<rparr>,
        \<lparr>linhas = [\<lparr>rps_id = 1, pedidoVendaId = 1234, numeroPedido = 42,
                    numeroRPS = Some (gerarNumeroRPS 42 (\<lambda>k. 10 ^ k div 8)), serie = Some ''1'',
                    nfseId = Some 9, numeroNFSe = None, status = Pendente,
                    mensagemErro = None, valorTotal = 150, nomeCliente = ''Maria'',
                    dataEmissao = Some 1700000000000, createdAt = 1700000000000\<rparr>],
         proximo_id = 2\<rparr>)"
    by (simp add: emitirESalvar_def construirPayloadNFSe_def Let_def ex_bling_def ex_pedido_def
                  ex_contato_def criar_def banco_vazio_def somar_valores_def ou_texto_def
                  verdadeiro_def)
  have c: "contatos ex_bling 77 = Some ex_contato"
    by (simp add: ex_bling_def)
  show ?thesis
    by (simp add: gerarUm_def tentarGerar_def pv cf bp ct fs em c)
qed


lemma filtrarCancelados_set:
  "set (filtrarCancelados pedidos) = {p \<in> set pedidos. \<not> situacao_cancelada (situacao p)}"
  by (simp add: filtrarCancelados_def)

text \<open>
  C3. The backend generate operation does not read the situation of an order:
  the whole return value and the table after it are the same whatever situation the orders
  carry, so a cancelled order is classified by its contact, its existing row and its items
  like any other. Cancelled orders are removed earlier, by the order list of the frontend:
  its filter keeps exactly the orders whose situation id is neither the number 2 nor the
  string "2".
\<close>

theorem C3_situacao_nao_lida:
  "gerarRPSParaPedidos (com_situacao sit w) ids b = gerarRPSParaPedidos w ids b
   \<and> gerarUm (com_situacao sit w) i b = gerarUm w i b
   \<and> (\<forall>p \<in> set pedidos. p \<in> set (filtrarCancelados pedidos)
          \<longleftrightarrow> situacao p \<noteq> Some (IdNumero 2) \<and> situacao p \<noteq> Some (IdTexto ''2''))
   \<and> set (filtrarCancelados pedidos) \<subseteq> set pedidos"
proof -
  have "gerarRPSParaPedidos (com_situacao sit w) ids b = gerarRPSParaPedidos w ids b"
    by (simp add: gerarRPSParaPedidos_def gerarLoop_com_situacao)
  moreover have "\<forall>p \<in> set pedidos. p \<in> set (filtrarCancelados pedidos)
          \<longleftrightarrow> situacao p \<noteq> Some (IdNumero 2) \<and> situacao p \<noteq> Some (IdTexto ''2'')"
    by (simp add: filtrarCancelados_set situacao_cancelada_iff)
  moreover have "set (filtrarCancelados pedidos) \<subseteq> set pedidos"
    by (auto simp: filtrarCancelados_set)
  ultimately show ?thesis
    using gerarUm_com_situacao by blast
qed

theorem C3_cancelado_counterexample:
  "pedidos_vendas ex_bling 1234 = Inr (Some ex_pedido)
   \<and> situacao ex_pedido = Some (IdNumero 2)
   \<and> situacao_cancelada (situacao ex_pedido)
   \<and> res_status (fst (gerarUm ex_bling 1234 banco_vazio)) = ''sucesso''
   \<and> map res_status (ger_resultados (fst (gerarRPSParaPedidos ex_bling [1234] banco_vazio)))
         = [''sucesso'']
   \<and> map pedidoVendaId (linhas (snd (gerarRPSParaPedidos ex_bling [1234] banco_vazio))) = [1234]"
proof -
  have a: "pedidos_vendas ex_bling 1234 = Inr (Some ex_pedido)"
    by (simp add: ex_bling_def)
  have b: "situacao ex_pedido = Some (IdNumero 2)"
    by (simp add: ex_pedido_def)
  have c: "situacao_cancelada (situacao ex_pedido)"
    by (simp add: b situacao_cancelada_def)
  have d: "res_status (fst (gerarUm ex_bling 1234 banco_vazio)) = ''sucesso''"
    by (simp add: gerarUm_ex_bling)
  have e: "map res_status (ger_resultados (fst (gerarRPSParaPedidos ex_bling [1234] banco_vazio)))
         = [''sucesso'']"
    by (simp add: gerarRPSParaPedidos_um gerarUm_ex_bling)
  have f: "map pedidoVendaId (linhas (snd (gerarRPSParaPedidos ex_bling [1234] banco_vazio))) = [1234]"
    by (simp add: gerarRPSParaPedidos_um gerarUm_ex_bling)
  show ?thesis using a b c d e f by blast
qed

theorem C3_situacao_nao_lida_witness:
  "ex_pedido\<lparr>situacao := Some (IdNumero 9)\<rparr> \<in> set [ex_pedido, ex_pedido\<lparr>situacao := Some (IdNumero 9)\<rparr>]
   \<and> ex_pedido\<lparr>situacao := Some (IdNumero 9)\<rparr>
        \<in> set (filtrarCancelados [ex_pedido, ex_pedido\<lparr>situacao := Some (IdNumero 9)\<rparr>])
   \<and> ex_pedido \<notin> set (filtrarCancelados [ex_pedido, ex_pedido\<lparr>situacao := Some (IdNumero 9)\<rparr>])
   \<and> res_status (fst (gerarUm (com_situacao (Some (IdNumero 9)) ex_bling) 1234 banco_vazio))
         = ''sucesso''"
proof -
  let ?q = "ex_pedido\<lparr>situacao := Some (IdNumero 9)\<rparr>"
  note t = C3_situacao_nao_lida [where sit = "Some (IdNumero 9)" and w = ex_bling and i = 1234
             and b = banco_vazio and pedidos = "[ex_pedido, ?q]"]
  have m: "?q \<in> set [ex_pedido, ?q]" "ex_pedido \<in> set [ex_pedido, ?q]" by simp_all
  have s: "situacao ?q \<noteq> Some (IdNumero 2) \<and> situacao ?q \<noteq> Some (IdTexto ''2'')"
          "situacao ex_pedido = Some (IdNumero 2)"
    by (simp_all add: ex_pedido_def)
  have a: "?q \<in> set (filtrarCancelados [ex_pedido, ?q])"
    using t m(1) s(1) by blast
  have b: "ex_pedido \<notin> set (filtrarCancelados [ex_pedido, ?q])"
    using t m(2) s(2) by blast
  have c: "res_status (fst (gerarUm (com_situacao (Some (IdNumero 9)) ex_bling) 1234 banco_vazio))
         = ''sucesso''"
    using t by (simp add: gerarUm_ex_bling)
  show ?thesis using m(1) a b c by blast
qed


section \<open>Submitting to the municipality: properties\<close>


lemma atualizar_chaves:
  "(\<And>r. pedidoVendaId (f r) = pedidoVendaId r)
     \<Longrightarrow> map pedidoVendaId (linhas (atualizar i f b)) = map pedidoVendaId (linhas b)"
  by (simp add: atualizar_def comp_def cong: map_cong)

lemma atualizar_ids:
  "(\<And>r. rps_id (f r) = rps_id r)
     \<Longrightarrow> map rps_id (linhas (atualizar i f b)) = map rps_id (linhas b)"
  by (simp add: atualizar_def comp_def cong: map_cong)

lemma find_map_atualizado:
  assumes "\<And>r. rps_id (f r) = rps_id r"
  shows "find (\<lambda>r. rps_id r = i) (map (\<lambda>r. if rps_id r = i then f r else r) xs)
           = map_option f (find (\<lambda>r. rps_id r = i) xs)"
  by (induction xs) (simp_all add: assms)

lemma buscarPorId_atualizar:
  "(\<And>r. rps_id (f r) = rps_id r)
     \<Longrightarrow> buscarPorId i (atualizar i f b) = map_option f (buscarPorId i b)"
  by (simp add: buscarPorId_def atualizar_def find_map_atualizado)

lemma recuperarEnvio_chaves:
  "map pedidoVendaId (linhas (snd (snd (recuperarEnvio w i nid e b)))) = map pedidoVendaId (linhas b)"
  by (simp add: recuperarEnvio_def Let_def atualizar_chaves split: sum.splits)

lemma enviarUm_chaves:
  "map pedidoVendaId (linhas (snd (snd (enviarUm w i b)))) = map pedidoVendaId (linhas b)"
  by (simp add: enviarUm_def Let_def atualizar_chaves recuperarEnvio_chaves
           split: option.splits sum.splits)

lemma enviarLoop_chaves:
  "map pedidoVendaId (linhas (snd (snd (enviarLoop w ids rs n b)))) = map pedidoVendaId (linhas b)"
proof (induction ids arbitrary: rs n b)
  case Nil
  show ?case by simp
next
  case (Cons i ids)
  obtain r inc b' where e: "enviarUm w i b = (r, inc, b')" by (cases "enviarUm w i b")
  have "map pedidoVendaId (linhas b') = map pedidoVendaId (linhas b)"
    using enviarUm_chaves [of w i b] e by simp
  then show ?case using Cons.IH e by simp
qed

lemma enviarNFSeParaPrefeitura_chaves:
  "map pedidoVendaId (linhas (snd (enviarNFSeParaPrefeitura w ids b))) = map pedidoVendaId (linhas b)"
  using enviarLoop_chaves [of w ids "[]" 0 b]
  by (cases "enviarLoop w ids [] 0 b") (simp add: enviarNFSeParaPrefeitura_def)

lemma enviarNFSeParaPrefeitura_um:
  "ret_resultados (fst (enviarNFSeParaPrefeitura w [i] b)) = [fst (enviarUm w i b)]
   \<and> snd (enviarNFSeParaPrefeitura w [i] b) = snd (snd (enviarUm w i b))"
  by (cases "enviarUm w i b") (simp add: enviarNFSeParaPrefeitura_def)

lemma enviarUm_excecao:
  assumes "buscarPorId rpsId b = Some rps" and "nfseId rps = Some nid"
    and "nfse_enviar w nid = Inl error"
  shows "enviarUm w rpsId b
           = recuperarEnvio w rpsId nid error (atualizar rpsId (\<lambda>r. r\<lparr>status := Processando\<rparr>) b)"
  using assms by (simp add: enviarUm_def)

lemma recuperarEnvio_emitida:
  assumes "nfse_get w nid = Inr d" and "situacao_de d = Some 2 \<or> verdadeiro (numero_de d)"
  shows "recuperarEnvio w rpsId nid error b
           = (\<lparr>env_rpsId = rpsId, env_status = ''sucesso'', env_numeroNFSe = numero_de d,
               env_mensagem = msg_ja_emitida\<rparr>, True,
              atualizar rpsId (\<lambda>r. r\<lparr>status := Emitido, numeroNFSe := ou_null (numero_de d)\<rparr>) b)"
  using assms by (simp add: recuperarEnvio_def)

lemma recuperarEnvio_erro:
  assumes "(\<exists>e. nfse_get w nid = Inl e)
         \<or> (\<exists>d. nfse_get w nid = Inr d \<and> situacao_de d \<noteq> Some 2 \<and> \<not> verdadeiro (numero_de d))"
  shows "recuperarEnvio w rpsId nid error b
           = (\<lparr>env_rpsId = rpsId, env_status = ''erro'', env_numeroNFSe = None,
               env_mensagem = exc_message error\<rparr>, False,
              atualizar rpsId (\<lambda>r. r\<lparr>status := Erro, mensagemErro := Some (exc_message error)\<rparr>) b)"
  using assms by (auto simp: recuperarEnvio_def)

text \<open>
  C4. For a row that is found and has an NFSe id, when the submit call throws: the
  invoice is read back before anything is recorded as an error. If the read delivers
  situation 2 or a non-empty number, the row ends as \<^verbatim>\<open>emitido\<close> with that number
  (null when the read carries none) and the result is \<^verbatim>\<open>sucesso\<close>. If the read
  throws, or delivers neither, the row ends as \<^verbatim>\<open>erro\<close> with the message of the
  submit exception, which is also the message of the \<^verbatim>\<open>erro\<close> result.
\<close>

theorem C4_envio_compensado:
  assumes "buscarPorId rpsId b = Some rps" and "nfseId rps = Some nid"
    and "nfse_enviar w nid = Inl error"
  shows "(\<forall>d. nfse_get w nid = Inr d \<and> (situacao_de d = Some 2 \<or> verdadeiro (numero_de d)) \<longrightarrow>
            fst (enviarUm w rpsId b)
              = \<lparr>env_rpsId = rpsId, env_status = ''sucesso'', env_numeroNFSe = numero_de d,
                 env_mensagem = msg_ja_emitida\<rparr>
          \<and> buscarPorId rpsId (snd (snd (enviarUm w rpsId b)))
              = Some (rps\<lparr>status := Emitido, numeroNFSe := ou_null (numero_de d)\<rparr>))
       \<and> ((\<exists>e. nfse_get w nid = Inl e)
           \<or> (\<exists>d. nfse_get w nid = Inr d \<and> situacao_de d \<noteq> Some 2 \<and> \<not> verdadeiro (numero_de d)) \<longrightarrow>
            fst (enviarUm w rpsId b)
              = \<lparr>env_rpsId = rpsId, env_status = ''erro'', env_numeroNFSe = None,
                 env_mensagem = exc_message error\<rparr>
          \<and> buscarPorId rpsId (snd (snd (enviarUm w rpsId b)))
              = Some (rps\<lparr>status := Erro, mensagemErro := Some (exc_message error)\<rparr>))
       \<and> ret_resultados (fst (enviarNFSeParaPrefeitura w [rpsId] b)) = [fst (enviarUm w rpsId b)]
       \<and> snd (enviarNFSeParaPrefeitura w [rpsId] b) = snd (snd (enviarUm w rpsId b))"
proof -
  let ?b1 = "atualizar rpsId (\<lambda>r. r\<lparr>status := Processando\<rparr>) b"
  have e: "enviarUm w rpsId b = recuperarEnvio w rpsId nid error ?b1"
    by (rule enviarUm_excecao [OF assms])
  have b1: "buscarPorId rpsId ?b1 = Some (rps\<lparr>status := Processando\<rparr>)"
    using assms(1) by (simp add: buscarPorId_atualizar)
  have a: "fst (enviarUm w rpsId b)
              = \<lparr>env_rpsId = rpsId, env_status = ''sucesso'', env_numeroNFSe = numero_de d,
                 env_mensagem = msg_ja_emitida\<rparr>
          \<and> buscarPorId rpsId (snd (snd (enviarUm w rpsId b)))
              = Some (rps\<lparr>status := Emitido, numeroNFSe := ou_null (numero_de d)\<rparr>)"
    if "nfse_get w nid = Inr d" "situacao_de d = Some 2 \<or> verdadeiro (numero_de d)" for d
    unfolding e recuperarEnvio_emitida [OF that]
    by (simp add: buscarPorId_atualizar b1)
  have c: "fst (enviarUm w rpsId b)
              = \<lparr>env_rpsId = rpsId, env_status = ''erro'', env_numeroNFSe = None,
                 env_mensagem = exc_message error\<rparr>
          \<and> buscarPorId rpsId (snd (snd (enviarUm w rpsId b)))
              = Some (rps\<lparr>status := Erro, mensagemErro := Some (exc_message error)\<rparr>)"
    if "(\<exists>e. nfse_get w nid = Inl e)
         \<or> (\<exists>d. nfse_get w nid = Inr d \<and> situacao_de d \<noteq> Some 2 \<and> \<not> verdadeiro (numero_de d))"
    unfolding e recuperarEnvio_erro [OF that]
    by (simp add: buscarPorId_atualizar b1)
  show ?thesis
    using a c enviarNFSeParaPrefeitura_um [of w rpsId b] by blast
qed



theorem C4_envio_compensado_witness:
  "buscarPorId 1 (ex_banco Pendente) = Some (ex_linha\<lparr>status := Pendente\<rparr>)
   \<and> nfseId (ex_linha\<lparr>status := Pendente\<rparr>) = Some 9
   \<and> nfse_enviar ex_bling_emitida 9 = Inl (BadRequestException ''Timeout'')
   \<and> env_status (fst (enviarUm ex_bling_emitida 1 (ex_banco Pendente))) = ''sucesso''
   \<and> buscarPorId 1 (snd (snd (enviarUm ex_bling_emitida 1 (ex_banco Pendente))))
         = Some (ex_linha\<lparr>status := Emitido, numeroNFSe := Some ''000123''\<rparr>)
   \<and> env_status (fst (enviarUm ex_bling 1 (ex_banco Pendente))) = ''erro''
   \<and> buscarPorId 1 (snd (snd (enviarUm ex_bling 1 (ex_banco Pendente))))
         = Some (ex_linha\<lparr>status := Erro, mensagemErro := Some ''Timeout''\<rparr>)"
proof -
  let ?r = "ex_linha\<lparr>status := Pendente\<rparr>"
  let ?d = "Some \<lparr>nfse_situacao = Some 2, nfse_numero = Some ''000123''\<rparr>"
  let ?pend = "Some \<lparr>nfse_situacao = Some 0, nfse_numero = None\<rparr>"
  have h1: "buscarPorId 1 (ex_banco Pendente) = Some ?r"
    by (simp add: buscarPorId_def ex_banco_def ex_linha_def)
  have h2: "nfseId ?r = Some 9"
    by (simp add: ex_linha_def)
  have h3: "nfse_enviar ex_bling_emitida 9 = Inl (BadRequestException ''Timeout'')"
           "nfse_enviar ex_bling 9 = Inl (BadRequestException ''Timeout'')"
    by (simp_all add: ex_bling_emitida_def ex_bling_def)
  have g: "nfse_get ex_bling_emitida 9 = Inr ?d" "nfse_get ex_bling 9 = Inr ?pend"
    by (simp_all add: ex_bling_emitida_def ex_bling_def)
  have v: "situacao_de ?d = Some 2 \<or> verdadeiro (numero_de ?d)"
          "situacao_de ?pend \<noteq> Some 2 \<and> \<not> verdadeiro (numero_de ?pend)"
    by (simp_all add: situacao_de_def numero_de_def verdadeiro_def)
  have n: "ou_null (numero_de ?d) = Some ''000123''" "numero_de ?d = Some ''000123''"
    by (simp_all add: ou_null_def numero_de_def verdadeiro_def)
  have m: "exc_message (BadRequestException ''Timeout'') = ''Timeout''"
    by (simp add: BadRequestException_def)
  note t1 = C4_envio_compensado [OF h1 h2 h3(1)]
  note t2 = C4_envio_compensado [OF h1 h2 h3(2)]
  have a: "fst (enviarUm ex_bling_emitida 1 (ex_banco Pendente))
              = \<lparr>env_rpsId = 1, env_status = ''sucesso'', env_numeroNFSe = numero_de ?d,
                 env_mensagem = msg_ja_emitida\<rparr>
          \<and> buscarPorId 1 (snd (snd (enviarUm ex_bling_emitida 1 (ex_banco Pendente))))
              = Some (?r\<lparr>status := Emitido, numeroNFSe := ou_null (numero_de ?d)\<rparr>)"
    using t1 g(1) v(1) by blast
  have b: "fst (enviarUm ex_bling 1 (ex_banco Pendente))
              = \<lparr>env_rpsId = 1, env_status = ''erro'', env_numeroNFSe = None,
                 env_mensagem = exc_message (BadRequestException ''Timeout'')\<rparr>
          \<and> buscarPorId 1 (snd (snd (enviarUm ex_bling 1 (ex_banco Pendente))))
              = Some (?r\<lparr>status := Erro,
                        mensagemErro := Some (exc_message (BadRequestException ''Timeout''))\<rparr>)"
    using t2 g(2) v(2) by blast
  show ?thesis
    using h1 h2 h3(1) a b by (simp add: n m ou_null_def verdadeiro_def)
qed

section \<open>Synchronising the status: properties\<close>


lemma atualizar_ident: "atualizar i (\<lambda>r. r) b = b"
  by (simp add: atualizar_def)

lemma sincronizarUm_linhas:
  "fst (sincronizarUm w rps (b, a, c)) = atualizar (rps_id rps) (escrita_sync w rps) b"
  by (simp add: sincronizarUm_def escrita_sync_def Let_def atualizar_ident
           split: option.splits sum.splits)

lemma escrita_sync_id: "rps_id (escrita_sync w rps r) = rps_id r"
  by (simp add: escrita_sync_def split: option.splits sum.splits)

lemma escrita_sync_chave: "pedidoVendaId (escrita_sync w rps r) = pedidoVendaId r"
  by (simp add: escrita_sync_def split: option.splits sum.splits)

lemma foldl_sync_linhas:
  assumes "distinct (map rps_id L)"
  shows "linhas (fst (foldl (\<lambda>acc rps. sincronizarUm w rps acc) (b, a, c) L))
           = map (\<lambda>r. case find (\<lambda>s. rps_id s = rps_id r) L of
                         None \<Rightarrow> r
                       | Some s \<Rightarrow> escrita_sync w s r) (linhas b)"
  using assms
proof (induction L arbitrary: b a c)
  case Nil
  show ?case by simp
next
  case (Cons s L)
  obtain b1 a1 c1 where st: "sincronizarUm w s (b, a, c) = (b1, a1, c1)"
    by (cases "sincronizarUm w s (b, a, c)")
  have b1: "b1 = atualizar (rps_id s) (escrita_sync w s) b"
    using sincronizarUm_linhas [of w s b a c] st by simp
  have d: "distinct (map rps_id L)" and n: "rps_id s \<notin> rps_id ` set L"
    using Cons.prems by simp_all
  have nf: "find (\<lambda>t. rps_id t = rps_id s) L = None"
    using n by (force simp: find_None_iff image_iff)
  have "linhas (fst (foldl (\<lambda>acc rps. sincronizarUm w rps acc) (b, a, c) (s # L)))
          = linhas (fst (foldl (\<lambda>acc rps. sincronizarUm w rps acc) (b1, a1, c1) L))"
    using st by simp
  also have "\<dots> = map (\<lambda>r. case find (\<lambda>t. rps_id t = rps_id r) L of
                         None \<Rightarrow> r
                       | Some t \<Rightarrow> escrita_sync w t r) (linhas b1)"
    by (rule Cons.IH [OF d])
  also have "\<dots> = map (\<lambda>r. case find (\<lambda>t. rps_id t = rps_id r) (s # L) of
                         None \<Rightarrow> r
                       | Some t \<Rightarrow> escrita_sync w t r) (linhas b)"
    unfolding b1 atualizar_def
    by (auto simp: escrita_sync_id nf)
  finally show ?case .
qed

lemma listarFila_subset: "set (listarFila pg lm st b) \<subseteq> set (linhas b)"
proof -
  have "set (listarFila pg lm st b)
          \<subseteq> set (rev (sort_key createdAt
                 (case st of None \<Rightarrow> linhas b | Some s \<Rightarrow> filter (\<lambda>r. status r = s) (linhas b))))"
    unfolding listarFila_def
    by (meson set_take_subset set_drop_subset subset_trans)
  then show ?thesis by (auto split: option.splits)
qed

lemma listarFila_status: "r \<in> set (listarFila pg lm (Some s) b) \<Longrightarrow> status r = s"
proof -
  assume "r \<in> set (listarFila pg lm (Some s) b)"
  then have "r \<in> set (rev (sort_key createdAt (filter (\<lambda>r. status r = s) (linhas b))))"
    unfolding listarFila_def
    by (auto dest!: in_set_takeD in_set_dropD)
  then show ?thesis by simp
qed

lemma listarFila_distinct: "distinct (linhas b) \<Longrightarrow> distinct (listarFila pg lm st b)"
  by (simp add: listarFila_def distinct_sort split: option.splits)

lemma rpsParaVerificar_props:
  assumes "distinct (map rps_id (linhas b))"
  shows "set (rpsParaVerificar b) \<subseteq> set (linhas b)"
    and "distinct (map rps_id (rpsParaVerificar b))"
    and "\<And>r. r \<in> set (rpsParaVerificar b) \<Longrightarrow>
            status r = Pendente \<or> status r = Processando
            \<or> (status r = Emitido \<and> \<not> verdadeiro (numeroNFSe r))"
proof -
  let ?P = "listarFila 1 1000 (Some Pendente) b"
  let ?Q = "listarFila 1 1000 (Some Processando) b"
  let ?E = "filter (\<lambda>rps. \<not> verdadeiro (numeroNFSe rps)) (listarFila 1 1000 (Some Emitido) b)"
  have eq: "rpsParaVerificar b = ?P @ ?Q @ ?E"
    by (simp add: rpsParaVerificar_def Let_def)
  have inj: "inj_on rps_id (set (linhas b))" and dl: "distinct (linhas b)"
    using assms by (simp_all add: distinct_map)
  show sub: "set (rpsParaVerificar b) \<subseteq> set (linhas b)"
    unfolding eq using listarFila_subset [of 1 1000 _ b] by auto
  have dP: "distinct ?P" "distinct ?Q" "distinct ?E"
    using listarFila_distinct [OF dl] by simp_all
  have sP: "status x = Pendente" if "x \<in> set ?P" for x
    using that by (rule listarFila_status)
  have sQ: "status x = Processando" if "x \<in> set ?Q" for x
    using that by (rule listarFila_status)
  have sE: "status x = Emitido" if "x \<in> set ?E" for x
    using that listarFila_status [of x 1 1000 Emitido b] by simp
  have disj: "set ?P \<inter> set ?Q = {}" "set ?P \<inter> set ?E = {}" "set ?Q \<inter> set ?E = {}"
  proof -
    show "set ?P \<inter> set ?Q = {}"
    proof (rule ccontr)
      assume "set ?P \<inter> set ?Q \<noteq> {}"
      then obtain x where "x \<in> set ?P" "x \<in> set ?Q" by blast
      then show False using sP sQ by fastforce
    qed
    show "set ?P \<inter> set ?E = {}"
    proof (rule ccontr)
      assume "set ?P \<inter> set ?E \<noteq> {}"
      then obtain x where "x \<in> set ?P" "x \<in> set ?E" by blast
      then show False using sP sE by fastforce
    qed
    show "set ?Q \<inter> set ?E = {}"
    proof (rule ccontr)
      assume "set ?Q \<inter> set ?E \<noteq> {}"
      then obtain x where "x \<in> set ?Q" "x \<in> set ?E" by blast
      then show False using sQ sE by fastforce
    qed
  qed
  have "distinct (rpsParaVerificar b)"
    unfolding eq using dP disj by auto
  then show "distinct (map rps_id (rpsParaVerificar b))"
    using inj sub by (simp add: distinct_map inj_on_subset)
  show "\<And>r. r \<in> set (rpsParaVerificar b) \<Longrightarrow>
            status r = Pendente \<or> status r = Processando
            \<or> (status r = Emitido \<and> \<not> verdadeiro (numeroNFSe r))"
  proof -
    fix r assume "r \<in> set (rpsParaVerificar b)"
    then consider "r \<in> set ?P" | "r \<in> set ?Q" | "r \<in> set ?E"
      unfolding eq by auto
    then show "status r = Pendente \<or> status r = Processando
            \<or> (status r = Emitido \<and> \<not> verdadeiro (numeroNFSe r))"
    proof cases
      case 1
      then show ?thesis using sP by simp
    next
      case 2
      then show ?thesis using sQ by simp
    next
      case 3
      then show ?thesis using sE [OF 3] by simp
    qed
  qed
qed

lemma sincronizar_linha:
  assumes d: "distinct (map rps_id (linhas b))" and r: "r \<in> set (linhas b)"
  shows "buscarPorId (rps_id r) (snd (sincronizarStatusNFSe w b))
           = Some (if r \<in> set (rpsParaVerificar b) then escrita_sync w r r else r)"
proof -
  let ?L = "rpsParaVerificar b"
  let ?g = "\<lambda>r. case find (\<lambda>s. rps_id s = rps_id r) ?L of
                         None \<Rightarrow> r
                       | Some s \<Rightarrow> escrita_sync w s r"
  note props = rpsParaVerificar_props [OF d]
  have inj: "inj_on rps_id (set (linhas b))"
    using d by (simp add: distinct_map)
  have l: "linhas (snd (sincronizarStatusNFSe w b)) = map ?g (linhas b)"
    using foldl_sync_linhas [OF props(2), of w b 0 0]
    by (cases "foldl (\<lambda>acc rps. sincronizarUm w rps acc) (b, 0, 0) ?L")
       (simp add: sincronizarStatusNFSe_def)
  have gid: "rps_id (?g x) = rps_id x" for x
    by (simp add: escrita_sync_id split: option.splits)
  have fnd: "find (\<lambda>x. rps_id x = rps_id r) (map ?g xs) = Some (?g r)"
    if "r \<in> set xs" "set xs \<subseteq> set (linhas b)" for xs
    using that
  proof (induction xs)
    case Nil
    then show ?case by simp
  next
    case (Cons x xs)
    show ?case
    proof (cases "rps_id x = rps_id r")
      case True
      then have "x = r"
        using inj Cons.prems(2) r by (auto dest: inj_onD)
      then show ?thesis by (simp add: gid)
    next
      case False
      then have "r \<in> set xs" using Cons.prems(1) by auto
      then show ?thesis using Cons False by (simp add: gid)
    qed
  qed
  have g: "?g r = (if r \<in> set ?L then escrita_sync w r r else r)"
  proof (cases "r \<in> set ?L")
    case True
    then obtain s where s: "find (\<lambda>s. rps_id s = rps_id r) ?L = Some s"
      by (cases "find (\<lambda>s. rps_id s = rps_id r) ?L") (auto simp: find_None_iff)
    then have "s \<in> set ?L" "rps_id s = rps_id r"
      by (auto simp: find_Some_iff in_set_conv_nth)
    then have "s = r"
      using inj props(1) r by (auto dest: inj_onD)
    then show ?thesis using s True by simp
  next
    case False
    have "find (\<lambda>s. rps_id s = rps_id r) ?L = None"
    proof (rule ccontr)
      assume "find (\<lambda>s. rps_id s = rps_id r) ?L \<noteq> None"
      then obtain s where "find (\<lambda>s. rps_id s = rps_id r) ?L = Some s" by auto
      then have "s \<in> set ?L" "rps_id s = rps_id r"
        by (auto simp: find_Some_iff in_set_conv_nth)
      then have "s = r" using inj props(1) r by (auto dest: inj_onD)
      then show False using False \<open>s \<in> set ?L\<close> by simp
    qed
    then show ?thesis using False by simp
  qed
  show ?thesis
    unfolding buscarPorId_def l using fnd [OF r subset_refl] g by simp
qed

lemma sincronizar_chaves:
  assumes "distinct (map rps_id (linhas b))"
  shows "map pedidoVendaId (linhas (snd (sincronizarStatusNFSe w b))) = map pedidoVendaId (linhas b)"
proof -
  note props = rpsParaVerificar_props [OF assms]
  have l: "linhas (snd (sincronizarStatusNFSe w b))
       = map (\<lambda>r. case find (\<lambda>s. rps_id s = rps_id r) (rpsParaVerificar b) of
                         None \<Rightarrow> r
                       | Some s \<Rightarrow> escrita_sync w s r) (linhas b)"
    using foldl_sync_linhas [OF props(2), of w b 0 0]
    by (cases "foldl (\<lambda>acc rps. sincronizarUm w rps acc) (b, 0, 0) (rpsParaVerificar b)")
       (simp add: sincronizarStatusNFSe_def)
  show ?thesis
    unfolding l by (simp add: comp_def escrita_sync_chave split: option.splits cong: map_cong)
qed


lemma foldl_sync_chaves:
  "map pedidoVendaId (linhas (fst (foldl (\<lambda>acc rps. sincronizarUm w rps acc) (b, a, c) L)))
     = map pedidoVendaId (linhas b)"
proof (induction L arbitrary: b a c)
  case Nil
  show ?case by simp
next
  case (Cons s L)
  obtain b1 a1 c1 where st: "sincronizarUm w s (b, a, c) = (b1, a1, c1)"
    by (cases "sincronizarUm w s (b, a, c)")
  have "b1 = atualizar (rps_id s) (escrita_sync w s) b"
    using sincronizarUm_linhas [of w s b a c] st by simp
  then have "map pedidoVendaId (linhas b1) = map pedidoVendaId (linhas b)"
    by (simp add: atualizar_def comp_def escrita_sync_chave cong: map_cong)
  then show ?case using Cons.IH [of b1 a1 c1] st by simp
qed

lemma sincronizar_unico: "unico b \<Longrightarrow> unico (snd (sincronizarStatusNFSe w b))"
  using foldl_sync_chaves [of w b 0 0 "rpsParaVerificar b"]
  by (cases "foldl (\<lambda>acc rps. sincronizarUm w rps acc) (b, 0, 0) (rpsParaVerificar b)")
     (simp add: sincronizarStatusNFSe_def unico_def)

lemma escrita_sync_anterior:
  assumes "anterior (status (escrita_sync w r r)) (status r)"
  shows "status (escrita_sync w r r) = Pendente
       \<and> (\<exists>nid. nfseId r = Some nid
            \<and> (((\<exists>e. nfse_get w nid = Inl e) \<and> status r = Emitido \<and> \<not> verdadeiro (numeroNFSe r))
               \<or> (\<exists>nfse. nfse_get w nid = Inr (Some nfse) \<and> nfse_situacao nfse = Some 0)))"
proof (cases "nfseId r")
  case None
  then show ?thesis using assms by (simp add: escrita_sync_def anterior_def split: option.splits)
next
  case (Some nid)
  show ?thesis
  proof (cases "nfse_get w nid")
    case (Inl e)
    then show ?thesis
      using assms Some
      by (cases "status r") (auto simp: escrita_sync_def anterior_def split: if_splits)
  next
    case (Inr d)
    show ?thesis
    proof (cases d)
      case None
      then show ?thesis
        using assms Some Inr by (cases "status r") (simp_all add: escrita_sync_def anterior_def)
    next
      case (Some nfse)
      then show ?thesis
        using assms \<open>nfseId r = Some nid\<close> Inr
        by (cases "status r")
           (auto simp: escrita_sync_def anterior_def novoStatus_def split: if_splits)
    qed
  qed
qed

lemma escrita_sync_falha:
  "nfseId r = Some nid \<Longrightarrow> nfse_get w nid = Inl e \<Longrightarrow> status r \<noteq> Emitido
     \<Longrightarrow> escrita_sync w r r = r"
  by (simp add: escrita_sync_def)

lemma escrita_sync_pendente_remoto:
  "nfseId r = Some nid \<Longrightarrow> nfse_get w nid = Inr (Some nfse) \<Longrightarrow> nfse_situacao nfse = Some 0
     \<Longrightarrow> status (escrita_sync w r r) = Pendente"
  by (cases "status r") (simp_all add: escrita_sync_def novoStatus_def)

lemma listarFila_todos:
  assumes "length (linhas b) \<le> 1000"
  shows "set (listarFila 1 1000 (Some s) b) = {r \<in> set (linhas b). status r = s}"
proof -
  have "length (filter (\<lambda>r. status r = s) (linhas b)) \<le> 1000"
    by (rule le_trans [OF length_filter_le assms])
  then have "listarFila 1 1000 (Some s) b
               = rev (sort_key createdAt (filter (\<lambda>r. status r = s) (linhas b)))"
    by (simp add: listarFila_def)
  then show ?thesis by auto
qed

lemma rpsParaVerificar_todos:
  assumes "length (linhas b) \<le> 1000" and "r \<in> set (linhas b)"
  shows "r \<in> set (rpsParaVerificar b)
           \<longleftrightarrow> status r = Pendente \<or> status r = Processando
               \<or> (status r = Emitido \<and> \<not> verdadeiro (numeroNFSe r))"
proof -
  note t = listarFila_todos [OF assms(1)]
  have "set (rpsParaVerificar b)
          = {r \<in> set (linhas b). status r = Pendente}
            \<union> {r \<in> set (linhas b). status r = Processando}
            \<union> {r \<in> set (linhas b). status r = Emitido \<and> \<not> verdadeiro (numeroNFSe r)}"
    unfolding rpsParaVerificar_def Let_def set_append set_filter t by blast
  then show ?thesis using assms(2) by blast
qed

lemma escrita_sync_reverte:
  "nfseId r = Some nid \<Longrightarrow> nfse_get w nid = Inl e \<Longrightarrow> status r = Emitido
     \<Longrightarrow> \<not> verdadeiro (numeroNFSe r)
     \<Longrightarrow> escrita_sync w r r = r\<lparr>status := Pendente, mensagemErro := Some msg_nao_encontrada\<rparr>"
  by (simp add: escrita_sync_def)

lemma escrita_sync_remoto:
  assumes "nfseId r = Some nid" and "nfse_get w nid = Inr (Some nfse)"
  shows "status (escrita_sync w r r) = novoStatus (status r) (nfse_situacao nfse)"
    and "numeroNFSe (escrita_sync w r r)
           = (if verdadeiro (nfse_numero nfse) then nfse_numero nfse else numeroNFSe r)"
    and "mensagemErro (escrita_sync w r r) = mensagemErro r"
  using assms by (auto simp: escrita_sync_def)

lemma escrita_sync_sem_nfse:
  "nfseId r = None \<or> (\<exists>nid. nfseId r = Some nid \<and> nfse_get w nid = Inr None)
     \<Longrightarrow> escrita_sync w r r = r"
  by (auto simp: escrita_sync_def)

text \<open>
  C2. In a table whose ids are distinct, take any row and the row with the
  same id after \<open>sincronizarStatusNFSe\<close>. A row that is \<^verbatim>\<open>emitido\<close> with a
  non-empty invoice number is left exactly as it was. If the status after is earlier than
  the status before, then the status after is \<^verbatim>\<open>pendente\<close>, the row was
  \<^verbatim>\<open>processando\<close> or \<^verbatim>\<open>emitido\<close> without number, it has an NFSe id,
  and either the lookup failed and the row was \<^verbatim>\<open>emitido\<close> without number, or
  the lookup succeeded and reported situation 0. A failed lookup leaves a row that is not
  \<^verbatim>\<open>emitido\<close> as it was. A selected row whose lookup reports situation 0 ends as
  \<^verbatim>\<open>pendente\<close>, so a \<^verbatim>\<open>processando\<close> row does move back in that case.

  What the reconciler writes: a selected row that is \<^verbatim>\<open>emitido\<close> without number and
  whose lookup fails is written back to \<^verbatim>\<open>pendente\<close> with the message that the NFSe
  was not found, and nothing else of it changes. A selected row whose lookup succeeds gets
  the status of the situation table (1 and 2 \<^verbatim>\<open>emitido\<close>, 3 \<^verbatim>\<open>erro\<close>,
  0 \<^verbatim>\<open>pendente\<close>, anything else the status it had) and the invoice number Bling
  reports when that is not empty. A row that is not selected, has no NFSe id, or whose
  lookup answers without \<^verbatim>\<open>data\<close> stays as it was. In a table of at most 1000 rows
  the selected rows are exactly those that are \<^verbatim>\<open>pendente\<close>,
  \<^verbatim>\<open>processando\<close>, or \<^verbatim>\<open>emitido\<close> without number.
\<close>

theorem C2_sync_transicoes:
  assumes "distinct (map rps_id (linhas b))" and "r \<in> set (linhas b)"
  shows "\<exists>r'. buscarPorId (rps_id r) (snd (sincronizarStatusNFSe w b)) = Some r'
     \<and> (status r = Emitido \<and> verdadeiro (numeroNFSe r) \<longrightarrow> r' = r)
     \<and> (anterior (status r') (status r) \<longrightarrow>
          status r' = Pendente
          \<and> (status r = Processando \<or> (status r = Emitido \<and> \<not> verdadeiro (numeroNFSe r)))
          \<and> (\<exists>nid. nfseId r = Some nid
               \<and> (((\<exists>e. nfse_get w nid = Inl e) \<and> status r = Emitido)
                  \<or> (\<exists>nfse. nfse_get w nid = Inr (Some nfse) \<and> nfse_situacao nfse = Some 0))))
     \<and> ((\<exists>nid e. nfseId r = Some nid \<and> nfse_get w nid = Inl e) \<and> status r \<noteq> Emitido
          \<longrightarrow> r' = r)
     \<and> (r \<in> set (rpsParaVerificar b)
          \<and> (\<exists>nid nfse. nfseId r = Some nid \<and> nfse_get w nid = Inr (Some nfse)
                 \<and> nfse_situacao nfse = Some 0)
          \<longrightarrow> status r' = Pendente)
     \<and> (r \<in> set (rpsParaVerificar b) \<and> status r = Emitido \<and> \<not> verdadeiro (numeroNFSe r)
          \<and> (\<exists>nid e. nfseId r = Some nid \<and> nfse_get w nid = Inl e)
          \<longrightarrow> r' = r\<lparr>status := Pendente, mensagemErro := Some msg_nao_encontrada\<rparr>)
     \<and> (\<forall>nid nfse. r \<in> set (rpsParaVerificar b) \<and> nfseId r = Some nid
            \<and> nfse_get w nid = Inr (Some nfse)
          \<longrightarrow> status r' = (if nfse_situacao nfse = Some 1 \<or> nfse_situacao nfse = Some 2
                            then Emitido
                            else if nfse_situacao nfse = Some 3 then Erro
                            else if nfse_situacao nfse = Some 0 then Pendente
                            else status r)
              \<and> numeroNFSe r' = (if verdadeiro (nfse_numero nfse) then nfse_numero nfse
                                 else numeroNFSe r)
              \<and> mensagemErro r' = mensagemErro r)
     \<and> (r \<notin> set (rpsParaVerificar b) \<or> nfseId r = None
          \<or> (\<exists>nid. nfseId r = Some nid \<and> nfse_get w nid = Inr None)
          \<longrightarrow> r' = r)
     \<and> (length (linhas b) \<le> 1000
          \<longrightarrow> (r \<in> set (rpsParaVerificar b)
                \<longleftrightarrow> status r = Pendente \<or> status r = Processando
                    \<or> (status r = Emitido \<and> \<not> verdadeiro (numeroNFSe r))))"
proof -
  let ?r' = "if r \<in> set (rpsParaVerificar b) then escrita_sync w r r else r"
  note props = rpsParaVerificar_props [OF assms(1)]
  have f: "buscarPorId (rps_id r) (snd (sincronizarStatusNFSe w b)) = Some ?r'"
    by (rule sincronizar_linha [OF assms])
  have a: "status r = Emitido \<and> verdadeiro (numeroNFSe r) \<longrightarrow> ?r' = r"
    using props(3) [of r] by auto
  have na: "\<not> anterior (status r) (status r)"
    by (cases "status r") (simp_all add: anterior_def)
  have np: "\<not> anterior s Pendente" for s
    by (cases s) (simp_all add: anterior_def)
  have b: "anterior (status ?r') (status r) \<longrightarrow>
          status ?r' = Pendente
          \<and> (status r = Processando \<or> (status r = Emitido \<and> \<not> verdadeiro (numeroNFSe r)))
          \<and> (\<exists>nid. nfseId r = Some nid
               \<and> (((\<exists>e. nfse_get w nid = Inl e) \<and> status r = Emitido)
                  \<or> (\<exists>nfse. nfse_get w nid = Inr (Some nfse) \<and> nfse_situacao nfse = Some 0)))"
  proof
    assume an: "anterior (status ?r') (status r)"
    then have m: "r \<in> set (rpsParaVerificar b)"
      using na by (cases "r \<in> set (rpsParaVerificar b)") simp_all
    then have an': "anterior (status (escrita_sync w r r)) (status r)"
      using an by simp
    have st: "status r = Processando \<or> (status r = Emitido \<and> \<not> verdadeiro (numeroNFSe r))"
      using props(3) [OF m] an' np by auto
    show "status ?r' = Pendente
          \<and> (status r = Processando \<or> (status r = Emitido \<and> \<not> verdadeiro (numeroNFSe r)))
          \<and> (\<exists>nid. nfseId r = Some nid
               \<and> (((\<exists>e. nfse_get w nid = Inl e) \<and> status r = Emitido)
                  \<or> (\<exists>nfse. nfse_get w nid = Inr (Some nfse) \<and> nfse_situacao nfse = Some 0)))"
      using escrita_sync_anterior [OF an'] st m by auto
  qed
  have c: "(\<exists>nid e. nfseId r = Some nid \<and> nfse_get w nid = Inl e) \<and> status r \<noteq> Emitido
          \<longrightarrow> ?r' = r"
    using escrita_sync_falha by auto
  have d: "r \<in> set (rpsParaVerificar b)
          \<and> (\<exists>nid nfse. nfseId r = Some nid \<and> nfse_get w nid = Inr (Some nfse)
                 \<and> nfse_situacao nfse = Some 0)
          \<longrightarrow> status ?r' = Pendente"
    using escrita_sync_pendente_remoto by auto
  have e: "r \<in> set (rpsParaVerificar b) \<and> status r = Emitido \<and> \<not> verdadeiro (numeroNFSe r)
          \<and> (\<exists>nid e. nfseId r = Some nid \<and> nfse_get w nid = Inl e)
          \<longrightarrow> ?r' = r\<lparr>status := Pendente, mensagemErro := Some msg_nao_encontrada\<rparr>"
    using escrita_sync_reverte [of r _ w] by auto
  have g: "\<forall>nid nfse. r \<in> set (rpsParaVerificar b) \<and> nfseId r = Some nid
            \<and> nfse_get w nid = Inr (Some nfse)
          \<longrightarrow> status ?r' = (if nfse_situacao nfse = Some 1 \<or> nfse_situacao nfse = Some 2
                            then Emitido
                            else if nfse_situacao nfse = Some 3 then Erro
                            else if nfse_situacao nfse = Some 0 then Pendente
                            else status r)
              \<and> numeroNFSe ?r' = (if verdadeiro (nfse_numero nfse) then nfse_numero nfse
                                 else numeroNFSe r)
              \<and> mensagemErro ?r' = mensagemErro r"
  proof (intro allI impI)
    fix nid nfse
    assume h: "r \<in> set (rpsParaVerificar b) \<and> nfseId r = Some nid
                 \<and> nfse_get w nid = Inr (Some nfse)"
    then have h1: "nfseId r = Some nid" and h2: "nfse_get w nid = Inr (Some nfse)"
      by simp_all
    note x = escrita_sync_remoto [OF h1 h2]
    show "status ?r' = (if nfse_situacao nfse = Some 1 \<or> nfse_situacao nfse = Some 2
                            then Emitido
                            else if nfse_situacao nfse = Some 3 then Erro
                            else if nfse_situacao nfse = Some 0 then Pendente
                            else status r)
              \<and> numeroNFSe ?r' = (if verdadeiro (nfse_numero nfse) then nfse_numero nfse
                                 else numeroNFSe r)
              \<and> mensagemErro ?r' = mensagemErro r"
      using h x by (simp add: novoStatus_def)
  qed
  have i: "r \<notin> set (rpsParaVerificar b) \<or> nfseId r = None
          \<or> (\<exists>nid. nfseId r = Some nid \<and> nfse_get w nid = Inr None)
          \<longrightarrow> ?r' = r"
    using escrita_sync_sem_nfse [of r w] by auto
  have j: "length (linhas b) \<le> 1000
          \<longrightarrow> (r \<in> set (rpsParaVerificar b)
                \<longleftrightarrow> status r = Pendente \<or> status r = Processando
                    \<or> (status r = Emitido \<and> \<not> verdadeiro (numeroNFSe r)))"
    using rpsParaVerificar_todos [OF _ assms(2)] by blast
  show ?thesis
    using f a b c d e g i j
    apply -
    apply (rule exI [of _ ?r'])
    apply (intro conjI)
    apply assumption+
    done
qed

lemma sincronizar_ex_processando:
  "linhas (snd (sincronizarStatusNFSe ex_bling (ex_banco Processando)))
     = [ex_linha\<lparr>status := Pendente\<rparr>]"
proof -
  have l: "rpsParaVerificar (ex_banco Processando) = [ex_linha\<lparr>status := Processando\<rparr>]"
    by (simp add: rpsParaVerificar_def listarFila_def ex_banco_def Let_def)
  have g: "nfse_get ex_bling 9 = Inr (Some \<lparr>nfse_situacao = Some 0, nfse_numero = None\<rparr>)"
    by (simp add: ex_bling_def)
  have n: "nfseId (ex_linha\<lparr>status := Processando\<rparr>) = Some 9"
    by (simp add: ex_linha_def)
  have s: "fst (sincronizarUm ex_bling (ex_linha\<lparr>status := Processando\<rparr>) (ex_banco Processando, 0, 0))
         = \<lparr>linhas = [ex_linha\<lparr>status := Pendente\<rparr>], proximo_id = 2\<rparr>"
    by (simp add: sincronizarUm_def n g novoStatus_def Let_def atualizar_def ex_banco_def
                  verdadeiro_def)
  show ?thesis
    using s
    by (cases "sincronizarUm ex_bling (ex_linha\<lparr>status := Processando\<rparr>) (ex_banco Processando, 0, 0)")
       (simp add: sincronizarStatusNFSe_def l)
qed


theorem C2_sync_processando_counterexample:
  "linhas (ex_banco Processando) = [ex_linha\<lparr>status := Processando\<rparr>]
   \<and> status (ex_linha\<lparr>status := Processando\<rparr>) = Processando
   \<and> nfseId (ex_linha\<lparr>status := Processando\<rparr>) = Some 9
   \<and> nfse_get ex_bling 9 = Inr (Some \<lparr>nfse_situacao = Some 0, nfse_numero = None\<rparr>)
   \<and> map status (linhas (snd (sincronizarStatusNFSe ex_bling (ex_banco Processando)))) = [Pendente]
   \<and> anterior Pendente Processando"
proof -
  have a: "linhas (ex_banco Processando) = [ex_linha\<lparr>status := Processando\<rparr>]"
    by (simp add: ex_banco_def)
  have b: "nfseId (ex_linha\<lparr>status := Processando\<rparr>) = Some 9"
    by (simp add: ex_linha_def)
  have c: "nfse_get ex_bling 9 = Inr (Some \<lparr>nfse_situacao = Some 0, nfse_numero = None\<rparr>)"
    by (simp add: ex_bling_def)
  have d: "map status (linhas (snd (sincronizarStatusNFSe ex_bling (ex_banco Processando)))) = [Pendente]"
    by (simp add: sincronizar_ex_processando)
  have e: "anterior Pendente Processando"
    by (simp add: anterior_def)
  show ?thesis using a b c d e by simp
qed

theorem C2_sync_transicoes_witness:
  "distinct (map rps_id (linhas (ex_banco Processando)))
   \<and> ex_linha\<lparr>status := Processando\<rparr> \<in> set (linhas (ex_banco Processando))
   \<and> map_option status
         (buscarPorId 1 (snd (sincronizarStatusNFSe ex_bling (ex_banco Processando))))
       = Some Pendente
   \<and> buscarPorId 1 (snd (sincronizarStatusNFSe ex_bling
          (ex_banco Emitido\<lparr>linhas := [ex_linha\<lparr>status := Emitido, numeroNFSe := Some ''000123''\<rparr>]\<rparr>)))
       = Some (ex_linha\<lparr>status := Emitido, numeroNFSe := Some ''000123''\<rparr>)
   \<and> buscarPorId 1 (snd (sincronizarStatusNFSe ex_bling_nfse_ausente (ex_banco Emitido)))
       = Some (ex_linha\<lparr>status := Pendente, mensagemErro := Some msg_nao_encontrada\<rparr>)
   \<and> map_option (\<lambda>x. (status x, numeroNFSe x))
         (buscarPorId 1 (snd (sincronizarStatusNFSe ex_bling_emitida (ex_banco Processando))))
       = Some (Emitido, Some ''000123'')"
proof -
  let ?r = "ex_linha\<lparr>status := Processando\<rparr>"
  let ?e = "ex_linha\<lparr>status := Emitido, numeroNFSe := Some ''000123''\<rparr>"
  let ?be = "ex_banco Emitido\<lparr>linhas := [?e]\<rparr>"
  let ?s = "ex_linha\<lparr>status := Emitido\<rparr>"
  have h1: "distinct (map rps_id (linhas (ex_banco Processando)))"
    by (simp add: ex_banco_def)
  have h2: "?r \<in> set (linhas (ex_banco Processando))"
    by (simp add: ex_banco_def)
  have i: "rps_id ?r = 1" "rps_id ?e = 1" "rps_id ?s = 1" by (simp_all add: ex_linha_def)
  have m: "?r \<in> set (rpsParaVerificar (ex_banco Processando))"
    by (simp add: rpsParaVerificar_def listarFila_def ex_banco_def Let_def)
  have g: "?r \<in> set (rpsParaVerificar (ex_banco Processando))
          \<and> (\<exists>nid nfse. nfseId ?r = Some nid \<and> nfse_get ex_bling nid = Inr (Some nfse)
                 \<and> nfse_situacao nfse = Some 0)"
    using m by (simp add: ex_linha_def ex_bling_def)
  have "\<exists>r'. buscarPorId (rps_id ?r) (snd (sincronizarStatusNFSe ex_bling (ex_banco Processando)))
                 = Some r'
           \<and> (?r \<in> set (rpsParaVerificar (ex_banco Processando))
                \<and> (\<exists>nid nfse. nfseId ?r = Some nid \<and> nfse_get ex_bling nid = Inr (Some nfse)
                       \<and> nfse_situacao nfse = Some 0)
                \<longrightarrow> status r' = Pendente)"
    using C2_sync_transicoes [OF h1 h2, of ex_bling]
    apply (elim exE conjE)
    apply (intro exI conjI)
    apply assumption+
    done
  then have a: "map_option status
         (buscarPorId 1 (snd (sincronizarStatusNFSe ex_bling (ex_banco Processando))))
       = Some Pendente"
    using g unfolding i by (elim exE conjE) simp
  have k1: "distinct (map rps_id (linhas ?be))" by simp
  have k2: "?e \<in> set (linhas ?be)" by simp
  have k3: "status ?e = Emitido \<and> verdadeiro (numeroNFSe ?e)"
    by (simp add: verdadeiro_def)
  have "\<exists>r'. buscarPorId (rps_id ?e) (snd (sincronizarStatusNFSe ex_bling ?be)) = Some r'
           \<and> (status ?e = Emitido \<and> verdadeiro (numeroNFSe ?e) \<longrightarrow> r' = ?e)"
    using C2_sync_transicoes [OF k1 k2, of ex_bling]
    apply (elim exE conjE)
    apply (intro exI conjI)
    apply assumption+
    done
  then have b: "buscarPorId 1 (snd (sincronizarStatusNFSe ex_bling ?be)) = Some ?e"
    using k3 unfolding i by (elim exE conjE) simp
  have s1: "distinct (map rps_id (linhas (ex_banco Emitido)))"
    by (simp add: ex_banco_def)
  have s2: "?s \<in> set (linhas (ex_banco Emitido))"
    by (simp add: ex_banco_def)
  have s3: "?s \<in> set (rpsParaVerificar (ex_banco Emitido)) \<and> status ?s = Emitido
              \<and> \<not> verdadeiro (numeroNFSe ?s)
              \<and> (\<exists>nid e. nfseId ?s = Some nid \<and> nfse_get ex_bling_nfse_ausente nid = Inl e)"
    by (simp add: rpsParaVerificar_def listarFila_def ex_banco_def Let_def ex_linha_def
                  verdadeiro_def ex_bling_nfse_ausente_def)
  have "\<exists>r'. buscarPorId (rps_id ?s)
                 (snd (sincronizarStatusNFSe ex_bling_nfse_ausente (ex_banco Emitido))) = Some r'
           \<and> (?s \<in> set (rpsParaVerificar (ex_banco Emitido)) \<and> status ?s = Emitido
              \<and> \<not> verdadeiro (numeroNFSe ?s)
              \<and> (\<exists>nid e. nfseId ?s = Some nid \<and> nfse_get ex_bling_nfse_ausente nid = Inl e)
              \<longrightarrow> r' = ?s\<lparr>status := Pendente, mensagemErro := Some msg_nao_encontrada\<rparr>)"
    using C2_sync_transicoes [OF s1 s2, of ex_bling_nfse_ausente]
    apply (elim exE conjE)
    apply (intro exI conjI)
    apply assumption+
    done
  then obtain r3 where r3:
    "buscarPorId (rps_id ?s)
        (snd (sincronizarStatusNFSe ex_bling_nfse_ausente (ex_banco Emitido))) = Some r3
     \<and> (?s \<in> set (rpsParaVerificar (ex_banco Emitido)) \<and> status ?s = Emitido
              \<and> \<not> verdadeiro (numeroNFSe ?s)
              \<and> (\<exists>nid e. nfseId ?s = Some nid \<and> nfse_get ex_bling_nfse_ausente nid = Inl e)
              \<longrightarrow> r3 = ?s\<lparr>status := Pendente, mensagemErro := Some msg_nao_encontrada\<rparr>)" ..
  then have "r3 = ?s\<lparr>status := Pendente, mensagemErro := Some msg_nao_encontrada\<rparr>"
    using s3 by blast
  then have c: "buscarPorId 1 (snd (sincronizarStatusNFSe ex_bling_nfse_ausente (ex_banco Emitido)))
       = Some (ex_linha\<lparr>status := Pendente, mensagemErro := Some msg_nao_encontrada\<rparr>)"
    using r3 unfolding i by simp
  have t3: "?r \<in> set (rpsParaVerificar (ex_banco Processando)) \<and> nfseId ?r = Some 9
              \<and> nfse_get ex_bling_emitida 9
                    = Inr (Some \<lparr>nfse_situacao = Some 2, nfse_numero = Some ''000123''\<rparr>)"
    using m by (simp add: ex_linha_def ex_bling_emitida_def)
  have "\<exists>r'. buscarPorId (rps_id ?r)
                 (snd (sincronizarStatusNFSe ex_bling_emitida (ex_banco Processando))) = Some r'
           \<and> (\<forall>nid nfse. ?r \<in> set (rpsParaVerificar (ex_banco Processando))
                 \<and> nfseId ?r = Some nid \<and> nfse_get ex_bling_emitida nid = Inr (Some nfse)
          \<longrightarrow> status r' = (if nfse_situacao nfse = Some 1 \<or> nfse_situacao nfse = Some 2
                            then Emitido
                            else if nfse_situacao nfse = Some 3 then Erro
                            else if nfse_situacao nfse = Some 0 then Pendente
                            else status ?r)
              \<and> numeroNFSe r' = (if verdadeiro (nfse_numero nfse) then nfse_numero nfse
                                 else numeroNFSe ?r)
              \<and> mensagemErro r' = mensagemErro ?r)"
    using C2_sync_transicoes [OF h1 h2, of ex_bling_emitida]
    apply (elim exE conjE)
    apply (intro exI conjI)
    apply assumption+
    done
  then obtain r4 where r4:
    "buscarPorId (rps_id ?r)
        (snd (sincronizarStatusNFSe ex_bling_emitida (ex_banco Processando))) = Some r4
     \<and> (\<forall>nid nfse. ?r \<in> set (rpsParaVerificar (ex_banco Processando))
                 \<and> nfseId ?r = Some nid \<and> nfse_get ex_bling_emitida nid = Inr (Some nfse)
          \<longrightarrow> status r4 = (if nfse_situacao nfse = Some 1 \<or> nfse_situacao nfse = Some 2
                            then Emitido
                            else if nfse_situacao nfse = Some 3 then Erro
                            else if nfse_situacao nfse = Some 0 then Pendente
                            else status ?r)
              \<and> numeroNFSe r4 = (if verdadeiro (nfse_numero nfse) then nfse_numero nfse
                                 else numeroNFSe ?r)
              \<and> mensagemErro r4 = mensagemErro ?r)" ..
  note x = r4 [THEN conjunct2, rule_format, OF t3]
  have "status r4 = Emitido \<and> numeroNFSe r4 = Some ''000123''"
    using x by (simp add: verdadeiro_def)
  then have d: "map_option (\<lambda>x. (status x, numeroNFSe x))
           (buscarPorId 1 (snd (sincronizarStatusNFSe ex_bling_emitida (ex_banco Processando))))
       = Some (Emitido, Some ''000123'')"
    using r4 unfolding i by simp
  show ?thesis using h1 h2 a b c d by blast
qed
section \<open>Invariants of the table and idempotence of generate\<close>


lemma enviarNFSeParaPrefeitura_unico:
  "unico b \<Longrightarrow> unico (snd (enviarNFSeParaPrefeitura w rpsIds b))"
  by (simp add: unico_def enviarNFSeParaPrefeitura_chaves)

lemma criar_chave_primaria:
  assumes "chave_primaria b" and "criar a d b = Inr (row, b')"
  shows "chave_primaria b'"
  using assms(1) criar_Inr(1,5,6) [OF assms(2)]
  by (auto simp: chave_primaria_def)

lemma atualizar_chave_primaria:
  assumes "\<And>r. rps_id (f r) = rps_id r" and "chave_primaria b"
  shows "chave_primaria (atualizar i f b)"
proof -
  have m: "map rps_id (linhas (atualizar i f b)) = map rps_id (linhas b)"
    by (rule atualizar_ids [OF assms(1)])
  have "rps_id r < proximo_id b" if "r \<in> set (linhas (atualizar i f b))" for r
  proof -
    from that obtain x where "x \<in> set (linhas b)" "r = (if rps_id x = i then f x else x)"
      by (auto simp: atualizar_def)
    then show ?thesis
      using assms by (auto simp: chave_primaria_def)
  qed
  moreover have "distinct (map rps_id (linhas (atualizar i f b)))"
    unfolding m using assms(2) by (simp add: chave_primaria_def)
  moreover have "proximo_id (atualizar i f b) = proximo_id b"
    by (simp add: atualizar_def)
  ultimately show ?thesis
    by (simp add: chave_primaria_def)
qed

lemma gerarUm_chave_primaria: "chave_primaria b \<Longrightarrow> chave_primaria (snd (gerarUm w i b))"
  using gerarUm_casos [of w i b] criar_chave_primaria by metis

lemma enviarUm_chave_primaria: "chave_primaria b \<Longrightarrow> chave_primaria (snd (snd (enviarUm w i b)))"
  by (simp add: enviarUm_def recuperarEnvio_def Let_def atualizar_chave_primaria
           split: option.splits sum.splits)

lemma sincronizarUm_chave_primaria:
  "chave_primaria b \<Longrightarrow> chave_primaria (fst (sincronizarUm w rps (b, a, c)))"
  by (simp add: sincronizarUm_linhas atualizar_chave_primaria escrita_sync_id)

lemma sincronizar_chave_primaria:
  "chave_primaria b \<Longrightarrow> chave_primaria (snd (sincronizarStatusNFSe w b))"
proof -
  have f: "chave_primaria b \<Longrightarrow>
             chave_primaria (fst (foldl (\<lambda>acc rps. sincronizarUm w rps acc) (b, a, c) L))" for b a c L
  proof (induction L arbitrary: b a c)
    case Nil
    then show ?case by simp
  next
    case (Cons s L)
    obtain b1 a1 c1 where st: "sincronizarUm w s (b, a, c) = (b1, a1, c1)"
      by (cases "sincronizarUm w s (b, a, c)")
    have "chave_primaria b1"
      using sincronizarUm_chave_primaria [OF Cons.prems, of w s a c] st by simp
    then show ?case using Cons.IH st by simp
  qed
  assume "chave_primaria b"
  then show ?thesis
    using f [of b 0 0 "rpsParaVerificar b"]
    by (cases "foldl (\<lambda>acc rps. sincronizarUm w rps acc) (b, 0, 0) (rpsParaVerificar b)")
       (simp add: sincronizarStatusNFSe_def)
qed

lemma chave_primaria_vazio: "chave_primaria \<lparr>linhas = [], proximo_id = n\<rparr>"
  by (simp add: chave_primaria_def)

lemma gerarLoop_acumulador:
  "gerarLoop w ids rs n b
     = (rs @ fst (gerarLoop w ids [] 0 b), n + fst (snd (gerarLoop w ids [] 0 b)),
        snd (snd (gerarLoop w ids [] 0 b)))"
proof (induction ids arbitrary: rs n b)
  case Nil
  show ?case by simp
next
  case (Cons i ids)
  obtain r b' where g: "gerarUm w i b = (r, b')" by (cases "gerarUm w i b")
  let ?c = "if res_status r = ''sucesso'' then 1 else (0::nat)"
  have x: "gerarLoop w ids (rs @ [r]) (n + ?c) b'
             = ((rs @ [r]) @ fst (gerarLoop w ids [] 0 b'),
                (n + ?c) + fst (snd (gerarLoop w ids [] 0 b')),
                snd (snd (gerarLoop w ids [] 0 b')))"
    by (rule Cons.IH)
  have y: "gerarLoop w ids [r] ?c b'
             = ([r] @ fst (gerarLoop w ids [] 0 b'),
                ?c + fst (snd (gerarLoop w ids [] 0 b')),
                snd (snd (gerarLoop w ids [] 0 b')))"
    by (rule Cons.IH)
  have l: "gerarLoop w (i # ids) rs n b = gerarLoop w ids (rs @ [r]) (n + ?c) b'"
    using g by simp
  have r: "gerarLoop w (i # ids) [] 0 b = gerarLoop w ids [r] ?c b'"
    using g by simp
  show ?case
    unfolding l r x y by simp
qed

lemma gerarRPSParaPedidos_Nil:
  "gerarRPSParaPedidos w [] b
     = (\<lparr>ger_success = True, ger_processados = 0, ger_total = 0, ger_resultados = []\<rparr>, b)"
  by (simp add: gerarRPSParaPedidos_def)

lemma gerarRPSParaPedidos_Cons:
  "gerarRPSParaPedidos w (i # ids) b
     = (\<lparr>ger_success = True,
         ger_processados = (if res_status (fst (gerarUm w i b)) = ''sucesso'' then 1 else 0)
            + ger_processados (fst (gerarRPSParaPedidos w ids (snd (gerarUm w i b)))),
         ger_total = Suc (length ids),
         ger_resultados = fst (gerarUm w i b)
            # ger_resultados (fst (gerarRPSParaPedidos w ids (snd (gerarUm w i b))))\<rparr>,
        snd (gerarRPSParaPedidos w ids (snd (gerarUm w i b))))"
proof -
  obtain r b' where g: "gerarUm w i b = (r, b')" by (cases "gerarUm w i b")
  obtain rs m b2 where l: "gerarLoop w ids [] 0 b' = (rs, m, b2)"
    by (cases "gerarLoop w ids [] 0 b'") auto
  let ?c = "if res_status r = ''sucesso'' then 1 else (0::nat)"
  have "gerarLoop w (i # ids) [] 0 b = gerarLoop w ids [r] ?c b'"
    using g by simp
  also have "\<dots> = ([r] @ rs, ?c + m, b2)"
    using gerarLoop_acumulador [of w ids "[r]" ?c b'] l by simp
  finally have "gerarLoop w (i # ids) [] 0 b = (r # rs, ?c + m, b2)"
    by simp
  then show ?thesis
    using g l by (simp add: gerarRPSParaPedidos_def)
qed

lemma gerarRPSParaPedidos_resultado:
  "k < length ids \<Longrightarrow>
     ger_resultados (fst (gerarRPSParaPedidos w ids b)) ! k
       = fst (gerarUm w (ids ! k) (snd (gerarRPSParaPedidos w (take k ids) b)))"
proof (induction ids arbitrary: k b)
  case Nil
  then show ?case by simp
next
  case (Cons i ids)
  show ?case
  proof (cases k)
    case 0
    then show ?thesis
      by (simp add: gerarRPSParaPedidos_Cons gerarRPSParaPedidos_Nil)
  next
    case (Suc j)
    then have "j < length ids" using Cons.prems by simp
    from Cons.IH [OF this, of "snd (gerarUm w i b)"] show ?thesis
      using Suc by (simp add: gerarRPSParaPedidos_Cons)
  qed
qed

lemma gerarRPSParaPedidos_append:
  "snd (gerarRPSParaPedidos w (xs @ ys) b)
     = snd (gerarRPSParaPedidos w ys (snd (gerarRPSParaPedidos w xs b)))"
  by (induction xs arbitrary: b) (simp_all add: gerarRPSParaPedidos_Cons gerarRPSParaPedidos_Nil)

lemma gerarUm_chaves:
  "set (map pedidoVendaId (linhas b)) \<subseteq> set (map pedidoVendaId (linhas (snd (gerarUm w i b))))"
proof -
  have "snd (gerarUm w i b) = b
        \<or> (\<exists>a d row. criar a d b = Inr (row, snd (gerarUm w i b)))"
    using gerarUm_casos [of w i b] by blast
  then show ?thesis
  proof
    assume "snd (gerarUm w i b) = b"
    then show ?thesis by simp
  next
    assume "\<exists>a d row. criar a d b = Inr (row, snd (gerarUm w i b))"
    then obtain a d row where "criar a d b = Inr (row, snd (gerarUm w i b))" by blast
    from criar_Inr(1) [OF this] show ?thesis by auto
  qed
qed

lemma gerarRPSParaPedidos_chaves:
  "set (map pedidoVendaId (linhas b))
     \<subseteq> set (map pedidoVendaId (linhas (snd (gerarRPSParaPedidos w ids b))))"
proof (induction ids arbitrary: b)
  case Nil
  show ?case by (simp add: gerarRPSParaPedidos_Nil)
next
  case (Cons i ids)
  have "set (map pedidoVendaId (linhas b))
          \<subseteq> set (map pedidoVendaId (linhas (snd (gerarUm w i b))))"
    by (rule gerarUm_chaves)
  also have "\<dots> \<subseteq> set (map pedidoVendaId
                 (linhas (snd (gerarRPSParaPedidos w ids (snd (gerarUm w i b))))))"
    by (rule Cons.IH)
  finally show ?case by (simp add: gerarRPSParaPedidos_Cons)
qed

lemma gerarUm_existente:
  assumes "pedidos_vendas w i = Inr (Some p)" and "\<not> isConsumidorFinal p"
    and "buscarPorPedidoId i b = Some row"
  shows "gerarUm w i b = (ignorado i (numero p) msg_rps_ja_existe (numeroRPS row), b)"
  using assms by (simp add: gerarUm_def tentarGerar_def)

lemma gerarUm_chave_presente:
  assumes "pedidos_vendas w i = Inr (Some p)" and "\<not> isConsumidorFinal p"
    and "i \<in> set (map pedidoVendaId (linhas b))"
  shows "res_status (fst (gerarUm w i b)) = ''ignorado''
       \<and> res_mensagem (fst (gerarUm w i b)) = msg_rps_ja_existe
       \<and> snd (gerarUm w i b) = b"
proof -
  have "find (\<lambda>r. pedidoVendaId r = i) (linhas b) \<noteq> None"
    using assms(3) by (auto simp: find_None_iff)
  then obtain row where "buscarPorPedidoId i b = Some row"
    by (auto simp: buscarPorPedidoId_def)
  from gerarUm_existente [OF assms(1,2) this] show ?thesis
    by (simp add: ignorado_def)
qed

lemma gerarUm_sucesso_chave:
  assumes "res_status (fst (gerarUm w i b)) = ''sucesso''"
  shows "i \<in> set (map pedidoVendaId (linhas (snd (gerarUm w i b))))"
    and "\<exists>p. pedidos_vendas w i = Inr (Some p) \<and> \<not> isConsumidorFinal p"
proof -
  obtain a d row where c: "criar a d b = Inr (row, snd (gerarUm w i b))" "dto_pedidoVendaId d = i"
      and p: "\<exists>p. pedidos_vendas w i = Inr (Some p) \<and> \<not> isConsumidorFinal p"
    using gerarUm_casos [of w i b] assms by auto
  show "i \<in> set (map pedidoVendaId (linhas (snd (gerarUm w i b))))"
    using criar_Inr(1,2) [OF c(1)] c(2) by simp
  show "\<exists>p. pedidos_vendas w i = Inr (Some p) \<and> \<not> isConsumidorFinal p"
    by (rule p)
qed

lemma gerarUm_sucesso_linha:
  assumes "res_status (fst (gerarUm w i b)) = ''sucesso''"
  shows "\<exists>row. linhas (snd (gerarUm w i b)) = linhas b @ [row] \<and> pedidoVendaId row = i
           \<and> status row = Pendente \<and> i \<notin> set (map pedidoVendaId (linhas b))"
proof -
  obtain a d row where c: "criar a d b = Inr (row, snd (gerarUm w i b))" "dto_pedidoVendaId d = i"
      "dto_status d = Pendente"
    using gerarUm_casos [of w i b] assms by auto
  show ?thesis
    using criar_Inr(1-4) [OF c(1)] c(2,3) by auto
qed

lemma gerarUm_sem_sucesso:
  "res_status (fst (gerarUm w i b)) \<noteq> ''sucesso'' \<Longrightarrow> snd (gerarUm w i b) = b"
  using gerarUm_casos [of w i b] by blast

lemma gerarUm_sucesso:
  assumes "pedidos_vendas w i = Inr (Some p)" and "\<not> isConsumidorFinal p"
    and "buscarPorPedidoId i b = None"
    and "contato p = Some cp" and "contatos w (cp_id cp) = Some c"
    and "filtrarServicos w (itens_do_pedido p) = Inr ss" and "ss \<noteq> []"
    and "construirPayloadNFSe p (Some c) ss 2222749 (sorteio w i) (hoje w) = Inr pl"
    and "nfse_post w pl = Inr (Some resp)"
  shows "gerarUm w i b
     = (\<lparr>res_pedidoId = i, res_numeroPedido = numero p, res_status = ''sucesso'',
         res_mensagem = msg_sucesso, res_numeroRPS = criada_numeroRPS resp,
         res_nfseId = Some (criada_id resp)\<rparr>,
        b\<lparr>linhas := linhas b
             @ [\<lparr>rps_id = proximo_id b, pedidoVendaId = i, numeroPedido = numero p,
                 numeroRPS = Some (ou_texto (criada_numeroRPS resp) (pay_numeroRPS pl)),
                 serie = Some (ou_texto (criada_serie resp) (pay_serie pl)),
                 nfseId = Some (criada_id resp), numeroNFSe = None, status = Pendente,
                 mensagemErro = None, valorTotal = somar_valores ss,
                 nomeCliente = cont_nome c, dataEmissao = Some (agora w),
                 createdAt = agora w\<rparr>],
          proximo_id := Suc (proximo_id b)\<rparr>)"
proof -
  have n: "i \<notin> set (map pedidoVendaId (linhas b))"
    using assms(3) by (auto simp: buscarPorPedidoId_def find_None_iff)
  have e: "emitirESalvar w i p (Some c) ss b
     = Inr (\<lparr>res_pedidoId = i, res_numeroPedido = numero p, res_status = ''sucesso'',
         res_mensagem = msg_sucesso, res_numeroRPS = criada_numeroRPS resp,
         res_nfseId = Some (criada_id resp)\<rparr>,
        b\<lparr>linhas := linhas b
             @ [\<lparr>rps_id = proximo_id b, pedidoVendaId = i, numeroPedido = numero p,
                 numeroRPS = Some (ou_texto (criada_numeroRPS resp) (pay_numeroRPS pl)),
                 serie = Some (ou_texto (criada_serie resp) (pay_serie pl)),
                 nfseId = Some (criada_id resp), numeroNFSe = None, status = Pendente,
                 mensagemErro = None, valorTotal = somar_valores ss,
                 nomeCliente = cont_nome c, dataEmissao = Some (agora w),
                 createdAt = agora w\<rparr>],
          proximo_id := Suc (proximo_id b)\<rparr>)"
    using n assms(8,9) by (simp add: emitirESalvar_def criar_def Let_def)
  show ?thesis
    using assms(1-7) e by (simp add: gerarUm_def tentarGerar_def)
qed

lemma gerarRPSParaPedidos_segunda_vez:
  assumes k: "k < length ids"
    and s: "res_status (ger_resultados (fst (gerarRPSParaPedidos w ids b)) ! k) = ''sucesso''"
  shows "res_status (ger_resultados
            (fst (gerarRPSParaPedidos w ids (snd (gerarRPSParaPedidos w ids b)))) ! k)
           = ''ignorado''
       \<and> res_mensagem (ger_resultados
            (fst (gerarRPSParaPedidos w ids (snd (gerarRPSParaPedidos w ids b)))) ! k)
           = msg_rps_ja_existe"
proof -
  let ?i = "ids ! k"
  let ?bk = "snd (gerarRPSParaPedidos w (take k ids) b)"
  let ?b1 = "snd (gerarRPSParaPedidos w ids b)"
  let ?ck = "snd (gerarRPSParaPedidos w (take k ids) ?b1)"
  have s': "res_status (fst (gerarUm w ?i ?bk)) = ''sucesso''"
    using s gerarRPSParaPedidos_resultado [OF k, of w b] by simp
  have ids: "ids = take k ids @ ?i # drop (Suc k) ids"
    using k by (simp add: id_take_nth_drop [symmetric])
  have "?b1 = snd (gerarRPSParaPedidos w (?i # drop (Suc k) ids) ?bk)"
    using gerarRPSParaPedidos_append [of w "take k ids" "?i # drop (Suc k) ids" b] ids by simp
  then have b1: "?b1 = snd (gerarRPSParaPedidos w (drop (Suc k) ids) (snd (gerarUm w ?i ?bk)))"
    by (simp add: gerarRPSParaPedidos_Cons)
  have "?i \<in> set (map pedidoVendaId (linhas (snd (gerarUm w ?i ?bk))))"
    by (rule gerarUm_sucesso_chave(1) [OF s'])
  then have "?i \<in> set (map pedidoVendaId (linhas ?b1))"
    using gerarRPSParaPedidos_chaves [of "snd (gerarUm w ?i ?bk)" w "drop (Suc k) ids"]
    unfolding b1 by blast
  then have m: "?i \<in> set (map pedidoVendaId (linhas ?ck))"
    using gerarRPSParaPedidos_chaves [of ?b1 w "take k ids"] by blast
  obtain p where p: "pedidos_vendas w ?i = Inr (Some p)" "\<not> isConsumidorFinal p"
    using gerarUm_sucesso_chave(2) [OF s'] by blast
  have "ger_resultados (fst (gerarRPSParaPedidos w ids ?b1)) ! k = fst (gerarUm w ?i ?ck)"
    by (rule gerarRPSParaPedidos_resultado [OF k])
  then show ?thesis
    using gerarUm_chave_presente [OF p m] by simp
qed

lemma gerarRPSParaPedidos_repetido:
  assumes j: "j < k" and k: "k < length ids" and e: "ids ! j = ids ! k"
    and s: "res_status (ger_resultados (fst (gerarRPSParaPedidos w ids b)) ! j) = ''sucesso''"
  shows "res_status (ger_resultados (fst (gerarRPSParaPedidos w ids b)) ! k) = ''ignorado''
       \<and> res_mensagem (ger_resultados (fst (gerarRPSParaPedidos w ids b)) ! k)
           = msg_rps_ja_existe"
proof -
  let ?i = "ids ! j"
  let ?bj = "snd (gerarRPSParaPedidos w (take j ids) b)"
  let ?bk = "snd (gerarRPSParaPedidos w (take k ids) b)"
  have jl: "j < length ids" using j k by simp
  have s': "res_status (fst (gerarUm w ?i ?bj)) = ''sucesso''"
    using s gerarRPSParaPedidos_resultado [OF jl, of w b] by simp
  have jk: "j < length (take k ids)" using j k by simp
  have tk: "take k ids = take j ids @ ?i # drop (Suc j) (take k ids)"
    using id_take_nth_drop [OF jk] j by (simp add: min_def)
  have "?bk = snd (gerarRPSParaPedidos w (?i # drop (Suc j) (take k ids)) ?bj)"
    using gerarRPSParaPedidos_append [of w "take j ids" "?i # drop (Suc j) (take k ids)" b] tk
    by simp
  then have bk: "?bk = snd (gerarRPSParaPedidos w (drop (Suc j) (take k ids))
                              (snd (gerarUm w ?i ?bj)))"
    by (simp add: gerarRPSParaPedidos_Cons)
  have "?i \<in> set (map pedidoVendaId (linhas (snd (gerarUm w ?i ?bj))))"
    by (rule gerarUm_sucesso_chave(1) [OF s'])
  then have m: "?i \<in> set (map pedidoVendaId (linhas ?bk))"
    using gerarRPSParaPedidos_chaves [of "snd (gerarUm w ?i ?bj)" w "drop (Suc j) (take k ids)"]
    unfolding bk by blast
  obtain p where p: "pedidos_vendas w ?i = Inr (Some p)" "\<not> isConsumidorFinal p"
    using gerarUm_sucesso_chave(2) [OF s'] by blast
  have "ger_resultados (fst (gerarRPSParaPedidos w ids b)) ! k = fst (gerarUm w ?i ?bk)"
    using gerarRPSParaPedidos_resultado [OF k, of w b] e by simp
  then show ?thesis
    using gerarUm_chave_presente [OF p m] by simp
qed

text \<open>
  C1. No operation of the service puts two rows for one order into the table: a table
  with unique \<open>pedidoVendaId\<close> (the empty one, to begin with) still has unique
  \<open>pedidoVendaId\<close> after any generate batch, any submit batch and any synchronisation,
  and the insert of a second row for an order is rejected. Generate is idempotent per
  order: when the turn for an order id pushes \<^verbatim>\<open>sucesso\<close>, a second turn for the same
  id, on the table the first left and against the same Bling, pushes \<^verbatim>\<open>ignorado\<close>
  with the message \<open>msg_rps_ja_existe\<close> and leaves the table
  as it is; the same holds for two batches of that one id.

  The batch is the sequence of its turns: the empty batch returns no result and the table
  as it is, and a batch \<open>i # ids\<close> returns the result of the turn for \<open>i\<close> followed by
  the results of the batch \<open>ids\<close> on the table that turn left, counting the
  \<^verbatim>\<open>sucesso\<close> results. A turn pushes \<^verbatim>\<open>sucesso\<close> and appends one
  \<^verbatim>\<open>pendente\<close> row for the order when the order is fetched, is not consumer-final,
  has no row yet, its contact is found, at least one service line is retained and Bling
  creates the NFSe; it pushes \<^verbatim>\<open>ignorado\<close> with \<open>msg_rps_ja_existe\<close> and leaves the
  table as it is when a row for the order exists. Only a \<^verbatim>\<open>sucesso\<close> turn changes the
  table, by one row for an order that had none. So for every batch, every position whose
  result was \<^verbatim>\<open>sucesso\<close> gives \<^verbatim>\<open>ignorado\<close> with \<open>msg_rps_ja_existe\<close> when the
  same batch runs again on the table the first run left, and inside one batch a later
  occurrence of an id whose earlier occurrence was \<^verbatim>\<open>sucesso\<close> gives
  \<^verbatim>\<open>ignorado\<close> with that message.
\<close>

theorem C1_gerar_idempotente:
  "unico \<lparr>linhas = [], proximo_id = n\<rparr>
   \<and> (unico b \<longrightarrow> unico (snd (gerarRPSParaPedidos w ids b))
                \<and> unico (snd (enviarNFSeParaPrefeitura w rpsIds b))
                \<and> unico (snd (sincronizarStatusNFSe w b)))
   \<and> (dto_pedidoVendaId d \<in> set (map pedidoVendaId (linhas b))
        \<longrightarrow> criar a d b = Inl QueryFailedError)
   \<and> (res_status (fst (gerarUm w i b)) = ''sucesso'' \<longrightarrow>
        res_status (fst (gerarUm w i (snd (gerarUm w i b)))) = ''ignorado''
        \<and> res_mensagem (fst (gerarUm w i (snd (gerarUm w i b)))) = msg_rps_ja_existe
        \<and> snd (gerarUm w i (snd (gerarUm w i b))) = snd (gerarUm w i b))
   \<and> (map res_status (ger_resultados (fst (gerarRPSParaPedidos w [i] b))) = [''sucesso''] \<longrightarrow>
        map res_status (ger_resultados
            (fst (gerarRPSParaPedidos w [i] (snd (gerarRPSParaPedidos w [i] b))))) = [''ignorado'']
        \<and> map res_mensagem (ger_resultados
            (fst (gerarRPSParaPedidos w [i] (snd (gerarRPSParaPedidos w [i] b))))) = [msg_rps_ja_existe]
        \<and> snd (gerarRPSParaPedidos w [i] (snd (gerarRPSParaPedidos w [i] b)))
            = snd (gerarRPSParaPedidos w [i] b))
   \<and> gerarRPSParaPedidos w [] b
       = (\<lparr>ger_success = True, ger_processados = 0, ger_total = 0, ger_resultados = []\<rparr>, b)
   \<and> gerarRPSParaPedidos w (i # ids) b
       = (\<lparr>ger_success = True,
           ger_processados = (if res_status (fst (gerarUm w i b)) = ''sucesso'' then 1 else 0)
              + ger_processados (fst (gerarRPSParaPedidos w ids (snd (gerarUm w i b)))),
           ger_total = Suc (length ids),
           ger_resultados = fst (gerarUm w i b)
              # ger_resultados (fst (gerarRPSParaPedidos w ids (snd (gerarUm w i b))))\<rparr>,
          snd (gerarRPSParaPedidos w ids (snd (gerarUm w i b))))
   \<and> (pedidos_vendas w i = Inr (Some p) \<and> \<not> isConsumidorFinal p
        \<and> buscarPorPedidoId i b = None
        \<and> contato p = Some cp \<and> contatos w (cp_id cp) = Some ct
        \<and> filtrarServicos w (itens_do_pedido p) = Inr ss \<and> ss \<noteq> []
        \<and> construirPayloadNFSe p (Some ct) ss 2222749 (sorteio w i) (hoje w) = Inr pl
        \<and> nfse_post w pl = Inr (Some resp)
      \<longrightarrow> gerarUm w i b
          = (\<lparr>res_pedidoId = i, res_numeroPedido = numero p, res_status = ''sucesso'',
              res_mensagem = msg_sucesso, res_numeroRPS = criada_numeroRPS resp,
              res_nfseId = Some (criada_id resp)\<rparr>,
             b\<lparr>linhas := linhas b
                  @ [\<lparr>rps_id = proximo_id b, pedidoVendaId = i, numeroPedido = numero p,
                      numeroRPS = Some (ou_texto (criada_numeroRPS resp) (pay_numeroRPS pl)),
                      serie = Some (ou_texto (criada_serie resp) (pay_serie pl)),
                      nfseId = Some (criada_id resp), numeroNFSe = None, status = Pendente,
                      mensagemErro = None, valorTotal = somar_valores ss,
                      nomeCliente = cont_nome ct, dataEmissao = Some (agora w),
                      createdAt = agora w\<rparr>],
               proximo_id := Suc (proximo_id b)\<rparr>))
   \<and> (pedidos_vendas w i = Inr (Some p) \<and> \<not> isConsumidorFinal p
        \<and> buscarPorPedidoId i b = Some row
      \<longrightarrow> gerarUm w i b = (ignorado i (numero p) msg_rps_ja_existe (numeroRPS row), b))
   \<and> (res_status (fst (gerarUm w i b)) = ''sucesso''
      \<longrightarrow> (\<exists>nova. linhas (snd (gerarUm w i b)) = linhas b @ [nova] \<and> pedidoVendaId nova = i
              \<and> status nova = Pendente \<and> i \<notin> set (map pedidoVendaId (linhas b))))
   \<and> (res_status (fst (gerarUm w i b)) \<noteq> ''sucesso'' \<longrightarrow> snd (gerarUm w i b) = b)
   \<and> (k < length ids
        \<and> res_status (ger_resultados (fst (gerarRPSParaPedidos w ids b)) ! k) = ''sucesso''
      \<longrightarrow> res_status (ger_resultados
              (fst (gerarRPSParaPedidos w ids (snd (gerarRPSParaPedidos w ids b)))) ! k)
            = ''ignorado''
          \<and> res_mensagem (ger_resultados
              (fst (gerarRPSParaPedidos w ids (snd (gerarRPSParaPedidos w ids b)))) ! k)
            = msg_rps_ja_existe)
   \<and> (j < k \<and> k < length ids \<and> ids ! j = ids ! k
        \<and> res_status (ger_resultados (fst (gerarRPSParaPedidos w ids b)) ! j) = ''sucesso''
      \<longrightarrow> res_status (ger_resultados (fst (gerarRPSParaPedidos w ids b)) ! k) = ''ignorado''
          \<and> res_mensagem (ger_resultados (fst (gerarRPSParaPedidos w ids b)) ! k)
              = msg_rps_ja_existe)"
proof -
  have v: "unico \<lparr>linhas = [], proximo_id = n\<rparr>"
    by (simp add: unico_def)
  have u: "unico b \<longrightarrow> unico (snd (gerarRPSParaPedidos w ids b))
                \<and> unico (snd (enviarNFSeParaPrefeitura w rpsIds b))
                \<and> unico (snd (sincronizarStatusNFSe w b))"
    using gerarRPSParaPedidos_unico enviarNFSeParaPrefeitura_unico sincronizar_unico by blast
  have c: "dto_pedidoVendaId d \<in> set (map pedidoVendaId (linhas b))
        \<longrightarrow> criar a d b = Inl QueryFailedError"
    using criar_duplicado by blast
  have r: "res_status (fst (gerarUm w i b)) = ''ignorado'' \<and> res_mensagem (fst (gerarUm w i b)) = msg_rps_ja_existe"
    if "gerarUm w i b = (ignorado i m msg_rps_ja_existe x, b')" for b b' m x
    using that by (simp add: ignorado_def)
  have g': "res_status (fst (gerarUm w i (snd (gerarUm w i b)))) = ''ignorado''
        \<and> res_mensagem (fst (gerarUm w i (snd (gerarUm w i b)))) = msg_rps_ja_existe
        \<and> snd (gerarUm w i (snd (gerarUm w i b))) = snd (gerarUm w i b)"
    if s: "res_status (fst (gerarUm w i b)) = ''sucesso''"
  proof -
    obtain p :: pedido and row :: pedidoVendaRPS where "gerarUm w i (snd (gerarUm w i b))
               = (ignorado i (numero p) msg_rps_ja_existe (numeroRPS row), snd (gerarUm w i b))"
      using gerarUm_repetido [OF s] by blast
    then show ?thesis using r by simp
  qed
  then have g: "res_status (fst (gerarUm w i b)) = ''sucesso'' \<longrightarrow>
        res_status (fst (gerarUm w i (snd (gerarUm w i b)))) = ''ignorado''
        \<and> res_mensagem (fst (gerarUm w i (snd (gerarUm w i b)))) = msg_rps_ja_existe
        \<and> snd (gerarUm w i (snd (gerarUm w i b))) = snd (gerarUm w i b)"
    by (rule impI)
  have l: "map res_status (ger_resultados (fst (gerarRPSParaPedidos w [i] b))) = [''sucesso''] \<longrightarrow>
        map res_status (ger_resultados
            (fst (gerarRPSParaPedidos w [i] (snd (gerarRPSParaPedidos w [i] b))))) = [''ignorado'']
        \<and> map res_mensagem (ger_resultados
            (fst (gerarRPSParaPedidos w [i] (snd (gerarRPSParaPedidos w [i] b))))) = [msg_rps_ja_existe]
        \<and> snd (gerarRPSParaPedidos w [i] (snd (gerarRPSParaPedidos w [i] b)))
            = snd (gerarRPSParaPedidos w [i] b)"
  proof
    assume "map res_status (ger_resultados (fst (gerarRPSParaPedidos w [i] b))) = [''sucesso'']"
    then have "res_status (fst (gerarUm w i b)) = ''sucesso''"
      by (simp add: gerarRPSParaPedidos_um)
    from g' [OF this] show "map res_status (ger_resultados
            (fst (gerarRPSParaPedidos w [i] (snd (gerarRPSParaPedidos w [i] b))))) = [''ignorado'']
        \<and> map res_mensagem (ger_resultados
            (fst (gerarRPSParaPedidos w [i] (snd (gerarRPSParaPedidos w [i] b))))) = [msg_rps_ja_existe]
        \<and> snd (gerarRPSParaPedidos w [i] (snd (gerarRPSParaPedidos w [i] b)))
            = snd (gerarRPSParaPedidos w [i] b)"
      by (simp add: gerarRPSParaPedidos_um)
  qed
  note e0 = gerarRPSParaPedidos_Nil [of w b]
  note e1 = gerarRPSParaPedidos_Cons [of w i ids b]
  have su: "pedidos_vendas w i = Inr (Some p) \<and> \<not> isConsumidorFinal p
        \<and> buscarPorPedidoId i b = None
        \<and> contato p = Some cp \<and> contatos w (cp_id cp) = Some ct
        \<and> filtrarServicos w (itens_do_pedido p) = Inr ss \<and> ss \<noteq> []
        \<and> construirPayloadNFSe p (Some ct) ss 2222749 (sorteio w i) (hoje w) = Inr pl
        \<and> nfse_post w pl = Inr (Some resp)
      \<longrightarrow> gerarUm w i b
          = (\<lparr>res_pedidoId = i, res_numeroPedido = numero p, res_status = ''sucesso'',
              res_mensagem = msg_sucesso, res_numeroRPS = criada_numeroRPS resp,
              res_nfseId = Some (criada_id resp)\<rparr>,
             b\<lparr>linhas := linhas b
                  @ [\<lparr>rps_id = proximo_id b, pedidoVendaId = i, numeroPedido = numero p,
                      numeroRPS = Some (ou_texto (criada_numeroRPS resp) (pay_numeroRPS pl)),
                      serie = Some (ou_texto (criada_serie resp) (pay_serie pl)),
                      nfseId = Some (criada_id resp), numeroNFSe = None, status = Pendente,
                      mensagemErro = None, valorTotal = somar_valores ss,
                      nomeCliente = cont_nome ct, dataEmissao = Some (agora w),
                      createdAt = agora w\<rparr>],
               proximo_id := Suc (proximo_id b)\<rparr>)"
    using gerarUm_sucesso [of w i p b cp ct ss pl resp] by blast
  have ex: "pedidos_vendas w i = Inr (Some p) \<and> \<not> isConsumidorFinal p
        \<and> buscarPorPedidoId i b = Some row
      \<longrightarrow> gerarUm w i b = (ignorado i (numero p) msg_rps_ja_existe (numeroRPS row), b)"
    using gerarUm_existente [of w i p b row] by blast
  have li: "res_status (fst (gerarUm w i b)) = ''sucesso''
      \<longrightarrow> (\<exists>nova. linhas (snd (gerarUm w i b)) = linhas b @ [nova] \<and> pedidoVendaId nova = i
              \<and> status nova = Pendente \<and> i \<notin> set (map pedidoVendaId (linhas b)))"
    using gerarUm_sucesso_linha [of w i b] by blast
  have ns: "res_status (fst (gerarUm w i b)) \<noteq> ''sucesso'' \<longrightarrow> snd (gerarUm w i b) = b"
    using gerarUm_sem_sucesso [of w i b] by blast
  have sv: "k < length ids
        \<and> res_status (ger_resultados (fst (gerarRPSParaPedidos w ids b)) ! k) = ''sucesso''
      \<longrightarrow> res_status (ger_resultados
              (fst (gerarRPSParaPedidos w ids (snd (gerarRPSParaPedidos w ids b)))) ! k)
            = ''ignorado''
          \<and> res_mensagem (ger_resultados
              (fst (gerarRPSParaPedidos w ids (snd (gerarRPSParaPedidos w ids b)))) ! k)
            = msg_rps_ja_existe"
    using gerarRPSParaPedidos_segunda_vez [of k ids w b] by blast
  have rp: "j < k \<and> k < length ids \<and> ids ! j = ids ! k
        \<and> res_status (ger_resultados (fst (gerarRPSParaPedidos w ids b)) ! j) = ''sucesso''
      \<longrightarrow> res_status (ger_resultados (fst (gerarRPSParaPedidos w ids b)) ! k) = ''ignorado''
          \<and> res_mensagem (ger_resultados (fst (gerarRPSParaPedidos w ids b)) ! k)
              = msg_rps_ja_existe"
    using gerarRPSParaPedidos_repetido [of j k ids w b] by blast
  show ?thesis
    by (intro conjI) (rule v u c g l e0 e1 su ex li ns sv rp)+
qed

theorem C1_gerar_idempotente_witness:
  "unico banco_vazio
   \<and> map res_status (ger_resultados (fst (gerarRPSParaPedidos ex_bling [1234] banco_vazio)))
       = [''sucesso'']
   \<and> map res_status (ger_resultados (fst (gerarRPSParaPedidos ex_bling [1234]
          (snd (gerarRPSParaPedidos ex_bling [1234] banco_vazio))))) = [''ignorado'']
   \<and> map res_mensagem (ger_resultados (fst (gerarRPSParaPedidos ex_bling [1234]
          (snd (gerarRPSParaPedidos ex_bling [1234] banco_vazio))))) = [msg_rps_ja_existe]
   \<and> map res_status (ger_resultados (fst (gerarRPSParaPedidos ex_bling [1234, 1234] banco_vazio)))
       = [''sucesso'', ''ignorado'']
   \<and> map res_mensagem
         (ger_resultados (fst (gerarRPSParaPedidos ex_bling [1234, 1234] banco_vazio)))
       = [msg_sucesso, msg_rps_ja_existe]
   \<and> ger_processados (fst (gerarRPSParaPedidos ex_bling [1234, 1234] banco_vazio)) = 1
   \<and> map pedidoVendaId (linhas (snd (gerarRPSParaPedidos ex_bling [1234, 1234] banco_vazio)))
       = [1234]
   \<and> unico (snd (gerarRPSParaPedidos ex_bling [1234, 1234] banco_vazio))"
proof -
  let ?w = ex_bling
  let ?cp = "\<lparr>cp_id = 77, cp_numeroDocumento = Some ''123.456.789-09''\<rparr>"
  let ?ss = "[\<lparr>serv_descricao = Some ''Aula'', serv_valor = 150\<rparr>]"
  let ?resp = "\<lparr>criada_id = 9, criada_numeroRPS = None, criada_serie = None\<rparr>"
  let ?b1 = "snd (gerarUm ex_bling 1234 banco_vazio)"
  obtain pl where pl: "construirPayloadNFSe ex_pedido (Some ex_contato) ?ss 2222749
                         (sorteio ex_bling 1234) (hoje ex_bling) = Inr pl"
    by (simp add: construirPayloadNFSe_def Let_def)
  note t = C1_gerar_idempotente [where w = ex_bling and i = 1234 and b = banco_vazio
             and ids = "[1234]" and n = 1 and p = ex_pedido and cp = ?cp and ct = ex_contato
             and ss = ?ss and pl = pl and resp = ?resp and k = 0]
  note t2 = C1_gerar_idempotente [where w = ex_bling and i = 1234 and b = banco_vazio
             and ids = "[1234, 1234]" and j = 0 and k = 1]
  note tn = C1_gerar_idempotente [where w = ex_bling and i = 1234 and b = banco_vazio
             and ids = "[]"]
  note tb = C1_gerar_idempotente [where w = ex_bling and i = 1234 and b = ?b1 and ids = "[]"]
  have u: "unico banco_vazio"
    using t [THEN conjunct1] by (simp add: banco_vazio_def)
  have h: "pedidos_vendas ex_bling 1234 = Inr (Some ex_pedido) \<and> \<not> isConsumidorFinal ex_pedido
        \<and> buscarPorPedidoId 1234 banco_vazio = None
        \<and> contato ex_pedido = Some ?cp \<and> contatos ex_bling (cp_id ?cp) = Some ex_contato
        \<and> filtrarServicos ex_bling (itens_do_pedido ex_pedido) = Inr ?ss \<and> ?ss \<noteq> []
        \<and> construirPayloadNFSe ex_pedido (Some ex_contato) ?ss 2222749
              (sorteio ex_bling 1234) (hoje ex_bling) = Inr pl
        \<and> nfse_post ex_bling pl = Inr (Some ?resp)"
  proof -
    have "pedidos_vendas ex_bling 1234 = Inr (Some ex_pedido)"
      by (simp add: ex_bling_def)
    moreover have "\<not> isConsumidorFinal ex_pedido"
      by (simp add: isConsumidorFinal_def ex_pedido_def verdadeiro_def so_digitos_def
                    eh_digito_def)
    moreover have "buscarPorPedidoId 1234 banco_vazio = None"
      by (simp add: buscarPorPedidoId_def banco_vazio_def)
    moreover have "contato ex_pedido = Some ?cp"
      by (simp add: ex_pedido_def)
    moreover have "contatos ex_bling (cp_id ?cp) = Some ex_contato"
      by (simp add: ex_bling_def)
    moreover have "filtrarServicos ex_bling (itens_do_pedido ex_pedido) = Inr ?ss"
      by (simp add: itens_do_pedido_def ex_pedido_def ex_bling_def verdadeiro_def
                    valor_do_item_def numero_verdadeiro_def)
    moreover have "nfse_post ex_bling pl = Inr (Some ?resp)"
      by (simp add: ex_bling_def)
    ultimately show ?thesis using pl by simp
  qed
  note g0 = t [THEN conjunct2, THEN conjunct2, THEN conjunct2, THEN conjunct2, THEN conjunct2, THEN conjunct2, THEN conjunct2, THEN conjunct1, THEN mp, OF h]
  have s0: "res_status (fst (gerarUm ex_bling 1234 banco_vazio)) = ''sucesso''"
           "res_mensagem (fst (gerarUm ex_bling 1234 banco_vazio)) = msg_sucesso"
    by (simp_all add: g0)
  have k1: "map pedidoVendaId (linhas ?b1) = [1234]"
    unfolding g0 by (simp add: banco_vazio_def)
  note g1 = t [THEN conjunct2, THEN conjunct2, THEN conjunct2, THEN conjunct1, THEN mp, OF s0(1)]
  have um: "gerarRPSParaPedidos ex_bling [1234] banco_vazio
              = (\<lparr>ger_success = True, ger_processados = 1, ger_total = 1,
                  ger_resultados = [fst (gerarUm ex_bling 1234 banco_vazio)]\<rparr>, ?b1)"
    by (simp add: tn [THEN conjunct2, THEN conjunct2, THEN conjunct2, THEN conjunct2, THEN conjunct2, THEN conjunct2, THEN conjunct1] tb [THEN conjunct2, THEN conjunct2, THEN conjunct2, THEN conjunct2, THEN conjunct2, THEN conjunct1] s0)
  have a: "map res_status (ger_resultados (fst (gerarRPSParaPedidos ex_bling [1234] banco_vazio)))
       = [''sucesso'']"
    by (simp add: um s0)
  have k0: "(0::nat) < length [1234::int]
        \<and> res_status (ger_resultados (fst (gerarRPSParaPedidos ex_bling [1234] banco_vazio)) ! 0)
            = ''sucesso''"
    by (simp add: um s0)
  note sv = t [THEN conjunct2, THEN conjunct2, THEN conjunct2, THEN conjunct2, THEN conjunct2, THEN conjunct2, THEN conjunct2, THEN conjunct2, THEN conjunct2, THEN conjunct2, THEN conjunct2, THEN conjunct1, THEN mp, OF k0]
  have len1: "length (ger_resultados (fst (gerarRPSParaPedidos ex_bling [1234]
          (snd (gerarRPSParaPedidos ex_bling [1234] banco_vazio))))) = 1"
    by (simp add: um tb [THEN conjunct2, THEN conjunct2, THEN conjunct2, THEN conjunct2, THEN conjunct2, THEN conjunct2, THEN conjunct1] C1_gerar_idempotente [where w = ex_bling
          and b = "snd (gerarUm ex_bling 1234 ?b1)", THEN conjunct2, THEN conjunct2, THEN conjunct2, THEN conjunct2, THEN conjunct2, THEN conjunct1])
  have b: "map res_status (ger_resultados (fst (gerarRPSParaPedidos ex_bling [1234]
          (snd (gerarRPSParaPedidos ex_bling [1234] banco_vazio))))) = [''ignorado'']
       \<and> map res_mensagem (ger_resultados (fst (gerarRPSParaPedidos ex_bling [1234]
          (snd (gerarRPSParaPedidos ex_bling [1234] banco_vazio))))) = [msg_rps_ja_existe]"
    using sv len1
    by (cases "ger_resultados (fst (gerarRPSParaPedidos ex_bling [1234]
          (snd (gerarRPSParaPedidos ex_bling [1234] banco_vazio))))") simp_all
  have dois: "gerarRPSParaPedidos ex_bling [1234, 1234] banco_vazio
              = (\<lparr>ger_success = True, ger_processados = 1, ger_total = 2,
                  ger_resultados = [fst (gerarUm ex_bling 1234 banco_vazio),
                                    fst (gerarUm ex_bling 1234 ?b1)]\<rparr>, ?b1)"
    by (simp add: t [THEN conjunct2, THEN conjunct2, THEN conjunct2, THEN conjunct2, THEN conjunct2, THEN conjunct2, THEN conjunct1] tb [THEN conjunct2, THEN conjunct2, THEN conjunct2, THEN conjunct2, THEN conjunct2, THEN conjunct2, THEN conjunct1] g1 s0
          C1_gerar_idempotente [where w = ex_bling and b = ?b1, THEN conjunct2, THEN conjunct2, THEN conjunct2, THEN conjunct2, THEN conjunct2, THEN conjunct1])
  have j0: "(0::nat) < 1 \<and> (1::nat) < length [1234::int, 1234]
        \<and> [1234::int, 1234] ! 0 = [1234, 1234] ! 1
        \<and> res_status (ger_resultados
              (fst (gerarRPSParaPedidos ex_bling [1234, 1234] banco_vazio)) ! 0) = ''sucesso''"
    by (simp add: dois s0)
  note rp = t2 [THEN conjunct2, THEN conjunct2, THEN conjunct2, THEN conjunct2, THEN conjunct2, THEN conjunct2, THEN conjunct2, THEN conjunct2, THEN conjunct2, THEN conjunct2, THEN conjunct2, THEN conjunct2, THEN mp, OF j0]
  have c: "map res_status
             (ger_resultados (fst (gerarRPSParaPedidos ex_bling [1234, 1234] banco_vazio)))
             = [''sucesso'', ''ignorado'']"
          "map res_mensagem
             (ger_resultados (fst (gerarRPSParaPedidos ex_bling [1234, 1234] banco_vazio)))
             = [msg_sucesso, msg_rps_ja_existe]"
    using rp by (simp_all add: dois s0)
  have d: "ger_processados (fst (gerarRPSParaPedidos ex_bling [1234, 1234] banco_vazio)) = 1"
          "map pedidoVendaId (linhas (snd (gerarRPSParaPedidos ex_bling [1234, 1234] banco_vazio)))
             = [1234]"
    by (simp_all add: dois k1)
  have e: "unico (snd (gerarRPSParaPedidos ex_bling [1234, 1234] banco_vazio))"
    using t2 [THEN conjunct2, THEN conjunct1, THEN mp, OF u] by simp
  show ?thesis
    using u a b c d e by simp
qed

end
